theory Spec2Isabelle
  imports Main "HOL-Library.Word"
begin

section \<open>Data model of the Installation resource\<close>

text \<open>
  Modelled from the spec: the declarations of the API package \<^verbatim>\<open>operatorv1\<close> are not
  part of the sources at hand. The validator compares the values of its enumerations
  with named constants and prints them with \<^verbatim>\<open>%s\<close>; it has \<^verbatim>\<open>default\<close> branches, and a
  \<^verbatim>\<open>case ""\<close>, for the values it does not know. So the enumerations are strings, as the
  string types of Go are, and a named constant is an abbreviation of a literal: spelled
  as sections 3 and 4.1 of the specification spell the value where they name it (CNI and
  IPAM plugins, providers, encapsulations, dataplanes, BGP, host ports), and after the
  identifier of the Go constant otherwise (variants, component names, update strategy,
  quantity format, name of the endpoint config map).
\<close>

abbreviation PluginCalico :: string where "PluginCalico \<equiv> ''Calico''"
abbreviation PluginGKE :: string where "PluginGKE \<equiv> ''GKE''"
abbreviation PluginAmazonVPC :: string where "PluginAmazonVPC \<equiv> ''AmazonVPC''"
abbreviation PluginAzureVNET :: string where "PluginAzureVNET \<equiv> ''AzureVNET''"

abbreviation CNIPluginTypesString :: "string list" where
  "CNIPluginTypesString \<equiv> [PluginCalico, PluginGKE, PluginAmazonVPC, PluginAzureVNET]"

abbreviation IPAMPluginCalico :: string where "IPAMPluginCalico \<equiv> ''Calico''"
abbreviation IPAMPluginHostLocal :: string where "IPAMPluginHostLocal \<equiv> ''HostLocal''"
abbreviation IPAMPluginAmazonVPC :: string where "IPAMPluginAmazonVPC \<equiv> ''AmazonVPC''"
abbreviation IPAMPluginAzureVNET :: string where "IPAMPluginAzureVNET \<equiv> ''AzureVNET''"

abbreviation ProviderGKE :: string where "ProviderGKE \<equiv> ''GKE''"
abbreviation ProviderEKS :: string where "ProviderEKS \<equiv> ''EKS''"
abbreviation ProviderAKS :: string where "ProviderAKS \<equiv> ''AKS''"

abbreviation EncapsulationNone :: string where "EncapsulationNone \<equiv> ''None''"
abbreviation EncapsulationIPIP :: string where "EncapsulationIPIP \<equiv> ''IPIP''"
abbreviation EncapsulationIPIPCrossSubnet :: string where
  "EncapsulationIPIPCrossSubnet \<equiv> ''IPIPCrossSubnet''"
abbreviation EncapsulationVXLAN :: string where "EncapsulationVXLAN \<equiv> ''VXLAN''"
abbreviation EncapsulationVXLANCrossSubnet :: string where
  "EncapsulationVXLANCrossSubnet \<equiv> ''VXLANCrossSubnet''"

abbreviation LinuxDataplaneIptables :: string where "LinuxDataplaneIptables \<equiv> ''Iptables''"
abbreviation LinuxDataplaneBPF :: string where "LinuxDataplaneBPF \<equiv> ''BPF''"
abbreviation LinuxDataplaneNftables :: string where "LinuxDataplaneNftables \<equiv> ''Nftables''"
abbreviation LinuxDataplaneVPP :: string where "LinuxDataplaneVPP \<equiv> ''VPP''"

abbreviation BGPEnabled :: string where "BGPEnabled \<equiv> ''Enabled''"
abbreviation BGPDisabled :: string where "BGPDisabled \<equiv> ''Disabled''"

abbreviation HostPortsEnabled :: string where "HostPortsEnabled \<equiv> ''Enabled''"
abbreviation HostPortsDisabled :: string where "HostPortsDisabled \<equiv> ''Disabled''"

abbreviation HostPortsTypes :: "string list" where
  "HostPortsTypes \<equiv> [HostPortsEnabled, HostPortsDisabled]"

abbreviation Calico :: string where "Calico \<equiv> ''Calico''"
abbreviation TigeraSecureEnterprise :: string where
  "TigeraSecureEnterprise \<equiv> ''TigeraSecureEnterprise''"

abbreviation NonPrivilegedEnabled :: string where "NonPrivilegedEnabled \<equiv> ''Enabled''"

abbreviation FIPSModeEnabled :: string where "FIPSModeEnabled \<equiv> ''Enabled''"

abbreviation ComponentNameKubeControllers :: string where
  "ComponentNameKubeControllers \<equiv> ''KubeControllers''"
abbreviation ComponentNameNode :: string where "ComponentNameNode \<equiv> ''Node''"
abbreviation ComponentNameTypha :: string where "ComponentNameTypha \<equiv> ''Typha''"

abbreviation RollingUpdateDaemonSetStrategyType :: string where
  "RollingUpdateDaemonSetStrategyType \<equiv> ''RollingUpdate''"

abbreviation BinarySI :: string where "BinarySI \<equiv> ''BinarySI''"

abbreviation K8sSvcEndpointConfigMapName :: string where
  "K8sSvcEndpointConfigMapName \<equiv> ''kubernetes-services-endpoint''"

text \<open>
  Modelled from the spec: section 3 gives \<^verbatim>\<open>cni: {type, ipam: {type}}\<close>; the validator
  reads \<^verbatim>\<open>instance.Spec.CNI.IPAM.Type\<close> without a nil check, so the IPAM
  sub-configuration is a part of the CNI one.
\<close>

record IPAMSpec =
  IPAM_Type :: string

record CNISpec =
  CNI_Type :: string
  IPAM :: IPAMSpec

record IPPool =
  CIDR :: string
  Encapsulation :: string

text \<open>Pointer fields are options (\<open>None\<close> is Go's nil); string fields are empty when unset.\<close>

record NodeAddressAutodetection =
  FirstFound :: "bool option"
  Kubernetes :: "string option"
  Interface :: string
  SkipInterface :: string
  CanReach :: string
  CIDRS :: "string list"

record Sysctl =
  Sysctl_Key :: string
  Sysctl_Value :: string

record CalicoNetworkSpec =
  LinuxDataplane :: "string option"
  BGP :: "string option"
  IPPools :: "IPPool list"
  NodeAddressAutodetectionV4 :: "NodeAddressAutodetection option"
  NodeAddressAutodetectionV6 :: "NodeAddressAutodetection option"
  HostPorts :: "string option"
  MultiInterfaceMode :: "string option"
  ContainerIPForwarding :: "string option"
  Sysctl :: "Sysctl list option"
  LinuxPolicySetupTimeoutSeconds :: "32 word option"

text \<open>
  Of a \<^verbatim>\<open>resource.Quantity\<close> the validator reads the field \<^verbatim>\<open>Format\<close> and the result of
  \<^verbatim>\<open>Value()\<close> (an int64).
\<close>

record Quantity =
  Format :: string
  Quantity_Value :: "64 word"

record CNILogging =
  LogFileMaxCount :: "32 word option"
  LogFileMaxSize :: "Quantity option"
  LogFileMaxAgeDays :: "32 word option"

record Logging =
  Logging_CNI :: "CNILogging option"

text \<open>
  Of the node update strategy the validator compares \<^verbatim>\<open>Type\<close> and prints
  \<^verbatim>\<open>RollingUpdate\<close> with \<^verbatim>\<open>%s\<close>; the second field holds that rendering.
\<close>

record DaemonSetUpdateStrategy =
  Strategy_Type :: string
  RollingUpdate :: string

record ComponentResource =
  ComponentName :: string

record Container =
  Name :: string

text \<open>
  The override structures and the Windows and Azure sub-configurations are only tested
  against nil or handed to validators of other packages.
\<close>

typedecl CalicoNodeDaemonSet
typedecl CalicoNodeWindowsDaemonSet
typedecl CalicoKubeControllersDeployment
typedecl TyphaDeployment
typedecl CSINodeDriverDaemonSet
typedecl WindowsNodeSpec
typedecl Azure

record InstallationSpec =
  Variant :: string
  KubernetesProvider :: string
  CNI :: "CNISpec option"
  CalicoNetwork :: "CalicoNetworkSpec option"
  Logging :: "Logging option"
  FlexVolumePath :: string
  KubeletVolumePluginPath :: string
  NodeUpdateStrategy :: DaemonSetUpdateStrategy
  ControlPlaneNodeSelector :: "(string \<rightharpoonup> string) option"
  ControlPlaneReplicas :: "32 word option"
  ComponentResources :: "ComponentResource list"
  NonPrivileged :: "string option"
  CalicoNodeDaemonSet :: "CalicoNodeDaemonSet option"
  CalicoNodeWindowsDaemonSet :: "CalicoNodeWindowsDaemonSet option"
  CalicoKubeControllersDeployment :: "CalicoKubeControllersDeployment option"
  TyphaDeployment :: "TyphaDeployment option"
  CSINodeDriverDaemonSet :: "CSINodeDriverDaemonSet option"
  ServiceCIDRs :: "string list"
  WindowsNodes :: "WindowsNodeSpec option"
  FIPSMode :: "string option"
  Azure :: "Azure option"

record Installation =
  Spec :: InstallationSpec

subsection \<open>Collaborators of other packages\<close>

text \<open>
  The validator calls functions of packages that are not part of the sources at hand.
  Each is a parameter: a field of \<open>externals\<close> is the function the validator calls,
  returning \<open>None\<close> for a nil error and \<open>Some message\<close> otherwise.
  \<^item> \<open>ParseCIDR_ok c\<close>: \<^verbatim>\<open>net.ParseCIDR(c)\<close> returns a nil error;
  \<^item> \<open>VerifySysctl\<close>: \<^verbatim>\<open>utils.VerifySysctl\<close>;
  \<^item> \<open>GetIPv4Pool\<close>: \<^verbatim>\<open>render.GetIPv4Pool\<close>;
  \<^item> \<open>GetInitContainers\<close>: \<^verbatim>\<open>rcc.GetInitContainers\<close>;
  \<^item> the five \<open>Validate...\<close> fields: \<^verbatim>\<open>validation.ValidateReplicatedPodResourceOverrides\<close>
    with the container validators of the workload.
\<close>

record externals =
  ParseCIDR_ok :: "string \<Rightarrow> bool"
  VerifySysctl :: "Sysctl list \<Rightarrow> string option"
  GetIPv4Pool :: "IPPool list \<Rightarrow> IPPool option"
  GetInitContainers :: "CalicoNodeDaemonSet \<Rightarrow> Container list"
  ValidateCalicoNodeDaemonSet :: "CalicoNodeDaemonSet \<Rightarrow> string option"
  ValidateCalicoNodeWindowsDaemonSet :: "CalicoNodeWindowsDaemonSet \<Rightarrow> string option"
  ValidateCalicoKubeControllersDeployment :: "CalicoKubeControllersDeployment \<Rightarrow> string option"
  ValidateTyphaDeployment :: "TyphaDeployment \<Rightarrow> string option"
  ValidateCSINodeDriverDaemonSet :: "CSINodeDriverDaemonSet \<Rightarrow> string option"

text \<open>
  Modelled from the spec: \<^verbatim>\<open>common.WindowsEnabled\<close> is not part of the sources at hand.
  Section 3 of the specification has the validator read cluster state only through the
  ClusterFacts bundle, which carries the Windows-enablement flag and the service endpoint
  (the package variable \<^verbatim>\<open>k8sapi.Endpoint\<close>). \<open>WindowsEnabled facts\<close> is what the call
  \<^verbatim>\<open>common.WindowsEnabled(instance.Spec)\<close> returns.
\<close>

record ClusterFacts =
  WindowsEnabled :: bool
  Endpoint_Host :: string
  Endpoint_Port :: string

text \<open>
  Modelled from the spec: \<^verbatim>\<open>operatorv1.IsFIPSModeEnabled\<close> is not part of the sources at
  hand. Section 4.1, rule group 9, speaks of "FIPS-mode enabled": the mode is set, to
  the value Enabled.
\<close>

definition IsFIPSModeEnabled :: "string option \<Rightarrow> bool" where
  "IsFIPSModeEnabled mode = (mode = Some FIPSModeEnabled)"

subsection \<open>Library functions\<close>

text \<open>\<^verbatim>\<open>path.IsAbs\<close>: the path is not empty and starts with a slash.\<close>

definition path_IsAbs :: "string \<Rightarrow> bool" where
  "path_IsAbs p = (case p of [] \<Rightarrow> False | c # _ \<Rightarrow> c = CHR ''/'')"

text \<open>\<^verbatim>\<open>strings.Join\<close>.\<close>

fun strings_Join :: "string list \<Rightarrow> string \<Rightarrow> string" where
  "strings_Join [] sep = []"
| "strings_Join [x] sep = x"
| "strings_Join (x # y # ys) sep = x @ sep @ strings_Join (y # ys) sep"

text \<open>
  \<^verbatim>\<open>errors.Join\<close>: nil when every argument is nil, otherwise an error whose message
  is the messages of the non-nil arguments, one per line.
\<close>

definition errors_Join :: "string option \<Rightarrow> string option \<Rightarrow> string option" where
  "errors_Join err err2 =
     (case (err, err2) of
        (None, None) \<Rightarrow> None
      | (Some a, None) \<Rightarrow> Some a
      | (None, Some b) \<Rightarrow> Some b
      | (Some a, Some b) \<Rightarrow> Some (a @ [CHR 0x0A] @ b))"

section \<open>The configuration validator\<close>

subsection \<open>Helper validators\<close>

text \<open>
  \<^verbatim>\<open>validateExclusiveInitContainers\<close>: the loop over the init containers, carrying the
  two flags.
\<close>

fun exclusiveInitContainersLoop :: "bool \<Rightarrow> bool \<Rightarrow> Container list \<Rightarrow> string option" where
  "exclusiveInitContainersLoop hasMountBpffs hasEbpfBootstrap [] = None"
| "exclusiveInitContainersLoop hasMountBpffs hasEbpfBootstrap (c # cs) =
     (let hasMountBpffs' = (if Name c = ''mount-bpffs'' then True else hasMountBpffs);
          hasEbpfBootstrap' = (if Name c = ''ebpf-bootstrap'' then True else hasEbpfBootstrap)
      in if hasMountBpffs' \<and> hasEbpfBootstrap'
         then Some ''Init container names mount-bpffs and ebpf-bootstrap are mutually exclusive, please remove one of them''
         else exclusiveInitContainersLoop hasMountBpffs' hasEbpfBootstrap' cs)"

definition validateExclusiveInitContainers :: "Container list \<Rightarrow> string option" where
  "validateExclusiveInitContainers initContainers =
     exclusiveInitContainersLoop False False initContainers"

text \<open>
  \<^verbatim>\<open>validateNodeAddressDetection\<close>. \<open>numEnabled\<close> is the counter once every increment
  has run; \<open>firstInvalidCIDR\<close> is the loop over \<^verbatim>\<open>ad.CIDRS\<close>, which returns from the
  validator at the first entry that does not parse, before the Kubernetes method is
  counted and before the counter is compared.
\<close>

definition numEnabled :: "NodeAddressAutodetection \<Rightarrow> nat" where
  "numEnabled ad =
     (if length (Interface ad) \<noteq> 0 then 1 else 0)
     + (if length (SkipInterface ad) \<noteq> 0 then 1 else 0)
     + (if length (CanReach ad) \<noteq> 0 then 1 else 0)
     + (if FirstFound ad = Some True then 1 else 0)
     + (if length (CIDRS ad) \<noteq> 0 then 1 else 0)
     + (if Kubernetes ad \<noteq> None then 1 else 0)"

fun firstInvalidCIDR :: "externals \<Rightarrow> string list \<Rightarrow> string option" where
  "firstInvalidCIDR ext [] = None"
| "firstInvalidCIDR ext (c # cs) =
     (if \<not> ParseCIDR_ok ext c
      then Some (''invalid CIDR provided for node address autodetection: '' @ c)
      else firstInvalidCIDR ext cs)"

definition validateNodeAddressDetection ::
  "externals \<Rightarrow> NodeAddressAutodetection \<Rightarrow> string option" where
  "validateNodeAddressDetection ext ad =
     (case (if length (CIDRS ad) \<noteq> 0 then firstInvalidCIDR ext (CIDRS ad) else None) of
        Some e \<Rightarrow> Some e
      | None \<Rightarrow>
          if numEnabled ad > 1
          then Some ''no more than one node address autodetection method can be specified per-family''
          else None)"

text \<open>\<^verbatim>\<open>validateHostPorts\<close>; the loop over \<^verbatim>\<open>HostPortsTypes\<close> sets \<^verbatim>\<open>valid\<close>.\<close>

definition validateHostPorts :: "string option \<Rightarrow> string option" where
  "validateHostPorts hp =
     (case hp of
        None \<Rightarrow> Some (''HostPorts must be set, it should be one of ''
                       @ strings_Join HostPortsTypes '','')
      | Some t \<Rightarrow>
          if \<not> list_ex (\<lambda>t'. t = t') HostPortsTypes
          then Some (t @ '' is invalid for HostPorts, it should be one of ''
                     @ strings_Join HostPortsTypes '','')
          else None)"

subsection \<open>The CNI plugin switch\<close>

text \<open>
  The \<^verbatim>\<open>switch instance.Spec.CNI.Type\<close> of \<^verbatim>\<open>validateCustomResource\<close>. Under the Calico
  plugin the IPAM type is checked first and the CNI logging configuration next; under
  the other plugins the provider is checked before the IPAM type.
\<close>

definition cniLoggingCheck :: "InstallationSpec \<Rightarrow> string option" where
  "cniLoggingCheck spec =
     (case Logging spec of
        None \<Rightarrow> None
      | Some lg \<Rightarrow>
         (case Logging_CNI lg of
            None \<Rightarrow> None
          | Some c \<Rightarrow>
              if (case LogFileMaxCount c of None \<Rightarrow> False | Some n \<Rightarrow> n \<le> 0)
              then Some ''spec.loggingConfig.cni.logFileMaxCount value should be greater than zero''
              else if (case LogFileMaxSize c of
                         None \<Rightarrow> False
                       | Some q \<Rightarrow> Format q \<noteq> BinarySI \<or> sint (Quantity_Value q) \<le> 0)
              then Some ''spec.Logging.cni.logFileMaxSize format is not corrent. Suffix should be Ki | Mi | Gi | Ti | Pi | Ei''
              else if (case LogFileMaxAgeDays c of None \<Rightarrow> False | Some n \<Rightarrow> n \<le> 0)
              then Some ''spec.Logging.cni.logFileMaxAgeDays should be a positive non-zero integer''
              else None))"

definition providerCheck :: "InstallationSpec \<Rightarrow> CNISpec \<Rightarrow> string \<Rightarrow> string option" where
  "providerCheck spec cni native =
     (if KubernetesProvider spec = native \<or> KubernetesProvider spec = []
      then None
      else Some (''spec.kubernetesProvider '' @ KubernetesProvider spec
                 @ '' is not compatible with spec.cni.type '' @ CNI_Type cni))"

definition cniPluginCheck :: "InstallationSpec \<Rightarrow> CNISpec \<Rightarrow> string option" where
  "cniPluginCheck spec cni =
     (if CNI_Type cni = PluginCalico then
        (if IPAM_Type (IPAM cni) = IPAMPluginCalico \<or> IPAM_Type (IPAM cni) = IPAMPluginHostLocal
         then cniLoggingCheck spec
         else Some (''spec.cni.ipam.type '' @ IPAM_Type (IPAM cni)
                    @ '' is not compatible with spec.cni.type '' @ CNI_Type cni
                    @ '', valid IPAM values ''
                    @ strings_Join [IPAMPluginCalico, IPAMPluginHostLocal] '',''))
      else if CNI_Type cni = PluginGKE then
        (case providerCheck spec cni ProviderGKE of
           Some e \<Rightarrow> Some e
         | None \<Rightarrow>
             if IPAM_Type (IPAM cni) = IPAMPluginHostLocal then None
             else Some (''spec.cni.ipam.type '' @ IPAM_Type (IPAM cni)
                        @ '' is not compatible with spec.cni.type '' @ CNI_Type cni
                        @ '', valid IPAM values '' @ IPAMPluginHostLocal))
      else if CNI_Type cni = PluginAmazonVPC then
        (case providerCheck spec cni ProviderEKS of
           Some e \<Rightarrow> Some e
         | None \<Rightarrow>
             if IPAM_Type (IPAM cni) = IPAMPluginAmazonVPC then None
             else Some (''spec.cni.ipam.type  '' @ IPAM_Type (IPAM cni)
                        @ '' is not compatible with spec.cni.type '' @ CNI_Type cni
                        @ '', valid IPAM values '' @ IPAMPluginAmazonVPC))
      else if CNI_Type cni = PluginAzureVNET then
        (case providerCheck spec cni ProviderAKS of
           Some e \<Rightarrow> Some e
         | None \<Rightarrow>
             if IPAM_Type (IPAM cni) = IPAMPluginAzureVNET then None
             else Some (''spec.cni.ipam.type '' @ IPAM_Type (IPAM cni)
                        @ '' is not compatible with spec.cni.type '' @ CNI_Type cni
                        @ '', valid IPAM values '' @ IPAMPluginAzureVNET))
      else Some (''Invalid value '' @ [CHR 0x27] @ CNI_Type cni @ [CHR 0x27]
                 @ '' for spec.cni.type, it should be one of ''
                 @ strings_Join CNIPluginTypesString '',''))"

subsection \<open>The Calico network settings\<close>

text \<open>
  The body of the loop over \<^verbatim>\<open>instance.Spec.CalicoNetwork.IPPools\<close>, in two parts: the
  checks on the address family of the pool, then the checks on its encapsulation. Both
  parts sit inside the loop, so neither runs when the list of pools is empty.
\<close>

definition isIPv4 :: "IPPool \<Rightarrow> bool" where
  "isIPv4 pool = (CHR 0x3A \<notin> set (CIDR pool))"

definition bgpOff :: "CalicoNetworkSpec \<Rightarrow> bool" where
  "bgpOff cn = (BGP cn = None \<or> BGP cn = Some BGPDisabled)"

definition poolFamilyCheck :: "bool \<Rightarrow> CalicoNetworkSpec \<Rightarrow> IPPool \<Rightarrow> string option" where
  "poolFamilyCheck bpfDataplane cn pool =
     (if isIPv4 pool then
        (if bpfDataplane \<and> NodeAddressAutodetectionV4 cn = None
         then Some ''spec.calicoNetwork.nodeAddressAutodetectionV4 is required for the BPF dataplane''
         else None)
      else
        (if Encapsulation pool = EncapsulationIPIP
            \<or> Encapsulation pool = EncapsulationIPIPCrossSubnet
         then Some (''IPIP encapsulation is not supported by IPv6 pools, but it is set for ''
                    @ CIDR pool)
         else if bpfDataplane \<and> NodeAddressAutodetectionV6 cn = None
         then Some ''spec.calicoNetwork.nodeAddressAutodetectionV6 is required for the BPF dataplane''
         else None))"

definition poolEncapCheck :: "CNISpec \<Rightarrow> CalicoNetworkSpec \<Rightarrow> IPPool \<Rightarrow> string option" where
  "poolEncapCheck cni cn pool =
     (if CNI_Type cni = PluginCalico then
        (if IPAM_Type (IPAM cni) = IPAMPluginCalico then
           (if Encapsulation pool = EncapsulationIPIP
               \<or> Encapsulation pool = EncapsulationIPIPCrossSubnet then
              (if bgpOff cn then Some ''IPIP encapsulation requires that BGP is enabled''
               else None)
            else if Encapsulation pool = EncapsulationVXLAN
                    \<or> Encapsulation pool = EncapsulationVXLANCrossSubnet then None
            else if Encapsulation pool = EncapsulationNone then
              (if bgpOff cn then Some ''Unencapsulated IP pools require that BGP is enabled''
               else None)
            else None)
         else if IPAM_Type (IPAM cni) = IPAMPluginHostLocal then
           (if Encapsulation pool = EncapsulationVXLAN
               \<or> Encapsulation pool = EncapsulationVXLANCrossSubnet
            then Some (Encapsulation pool @ '' is invalid for ipPool.encapsulation with ''
                       @ CNI_Type cni @ '' CNI and '' @ IPAM_Type (IPAM cni) @ '' IPAM'')
            else None)
         else None)
      else
        (if Encapsulation pool \<noteq> [] \<and> Encapsulation pool \<noteq> EncapsulationNone
         then Some (Encapsulation pool
                    @ '' is invalid for ipPool.encapsulation when using non-Calico CNI, should be None'')
         else if BGP cn = Some BGPEnabled
         then Some ''BGP is not supported when using non-Calico CNI''
         else None))"

fun ipPoolsLoop ::
  "bool \<Rightarrow> CNISpec \<Rightarrow> CalicoNetworkSpec \<Rightarrow> IPPool list \<Rightarrow> string option" where
  "ipPoolsLoop bpfDataplane cni cn [] = None"
| "ipPoolsLoop bpfDataplane cni cn (pool # pools) =
     (case poolFamilyCheck bpfDataplane cn pool of
        Some e \<Rightarrow> Some e
      | None \<Rightarrow>
         (case poolEncapCheck cni cn pool of
            Some e \<Rightarrow> Some e
          | None \<Rightarrow> ipPoolsLoop bpfDataplane cni cn pools))"

definition vppCheck :: "InstallationSpec \<Rightarrow> CNISpec \<Rightarrow> CalicoNetworkSpec \<Rightarrow> string option" where
  "vppCheck spec cni cn =
     (if LinuxDataplane cn = Some LinuxDataplaneVPP then
        (if Variant spec \<noteq> Calico
         then Some (''The VPP dataplane only supports the Calico variant (configured: ''
                    @ Variant spec @ '')'')
         else if CNI_Type cni \<noteq> PluginCalico
         then Some (''The VPP dataplane only supports the Calico CNI (configured: ''
                    @ CNI_Type cni @ '')'')
         else if bgpOff cn then Some ''VPP requires BGP to be enabled''
         else if HostPorts cn = Some HostPortsDisabled
         then Some (''VPP doesn'' @ [CHR 0x27] @ ''t support disabling HostPorts'')
         else None)
      else None)"

definition autodetectionCheck ::
  "externals \<Rightarrow> NodeAddressAutodetection option \<Rightarrow> string option" where
  "autodetectionCheck ext adopt =
     (case adopt of None \<Rightarrow> None | Some ad \<Rightarrow> validateNodeAddressDetection ext ad)"

definition hostPortsCheck :: "CNISpec \<Rightarrow> CalicoNetworkSpec \<Rightarrow> string option" where
  "hostPortsCheck cni cn =
     (if HostPorts cn \<noteq> None then
        (if HostPorts cn = Some HostPortsEnabled \<and> CNI_Type cni \<noteq> PluginCalico
         then Some ''spec.calicoNetwork.hostPorts is supported only for Calico CNI''
         else validateHostPorts (HostPorts cn))
      else None)"

definition calicoOnlyFieldsCheck :: "CNISpec \<Rightarrow> CalicoNetworkSpec \<Rightarrow> string option" where
  "calicoOnlyFieldsCheck cni cn =
     (if MultiInterfaceMode cn \<noteq> None \<and> CNI_Type cni \<noteq> PluginCalico
      then Some ''spec.calicoNetwork.multiInterfaceMode is supported only for Calico CNI''
      else if ContainerIPForwarding cn \<noteq> None \<and> CNI_Type cni \<noteq> PluginCalico
      then Some ''spec.calicoNetwork.containerIPForwarding is supported only for Calico CNI''
      else None)"

definition sysctlCheck :: "externals \<Rightarrow> CalicoNetworkSpec \<Rightarrow> string option" where
  "sysctlCheck ext cn =
     (case Sysctl cn of None \<Rightarrow> None | Some pluginData \<Rightarrow> VerifySysctl ext pluginData)"

definition policySetupTimeoutCheck :: "CalicoNetworkSpec \<Rightarrow> string option" where
  "policySetupTimeoutCheck cn =
     (case LinuxPolicySetupTimeoutSeconds cn of
        None \<Rightarrow> None
      | Some t \<Rightarrow>
          if sint t < 0
          then Some ''spec.calicoNetwork.linuxPolicySetupTimeoutSeconds negative value is not valid''
          else (case LinuxDataplane cn of
                  None \<Rightarrow> Some ''spec.calicoNetwork.linuxPolicySetupTimeoutSeconds requires the Iptables Linux dataplane to be set''
                | Some dp \<Rightarrow>
                    if dp \<noteq> LinuxDataplaneIptables \<and> dp \<noteq> LinuxDataplaneBPF
                       \<and> dp \<noteq> LinuxDataplaneNftables
                    then Some ''spec.calicoNetwork.linuxPolicySetupTimeoutSeconds is supported only for the Iptables, Nftables and BPF Linux dataplanes''
                    else None))"

text \<open>The block \<^verbatim>\<open>if instance.Spec.CalicoNetwork != nil\<close>, its checks in source order.\<close>

definition calicoNetworkCheck ::
  "externals \<Rightarrow> InstallationSpec \<Rightarrow> CNISpec \<Rightarrow> string option" where
  "calicoNetworkCheck ext spec cni =
     (case CalicoNetwork spec of
        None \<Rightarrow> None
      | Some cn \<Rightarrow>
         (case ipPoolsLoop (LinuxDataplane cn = Some LinuxDataplaneBPF) cni cn (IPPools cn) of
            Some e \<Rightarrow> Some e
          | None \<Rightarrow>
         (case vppCheck spec cni cn of
            Some e \<Rightarrow> Some e
          | None \<Rightarrow>
         (case autodetectionCheck ext (NodeAddressAutodetectionV4 cn) of
            Some e \<Rightarrow> Some e
          | None \<Rightarrow>
         (case autodetectionCheck ext (NodeAddressAutodetectionV6 cn) of
            Some e \<Rightarrow> Some e
          | None \<Rightarrow>
         (case hostPortsCheck cni cn of
            Some e \<Rightarrow> Some e
          | None \<Rightarrow>
         (case calicoOnlyFieldsCheck cni cn of
            Some e \<Rightarrow> Some e
          | None \<Rightarrow>
         (case sysctlCheck ext cn of
            Some e \<Rightarrow> Some e
          | None \<Rightarrow> policySetupTimeoutCheck cn))))))))"

subsection \<open>Paths, topology, privileges\<close>

definition volumePathsCheck :: "InstallationSpec \<Rightarrow> string option" where
  "volumePathsCheck spec =
     (if FlexVolumePath spec \<noteq> ''None'' \<and> \<not> path_IsAbs (FlexVolumePath spec)
      then Some (''Installation spec.FlexVolumePath '' @ [CHR 0x27] @ FlexVolumePath spec
                 @ [CHR 0x27] @ '' is not an absolute path'')
      else if KubeletVolumePluginPath spec \<noteq> ''None''
              \<and> \<not> path_IsAbs (KubeletVolumePluginPath spec)
      then Some (''Installation spec.KubeletVolumePluginPath '' @ [CHR 0x27]
                 @ KubeletVolumePluginPath spec @ [CHR 0x27] @ '' is not an absolute path'')
      else None)"

definition updateStrategyCheck :: "InstallationSpec \<Rightarrow> string option" where
  "updateStrategyCheck spec =
     (if Strategy_Type (NodeUpdateStrategy spec) \<noteq> RollingUpdateDaemonSetStrategyType
      then Some (''Installation spec.NodeUpdateStrategy.type '' @ [CHR 0x27]
                 @ RollingUpdate (NodeUpdateStrategy spec) @ [CHR 0x27]
                 @ '' is not supported'')
      else None)"

definition osSelectorCheck :: "(string \<rightharpoonup> string) \<Rightarrow> string \<Rightarrow> string option" where
  "osSelectorCheck sel key =
     (case sel key of
        None \<Rightarrow> None
      | Some v \<Rightarrow>
          if v \<noteq> ''linux''
          then Some (''Installation spec.ControlPlaneNodeSelector '' @ [CHR 0x27] @ key
                     @ ''='' @ v @ [CHR 0x27] @ '' is not supported'')
          else None)"

definition nodeSelectorCheck :: "InstallationSpec \<Rightarrow> string option" where
  "nodeSelectorCheck spec =
     (case ControlPlaneNodeSelector spec of
        None \<Rightarrow> None
      | Some sel \<Rightarrow>
         (case osSelectorCheck sel ''beta.kubernetes.io/os'' of
            Some e \<Rightarrow> Some e
          | None \<Rightarrow> osSelectorCheck sel ''kubernetes.io/os''))"

definition replicasCheck :: "InstallationSpec \<Rightarrow> string option" where
  "replicasCheck spec =
     (case ControlPlaneReplicas spec of
        None \<Rightarrow> None
      | Some r \<Rightarrow>
          if sint r \<le> 0
          then Some ''Installation spec.ControlPlaneReplicas should be greater than 0''
          else None)"

definition validComponentNames :: "string set" where
  "validComponentNames =
     {ComponentNameKubeControllers, ComponentNameNode, ComponentNameTypha}"

fun componentResourcesLoop :: "ComponentResource list \<Rightarrow> string option" where
  "componentResourcesLoop [] = None"
| "componentResourcesLoop (resource # rest) =
     (if ComponentName resource \<notin> validComponentNames
      then Some (''Installation spec.ComponentResources.ComponentName ''
                 @ ComponentName resource @ '' is not supported'')
      else componentResourcesLoop rest)"

definition nonPrivilegedCheck :: "InstallationSpec \<Rightarrow> string option" where
  "nonPrivilegedCheck spec =
     (if NonPrivileged spec = Some NonPrivilegedEnabled then
        (if (case CalicoNetwork spec of
               None \<Rightarrow> False
             | Some cn \<Rightarrow> LinuxDataplane cn = Some LinuxDataplaneBPF)
         then Some ''Non-privileged Calico is not supported when BPF dataplane is enabled''
         else if Variant spec = TigeraSecureEnterprise
         then Some (''Non-privileged Calico is not supported for spec.Variant=''
                    @ TigeraSecureEnterprise)
         else None)
      else None)"

subsection \<open>Overrides of the workloads\<close>

definition nodeDaemonSetCheck :: "externals \<Rightarrow> InstallationSpec \<Rightarrow> string option" where
  "nodeDaemonSetCheck ext spec =
     (case CalicoNodeDaemonSet spec of
        None \<Rightarrow> None
      | Some ds \<Rightarrow>
         (let err = ValidateCalicoNodeDaemonSet ext ds;
              err2 = validateExclusiveInitContainers (GetInitContainers ext ds)
          in case errors_Join err err2 of
               None \<Rightarrow> None
             | Some m \<Rightarrow> Some (''Installation spec.CalicoNodeDaemonSet is not valid: '' @ m)))"

definition overrideCheck :: "('a \<Rightarrow> string option) \<Rightarrow> 'a option \<Rightarrow> string \<Rightarrow> string option" where
  "overrideCheck validate ov field =
     (case ov of
        None \<Rightarrow> None
      | Some d \<Rightarrow>
         (case validate d of
            None \<Rightarrow> None
          | Some m \<Rightarrow> Some (''Installation spec.'' @ field @ '' is not valid: '' @ m)))"

definition overridesCheck :: "externals \<Rightarrow> InstallationSpec \<Rightarrow> string option" where
  "overridesCheck ext spec =
     (case nodeDaemonSetCheck ext spec of
        Some e \<Rightarrow> Some e
      | None \<Rightarrow>
     (case overrideCheck (ValidateCalicoNodeWindowsDaemonSet ext)
             (CalicoNodeWindowsDaemonSet spec) ''CalicoNodeWindowsDaemonSet'' of
        Some e \<Rightarrow> Some e
      | None \<Rightarrow>
     (case overrideCheck (ValidateCalicoKubeControllersDeployment ext)
             (CalicoKubeControllersDeployment spec) ''CalicoKubeControllersDeployment'' of
        Some e \<Rightarrow> Some e
      | None \<Rightarrow>
     (case overrideCheck (ValidateTyphaDeployment ext)
             (TyphaDeployment spec) ''TyphaDeployment'' of
        Some e \<Rightarrow> Some e
      | None \<Rightarrow>
          overrideCheck (ValidateCSINodeDriverDaemonSet ext)
            (CSINodeDriverDaemonSet spec) ''CSINodeDriverDaemonSet''))))"

subsection \<open>Logging of other plugins, Windows, FIPS, Azure\<close>

definition nonCalicoLoggingCheck :: "InstallationSpec \<Rightarrow> CNISpec \<Rightarrow> string option" where
  "nonCalicoLoggingCheck spec cni =
     (if CNI_Type cni \<noteq> PluginCalico
         \<and> (case Logging spec of None \<Rightarrow> False | Some lg \<Rightarrow> Logging_CNI lg \<noteq> None)
      then Some ''Installation spec.Logging.cni is not valid and should not be provided when spec.cni.type is Not Calico''
      else None)"

definition windowsCheck ::
  "externals \<Rightarrow> ClusterFacts \<Rightarrow> InstallationSpec \<Rightarrow> CNISpec \<Rightarrow> string option" where
  "windowsCheck ext facts spec cni =
     (if WindowsEnabled facts then
        (if Endpoint_Host facts = [] \<or> Endpoint_Port facts = []
         then Some (''Services endpoint configmap '' @ [CHR 0x27] @ K8sSvcEndpointConfigMapName
                    @ [CHR 0x27]
                    @ '' does not have all required information for Calico Windows daemonset configuration'')
         else if CNI_Type cni = PluginCalico then
           (if length (ServiceCIDRs spec) = 0
            then Some ''Installation spec.ServiceCIDRs must be provided when using Calico CNI on Windows''
            else (case CalicoNetwork spec of
                    None \<Rightarrow> None
                  | Some cn \<Rightarrow>
                     (case GetIPv4Pool ext (IPPools cn) of
                        None \<Rightarrow> None
                      | Some v4pool \<Rightarrow>
                          if Encapsulation v4pool \<noteq> EncapsulationVXLAN
                             \<and> Encapsulation v4pool \<noteq> EncapsulationNone
                          then Some (''IPv4 IPPool encapsulation '' @ Encapsulation v4pool
                                     @ '' is not supported by Calico for Windows'')
                          else None)))
         else None)
      else
        (if WindowsNodes spec \<noteq> None
         then Some ''Installation spec.WindowsNodes is not valid and should not be provided when Calico for Windows is disabled''
         else None))"

definition fipsCheck :: "InstallationSpec \<Rightarrow> string option" where
  "fipsCheck spec =
     (if IsFIPSModeEnabled (FIPSMode spec) \<and> Variant spec = TigeraSecureEnterprise
      then Some (''Installation spec.FIPSMode=''
                 @ (case FIPSMode spec of None \<Rightarrow> [] | Some m \<Rightarrow> m)
                 @ '' combined with spec.Variant='' @ Variant spec @ '' is not supported'')
      else None)"

definition azureCheck :: "InstallationSpec \<Rightarrow> string option" where
  "azureCheck spec =
     (if KubernetesProvider spec \<noteq> ProviderAKS \<and> Azure spec \<noteq> None
      then Some ''Installation spec.Azure should be set only for AKS provider''
      else None)"

subsection \<open>validateCustomResource\<close>

text \<open>
  The checks in the order of the source; the first one that fails is returned and the
  later ones are not run. \<open>None\<close> is the nil error.
\<close>

definition validateCustomResource ::
  "externals \<Rightarrow> ClusterFacts \<Rightarrow> Installation \<Rightarrow> string option" where
  "validateCustomResource ext facts instance =
     (case CNI (Spec instance) of
        None \<Rightarrow> Some ''spec.cni must be defined''
      | Some cni \<Rightarrow>
     (case cniPluginCheck (Spec instance) cni of
        Some e \<Rightarrow> Some e
      | None \<Rightarrow>
     (case calicoNetworkCheck ext (Spec instance) cni of
        Some e \<Rightarrow> Some e
      | None \<Rightarrow>
     (case volumePathsCheck (Spec instance) of
        Some e \<Rightarrow> Some e
      | None \<Rightarrow>
     (case updateStrategyCheck (Spec instance) of
        Some e \<Rightarrow> Some e
      | None \<Rightarrow>
     (case nodeSelectorCheck (Spec instance) of
        Some e \<Rightarrow> Some e
      | None \<Rightarrow>
     (case replicasCheck (Spec instance) of
        Some e \<Rightarrow> Some e
      | None \<Rightarrow>
     (case componentResourcesLoop (ComponentResources (Spec instance)) of
        Some e \<Rightarrow> Some e
      | None \<Rightarrow>
     (case nonPrivilegedCheck (Spec instance) of
        Some e \<Rightarrow> Some e
      | None \<Rightarrow>
     (case overridesCheck ext (Spec instance) of
        Some e \<Rightarrow> Some e
      | None \<Rightarrow>
     (case nonCalicoLoggingCheck (Spec instance) cni of
        Some e \<Rightarrow> Some e
      | None \<Rightarrow>
     (case windowsCheck ext facts (Spec instance) cni of
        Some e \<Rightarrow> Some e
      | None \<Rightarrow>
     (case fipsCheck (Spec instance) of
        Some e \<Rightarrow> Some e
      | None \<Rightarrow> azureCheck (Spec instance))))))))))))))"

subsection \<open>validateCustomResource as a procedure\<close>

text \<open>
  \<^verbatim>\<open>validateCustomResource\<close> gets a pointer to the installation and reads the package
  variable \<^verbatim>\<open>k8sapi.Endpoint\<close>. What a call can write to is the installation behind the
  pointer and the variables of the packages: the world. In the definitions above the
  validator is a function of what it reads; here it is the same sequence of statements
  as a procedure, which takes the world and returns the world it leaves.

  Some of the functions of other packages that the validator calls are handed a pointer
  into the installation, and can write through it: \<^verbatim>\<open>utils.VerifySysctl\<close> gets the slice
  of sysctl settings, \<^verbatim>\<open>validation.ValidateReplicatedPodResourceOverrides\<close> and
  \<^verbatim>\<open>rcc.GetInitContainers\<close> get the pointer to an override structure,
  \<^verbatim>\<open>render.GetIPv4Pool\<close> gets the slice of pools. Each is a parameter that takes the
  world with its argument and returns the world it leaves with its result; nothing is
  assumed about what it writes. \<^verbatim>\<open>net.ParseCIDR\<close> gets a string, which no Go code can
  change, and no pointer: it stays a function. The Windows-enablement flag is read from
  the cluster facts of the world, and the test of the FIPS mode is the one given with the
  data model.
\<close>

record world =
  installation :: Installation
  clusterFacts :: ClusterFacts

record collaborators =
  net_ParseCIDR_ok :: "string \<Rightarrow> bool"
  call_VerifySysctl :: "Sysctl list \<Rightarrow> world \<Rightarrow> string option \<times> world"
  call_GetIPv4Pool :: "IPPool list \<Rightarrow> world \<Rightarrow> IPPool option \<times> world"
  call_GetInitContainers :: "CalicoNodeDaemonSet \<Rightarrow> world \<Rightarrow> Container list \<times> world"
  call_ValidateCalicoNodeDaemonSet :: "CalicoNodeDaemonSet \<Rightarrow> world \<Rightarrow> string option \<times> world"
  call_ValidateCalicoNodeWindowsDaemonSet ::
    "CalicoNodeWindowsDaemonSet \<Rightarrow> world \<Rightarrow> string option \<times> world"
  call_ValidateCalicoKubeControllersDeployment ::
    "CalicoKubeControllersDeployment \<Rightarrow> world \<Rightarrow> string option \<times> world"
  call_ValidateTyphaDeployment :: "TyphaDeployment \<Rightarrow> world \<Rightarrow> string option \<times> world"
  call_ValidateCSINodeDriverDaemonSet ::
    "CSINodeDriverDaemonSet \<Rightarrow> world \<Rightarrow> string option \<times> world"

text \<open>
  The answers that the collaborators give in the world \<open>w\<close>, as the functions that the
  definitions above take.
\<close>

definition answersIn :: "collaborators \<Rightarrow> world \<Rightarrow> externals" where
  "answersIn ext w =
     \<lparr> ParseCIDR_ok = net_ParseCIDR_ok ext,
       VerifySysctl = (\<lambda>x. fst (call_VerifySysctl ext x w)),
       GetIPv4Pool = (\<lambda>x. fst (call_GetIPv4Pool ext x w)),
       GetInitContainers = (\<lambda>x. fst (call_GetInitContainers ext x w)),
       ValidateCalicoNodeDaemonSet = (\<lambda>x. fst (call_ValidateCalicoNodeDaemonSet ext x w)),
       ValidateCalicoNodeWindowsDaemonSet =
         (\<lambda>x. fst (call_ValidateCalicoNodeWindowsDaemonSet ext x w)),
       ValidateCalicoKubeControllersDeployment =
         (\<lambda>x. fst (call_ValidateCalicoKubeControllersDeployment ext x w)),
       ValidateTyphaDeployment = (\<lambda>x. fst (call_ValidateTyphaDeployment ext x w)),
       ValidateCSINodeDriverDaemonSet = (\<lambda>x. fst (call_ValidateCSINodeDriverDaemonSet ext x w)) \<rparr>"

text \<open>
  How a call of the validator ends: it returns its error (\<open>None\<close> is nil), or it panics
  on a nil pointer. The source reads \<^verbatim>\<open>instance.Spec.CNI.Type\<close> and the fields of
  \<^verbatim>\<open>instance.Spec.CalicoNetwork\<close> again after calls of collaborators, with no new test
  of the pointer; should a collaborator have set the pointer to nil, the read panics.
\<close>

datatype verdict = Returned "string option" | Panicked

text \<open>
  \<open>reading\<close> is a test that only reads the installation. \<open>proceed\<close> is the
  \<^verbatim>\<open>if err != nil { return err }\<close> between two steps: the later step runs in the world
  the earlier one has left, and only when that one has found no error.
\<close>

definition reading :: "(InstallationSpec \<Rightarrow> string option) \<Rightarrow> world \<Rightarrow> verdict \<times> world" where
  "reading test w = (Returned (test (Spec (installation w))), w)"

definition proceed ::
  "verdict \<times> world \<Rightarrow> (world \<Rightarrow> verdict \<times> world) \<Rightarrow> verdict \<times> world" where
  "proceed r next =
     (case r of
        (Returned None, w) \<Rightarrow> next w
      | (Returned (Some e), w) \<Rightarrow> (Returned (Some e), w)
      | (Panicked, w) \<Rightarrow> (Panicked, w))"

text \<open>
  The block \<^verbatim>\<open>if instance.Spec.CalicoNetwork != nil\<close>. Up to the test of
  \<^verbatim>\<open>containerIPForwarding\<close> it calls no collaborator that gets a pointer. Then
  \<^verbatim>\<open>utils.VerifySysctl\<close> runs on \<^verbatim>\<open>pluginData\<close>, and the tests of
  \<^verbatim>\<open>linuxPolicySetupTimeoutSeconds\<close> read \<^verbatim>\<open>instance.Spec.CalicoNetwork\<close> in the world
  that call has left.
\<close>

definition calicoNetworkReads ::
  "collaborators \<Rightarrow> InstallationSpec \<Rightarrow> CNISpec \<Rightarrow> CalicoNetworkSpec \<Rightarrow> world \<Rightarrow> string option"
  where
  "calicoNetworkReads ext spec cni cn w =
     (case ipPoolsLoop (LinuxDataplane cn = Some LinuxDataplaneBPF) cni cn (IPPools cn) of
        Some e \<Rightarrow> Some e
      | None \<Rightarrow>
     (case vppCheck spec cni cn of
        Some e \<Rightarrow> Some e
      | None \<Rightarrow>
     (case autodetectionCheck (answersIn ext w) (NodeAddressAutodetectionV4 cn) of
        Some e \<Rightarrow> Some e
      | None \<Rightarrow>
     (case autodetectionCheck (answersIn ext w) (NodeAddressAutodetectionV6 cn) of
        Some e \<Rightarrow> Some e
      | None \<Rightarrow>
     (case hostPortsCheck cni cn of
        Some e \<Rightarrow> Some e
      | None \<Rightarrow> calicoOnlyFieldsCheck cni cn)))))"

definition sysctlCheck_proc ::
  "collaborators \<Rightarrow> CalicoNetworkSpec \<Rightarrow> world \<Rightarrow> verdict \<times> world" where
  "sysctlCheck_proc ext cn w =
     (case Sysctl cn of
        None \<Rightarrow> (Returned None, w)
      | Some pluginData \<Rightarrow>
         (case call_VerifySysctl ext pluginData w of
            (err, w1) \<Rightarrow> (Returned err, w1)))"

definition policySetupTimeoutCheck_proc :: "world \<Rightarrow> verdict \<times> world" where
  "policySetupTimeoutCheck_proc w =
     (case CalicoNetwork (Spec (installation w)) of
        None \<Rightarrow> (Panicked, w)
      | Some cn \<Rightarrow> (Returned (policySetupTimeoutCheck cn), w))"

definition calicoNetworkCheck_proc ::
  "collaborators \<Rightarrow> CNISpec \<Rightarrow> world \<Rightarrow> verdict \<times> world" where
  "calicoNetworkCheck_proc ext cni w =
     (case CalicoNetwork (Spec (installation w)) of
        None \<Rightarrow> (Returned None, w)
      | Some cn \<Rightarrow>
          proceed (Returned (calicoNetworkReads ext (Spec (installation w)) cni cn w), w)
            (\<lambda>w. proceed (sysctlCheck_proc ext cn w) policySetupTimeoutCheck_proc))"

text \<open>
  The overrides of the workloads. For the node daemon set both
  \<^verbatim>\<open>ValidateReplicatedPodResourceOverrides\<close> and \<^verbatim>\<open>rcc.GetInitContainers\<close> run, in this
  order, on the pointer \<^verbatim>\<open>ds\<close> read before the first of them.
\<close>

definition nodeDaemonSetCheck_proc :: "collaborators \<Rightarrow> world \<Rightarrow> verdict \<times> world" where
  "nodeDaemonSetCheck_proc ext w =
     (case CalicoNodeDaemonSet (Spec (installation w)) of
        None \<Rightarrow> (Returned None, w)
      | Some ds \<Rightarrow>
         (case call_ValidateCalicoNodeDaemonSet ext ds w of
            (err, w1) \<Rightarrow>
             (case call_GetInitContainers ext ds w1 of
                (initContainers, w2) \<Rightarrow>
                 (case errors_Join err (validateExclusiveInitContainers initContainers) of
                    None \<Rightarrow> (Returned None, w2)
                  | Some m \<Rightarrow>
                      (Returned (Some (''Installation spec.CalicoNodeDaemonSet is not valid: '' @ m)),
                       w2)))))"

definition overrideCheck_proc ::
  "('a \<Rightarrow> world \<Rightarrow> string option \<times> world) \<Rightarrow> (InstallationSpec \<Rightarrow> 'a option) \<Rightarrow> string
   \<Rightarrow> world \<Rightarrow> verdict \<times> world" where
  "overrideCheck_proc validate field name w =
     (case field (Spec (installation w)) of
        None \<Rightarrow> (Returned None, w)
      | Some d \<Rightarrow>
         (case validate d w of
            (None, w1) \<Rightarrow> (Returned None, w1)
          | (Some m, w1) \<Rightarrow>
              (Returned (Some (''Installation spec.'' @ name @ '' is not valid: '' @ m)), w1)))"

definition overridesCheck_proc :: "collaborators \<Rightarrow> world \<Rightarrow> verdict \<times> world" where
  "overridesCheck_proc ext w =
     proceed (nodeDaemonSetCheck_proc ext w)
       (\<lambda>w. proceed (overrideCheck_proc (call_ValidateCalicoNodeWindowsDaemonSet ext)
                       CalicoNodeWindowsDaemonSet ''CalicoNodeWindowsDaemonSet'' w)
       (\<lambda>w. proceed (overrideCheck_proc (call_ValidateCalicoKubeControllersDeployment ext)
                       CalicoKubeControllersDeployment ''CalicoKubeControllersDeployment'' w)
       (\<lambda>w. proceed (overrideCheck_proc (call_ValidateTyphaDeployment ext)
                       TyphaDeployment ''TyphaDeployment'' w)
       (overrideCheck_proc (call_ValidateCSINodeDriverDaemonSet ext)
          CSINodeDriverDaemonSet ''CSINodeDriverDaemonSet''))))"

text \<open>
  The Windows block. \<^verbatim>\<open>render.GetIPv4Pool\<close> is its last statement but for the test of
  the pool it returns.
\<close>

definition windowsCheck_proc :: "collaborators \<Rightarrow> CNISpec \<Rightarrow> world \<Rightarrow> verdict \<times> world" where
  "windowsCheck_proc ext cni w =
     (if WindowsEnabled (clusterFacts w) then
        (if Endpoint_Host (clusterFacts w) = [] \<or> Endpoint_Port (clusterFacts w) = []
         then (Returned (Some (''Services endpoint configmap '' @ [CHR 0x27]
                 @ K8sSvcEndpointConfigMapName @ [CHR 0x27]
                 @ '' does not have all required information for Calico Windows daemonset configuration'')),
               w)
         else if CNI_Type cni = PluginCalico then
           (if length (ServiceCIDRs (Spec (installation w))) = 0
            then (Returned (Some ''Installation spec.ServiceCIDRs must be provided when using Calico CNI on Windows''),
                  w)
            else (case CalicoNetwork (Spec (installation w)) of
                    None \<Rightarrow> (Returned None, w)
                  | Some cn \<Rightarrow>
                     (case call_GetIPv4Pool ext (IPPools cn) w of
                        (None, w1) \<Rightarrow> (Returned None, w1)
                      | (Some v4pool, w1) \<Rightarrow>
                          if Encapsulation v4pool \<noteq> EncapsulationVXLAN
                             \<and> Encapsulation v4pool \<noteq> EncapsulationNone
                          then (Returned (Some (''IPv4 IPPool encapsulation '' @ Encapsulation v4pool
                                  @ '' is not supported by Calico for Windows'')),
                                w1)
                          else (Returned None, w1))))
         else (Returned None, w))
      else
        (if WindowsNodes (Spec (installation w)) \<noteq> None
         then (Returned (Some ''Installation spec.WindowsNodes is not valid and should not be provided when Calico for Windows is disabled''),
               w)
         else (Returned None, w)))"

text \<open>
  The tests from \<^verbatim>\<open>Verify CNILogging to not exist for non-calico cni\<close> to the end. The
  first of them reads \<^verbatim>\<open>instance.Spec.CNI.Type\<close> in the world the validators of the
  overrides have left.
\<close>

definition afterOverrides :: "collaborators \<Rightarrow> world \<Rightarrow> verdict \<times> world" where
  "afterOverrides ext w =
     (case CNI (Spec (installation w)) of
        None \<Rightarrow> (Panicked, w)
      | Some cni \<Rightarrow>
          proceed (reading (\<lambda>spec. nonCalicoLoggingCheck spec cni) w)
            (\<lambda>w. proceed (windowsCheck_proc ext cni w)
            (\<lambda>w. proceed (reading fipsCheck w) (reading azureCheck))))"

text \<open>The validator: the steps in the order of the source.\<close>

definition validateCustomResource_proc :: "collaborators \<Rightarrow> world \<Rightarrow> verdict \<times> world" where
  "validateCustomResource_proc ext w =
     (case CNI (Spec (installation w)) of
        None \<Rightarrow> (Returned (Some ''spec.cni must be defined''), w)
      | Some cni \<Rightarrow>
          proceed (reading (\<lambda>spec. cniPluginCheck spec cni) w)
            (\<lambda>w. proceed (calicoNetworkCheck_proc ext cni w)
            (\<lambda>w. proceed (reading volumePathsCheck w)
            (\<lambda>w. proceed (reading updateStrategyCheck w)
            (\<lambda>w. proceed (reading nodeSelectorCheck w)
            (\<lambda>w. proceed (reading replicasCheck w)
            (\<lambda>w. proceed (reading (\<lambda>spec. componentResourcesLoop (ComponentResources spec)) w)
            (\<lambda>w. proceed (reading nonPrivilegedCheck w)
            (\<lambda>w. proceed (overridesCheck_proc ext w) (afterOverrides ext))))))))))"

section \<open>The lifecycle coordinator\<close>

subsection \<open>The preflight check of the log storage\<close>

text \<open>
  \<^verbatim>\<open>verifyConfiguration\<close> asks the cluster for one secret. The result of
  \<^verbatim>\<open>cs.CoreV1().Secrets(namespace).Get(ctx, name, ...)\<close> is a secret (nil error), an
  error that \<^verbatim>\<open>errors.IsNotFound\<close> recognises, or another error with its text. The
  clientset is the function from namespace and name to that result.

  The namespace and the two secret names are constants of packages that are not part of
  the sources at hand (\<^verbatim>\<open>render.ElasticsearchNamespace\<close>,
  \<^verbatim>\<open>render.TigeraElasticsearchInternalCertSecret\<close>, \<^verbatim>\<open>logstorage.ExternalCertsSecret\<close>); they
  are parameters. Of the options the function reads \<^verbatim>\<open>ElasticExternal\<close> only.
\<close>

datatype secret_get = SecretFound | SecretNotFound | SecretError string

type_synonym clientset = "string \<Rightarrow> string \<Rightarrow> secret_get"

record secret_names =
  ElasticsearchNamespace :: string
  TigeraElasticsearchInternalCertSecret :: string
  ExternalCertsSecret :: string

record AddOptions =
  ElasticExternal :: bool

definition verifyConfiguration ::
  "secret_names \<Rightarrow> clientset \<Rightarrow> AddOptions \<Rightarrow> string option" where
  "verifyConfiguration names cs opts =
     (if ElasticExternal opts then
        (case cs (ElasticsearchNamespace names) (TigeraElasticsearchInternalCertSecret names) of
           SecretNotFound \<Rightarrow> None
         | SecretError err \<Rightarrow>
             Some (''unexpected error encountered when confirming elastic is not currently internal: ''
                   @ err)
         | SecretFound \<Rightarrow>
             Some (''refusing to run: configured as external ES but secret/''
                   @ TigeraElasticsearchInternalCertSecret names
                   @ '' found which suggests internal ES''))
      else
        (case cs (ElasticsearchNamespace names) (ExternalCertsSecret names) of
           SecretNotFound \<Rightarrow> None
         | SecretError err \<Rightarrow>
             Some (''unexpected error encountered when confirming elastic is not currently external: ''
                   @ err)
         | SecretFound \<Rightarrow>
             Some (''refusing to run: configured as internal-es but secret/''
                   @ ExternalCertsSecret names
                   @ '' found which suggests external ES'')))"

text \<open>
  The call in \<^verbatim>\<open>main\<close>: an error is logged and the process exits with code 1; \<open>None\<close>
  means that \<^verbatim>\<open>main\<close> goes on to register the controllers.
\<close>

definition main_verifyConfiguration ::
  "secret_names \<Rightarrow> clientset \<Rightarrow> AddOptions \<Rightarrow> int option" where
  "main_verifyConfiguration names cs opts =
     (case verifyConfiguration names cs opts of
        Some err \<Rightarrow> Some 1
      | None \<Rightarrow> None)"

subsection \<open>The termination watcher\<close>

text \<open>
  The goroutine that \<^verbatim>\<open>main\<close> starts to handle termination, from the point where the
  signal has arrived. Time is a \<^verbatim>\<open>time.Duration\<close>: a number of nanoseconds.

  The cluster is the sequence of the answers to the calls of
  \<^verbatim>\<open>client.Get(ctx, utils.DefaultInstanceKey, instance)\<close>: the \<open>k\<close>-th call gets
  \<open>api k\<close>, an outcome and the time the call takes. The outcome is the error that
  \<^verbatim>\<open>errors.IsNotFound\<close> recognises, another error with its text, or the object read, of
  which the watcher uses the deletion timestamp only.
\<close>

abbreviation Second :: nat where "Second \<equiv> 1000000000"

datatype get_result = NotFound | GetError string | Found "nat option"

record reply =
  result :: get_result
  took :: nat

type_synonym cluster = "nat \<Rightarrow> reply"

text \<open>
  What the watcher does is recorded in a trace: a call of the client with the time at
  which it is issued, a sleep with its length, a log line, and the deferred
  \<^verbatim>\<open>cancel()\<close> of the main context.
\<close>

datatype level = Info | Warning | Error

datatype event = Queried nat | Slept nat | Logged level string | Cancelled

record run =
  clock :: nat
  calls :: nat
  trace :: "event list"

definition client_Get :: "cluster \<Rightarrow> run \<Rightarrow> run" where
  "client_Get api st =
     st \<lparr> clock := clock st + took (api (calls st)),
          calls := calls st + 1,
          trace := trace st @ [Queried (clock st)] \<rparr>"

definition time_Sleep :: "nat \<Rightarrow> run \<Rightarrow> run" where
  "time_Sleep d st = st \<lparr> clock := clock st + d, trace := trace st @ [Slept d] \<rparr>"

definition logf :: "level \<Rightarrow> string \<Rightarrow> run \<Rightarrow> run" where
  "logf lvl msg st = st \<lparr> trace := trace st @ [Logged lvl msg] \<rparr>"

definition cancel :: "run \<Rightarrow> run" where
  "cancel st = st \<lparr> trace := trace st @ [Cancelled] \<rparr>"

text \<open>The five \<^verbatim>\<open>return\<close> statements of the goroutine.\<close>

datatype outcome =
  NoInstallation | TooManyRetries | NotTerminating | GracefulComplete | TimedOut

text \<open>
  The first loop: query until an answer arrives. \<open>Inr d\<close> is the \<^verbatim>\<open>break\<close> with the
  deletion timestamp of the object read; \<open>Inl\<close> is a \<^verbatim>\<open>return\<close> from inside the loop.
\<close>

function queryLoop :: "cluster \<Rightarrow> nat \<Rightarrow> run \<Rightarrow> (outcome + nat option) \<times> run" where
  "queryLoop api retries st =
     (case result (api (calls st)) of
        NotFound \<Rightarrow> (Inl NoInstallation, client_Get api st)
      | GetError err \<Rightarrow>
          if retries \<ge> 5
          then (Inl TooManyRetries,
                logf Error (''Too many retries, exiting with error: '' @ err) (client_Get api st))
          else queryLoop api (retries + 1)
                 (time_Sleep (1 * Second)
                    (logf Error (''Error querying Installation, will retry: '' @ err)
                       (client_Get api st)))
      | Found d \<Rightarrow> (Inr d, client_Get api st))"
  by pat_completeness auto
termination
  by (relation "measure (\<lambda>(api, retries, st). 5 - retries)") auto

text \<open>
  The second loop: \<^verbatim>\<open>select\<close> takes the timeout case when the channel of
  \<^verbatim>\<open>time.After\<close> is ready, that is when the clock has reached the deadline, and the
  default case otherwise. The default case queries and then sleeps.
\<close>

function waitLoop :: "cluster \<Rightarrow> nat \<Rightarrow> run \<Rightarrow> outcome \<times> run" where
  "waitLoop api deadline st =
     (if deadline \<le> clock st
      then (TimedOut, logf Warning ''Timed out waiting for graceful shutdown to complete'' st)
      else
        (case result (api (calls st)) of
           NotFound \<Rightarrow>
             (GracefulComplete, logf Info ''Graceful termination complete'' (client_Get api st))
         | GetError err \<Rightarrow>
             waitLoop api deadline
               (time_Sleep (1 * Second)
                  (logf Error (''Error querying Installation: '' @ err) (client_Get api st)))
         | Found d \<Rightarrow>
             waitLoop api deadline (time_Sleep (1 * Second) (client_Get api st))))"
  by pat_completeness auto
termination
  by (relation "measure (\<lambda>(api, deadline, st). deadline - clock st)")
     (auto simp: client_Get_def time_Sleep_def logf_def)

text \<open>
  The goroutine. \<^verbatim>\<open>defer cancel()\<close> runs at every return. The length of the wait
  is \<^verbatim>\<open>60 * time.Second\<close>, which \<^verbatim>\<open>%s\<close> prints as \<^verbatim>\<open>1m0s\<close>.
\<close>

definition terminationWatcher :: "cluster \<Rightarrow> run \<Rightarrow> outcome \<times> run" where
  "terminationWatcher api st =
     (case queryLoop api 0 st of
        (Inl out, st1) \<Rightarrow> (out, cancel st1)
      | (Inr None, st1) \<Rightarrow> (NotTerminating, cancel st1)
      | (Inr (Some deletionTimestamp), st1) \<Rightarrow>
          (let to = 60 * Second;
               st2 = logf Info ''Waiting up to 1m0s for graceful termination to complete'' st1;
               (out, st3) = waitLoop api (clock st2 + to) st2
           in (out, cancel st3)))"

declare queryLoop.simps [simp del] waitLoop.simps [simp del]

subsection \<open>Concrete inputs\<close>

text \<open>
  Inputs on which the theorems below are instantiated. \<open>lenientExternals\<close> stands for
  collaborators that accept what they are given; its \<open>ParseCIDR_ok\<close> rejects the strings
  without a slash, which \<^verbatim>\<open>net.ParseCIDR\<close> rejects too, and its \<open>GetIPv4Pool\<close> returns the
  first pool whose CIDR has no colon. \<open>linuxOnly\<close> is a cluster without Windows support.
  \<open>minimalInstallation\<close> is Scenario A of the specification: Calico CNI with Calico IPAM
  and no \<^verbatim>\<open>calicoNetwork\<close>, after defaulting.
\<close>

definition lenientExternals :: externals where
  "lenientExternals =
     \<lparr> ParseCIDR_ok = (\<lambda>c. CHR 0x2F \<in> set c),
       VerifySysctl = (\<lambda>_. None),
       GetIPv4Pool = find isIPv4,
       GetInitContainers = (\<lambda>_. []),
       ValidateCalicoNodeDaemonSet = (\<lambda>_. None),
       ValidateCalicoNodeWindowsDaemonSet = (\<lambda>_. None),
       ValidateCalicoKubeControllersDeployment = (\<lambda>_. None),
       ValidateTyphaDeployment = (\<lambda>_. None),
       ValidateCSINodeDriverDaemonSet = (\<lambda>_. None) \<rparr>"

definition linuxOnly :: ClusterFacts where
  "linuxOnly = \<lparr> WindowsEnabled = False, Endpoint_Host = [], Endpoint_Port = [] \<rparr>"

definition minimalSpec :: InstallationSpec where
  "minimalSpec =
     \<lparr> Variant = Calico,
       KubernetesProvider = [],
       CNI = Some \<lparr> CNI_Type = PluginCalico, IPAM = \<lparr> IPAM_Type = IPAMPluginCalico \<rparr> \<rparr>,
       CalicoNetwork = None,
       Logging = None,
       FlexVolumePath = ''None'',
       KubeletVolumePluginPath = ''None'',
       NodeUpdateStrategy = \<lparr> Strategy_Type = RollingUpdateDaemonSetStrategyType,
                              RollingUpdate = ''nil'' \<rparr>,
       ControlPlaneNodeSelector = None,
       ControlPlaneReplicas = None,
       ComponentResources = [],
       NonPrivileged = None,
       CalicoNodeDaemonSet = None,
       CalicoNodeWindowsDaemonSet = None,
       CalicoKubeControllersDeployment = None,
       TyphaDeployment = None,
       CSINodeDriverDaemonSet = None,
       ServiceCIDRs = [],
       WindowsNodes = None,
       FIPSMode = None,
       Azure = None \<rparr>"

definition minimalInstallation :: Installation where
  "minimalInstallation = \<lparr> Spec = minimalSpec \<rparr>"

definition emptyCalicoNetwork :: CalicoNetworkSpec where
  "emptyCalicoNetwork =
     \<lparr> LinuxDataplane = None,
       BGP = None,
       IPPools = [],
       NodeAddressAutodetectionV4 = None,
       NodeAddressAutodetectionV6 = None,
       HostPorts = None,
       MultiInterfaceMode = None,
       ContainerIPForwarding = None,
       Sysctl = None,
       LinuxPolicySetupTimeoutSeconds = None \<rparr>"

definition emptyAutodetection :: NodeAddressAutodetection where
  "emptyAutodetection =
     \<lparr> FirstFound = None, Kubernetes = None, Interface = [], SkipInterface = [],
       CanReach = [], CIDRS = [] \<rparr>"

text \<open>The installation with the given plugin pair, otherwise minimal.\<close>

definition withPlugins :: "string \<Rightarrow> string \<Rightarrow> Installation" where
  "withPlugins cniType ipamType =
     \<lparr> Spec = minimalSpec \<lparr> CNI := Some \<lparr> CNI_Type = cniType,
                                            IPAM = \<lparr> IPAM_Type = ipamType \<rparr> \<rparr> \<rparr> \<rparr>"

text \<open>The installation with the given plugin and Calico network settings.\<close>

definition withNetwork :: "string \<Rightarrow> string \<Rightarrow> CalicoNetworkSpec \<Rightarrow> Installation" where
  "withNetwork cniType ipamType cn =
     \<lparr> Spec = minimalSpec \<lparr> CNI := Some \<lparr> CNI_Type = cniType,
                                            IPAM = \<lparr> IPAM_Type = ipamType \<rparr> \<rparr>,
                             CalicoNetwork := Some cn \<rparr> \<rparr>"

text \<open>
  Installations under the BPF dataplane with one pool: an IPv4 pool with VXLAN
  encapsulation, and an IPv6 pool with VXLAN encapsulation.
\<close>

definition bpfNetwork :: "string \<Rightarrow> CalicoNetworkSpec" where
  "bpfNetwork cidr =
     emptyCalicoNetwork \<lparr> LinuxDataplane := Some LinuxDataplaneBPF,
                          IPPools := [\<lparr> CIDR = cidr, Encapsulation = EncapsulationVXLAN \<rparr>] \<rparr>"

definition bpfInstallationV4 :: Installation where
  "bpfInstallationV4 = withNetwork PluginCalico IPAMPluginCalico (bpfNetwork ''192.168.0.0/16'')"

definition bpfInstallationV6 :: Installation where
  "bpfInstallationV6 = withNetwork PluginCalico IPAMPluginCalico (bpfNetwork ''fd00:10:244::/64'')"

definition firstFoundAutodetection :: NodeAddressAutodetection where
  "firstFoundAutodetection = emptyAutodetection \<lparr> FirstFound := Some True \<rparr>"

text \<open>
  An autodetection configuration with two methods, an interface and a list of CIDRs
  whose only entry has no slash.
\<close>

definition interfaceAndBadCIDR :: NodeAddressAutodetection where
  "interfaceAndBadCIDR = emptyAutodetection \<lparr> Interface := ''eth0'', CIDRS := [''bogus''] \<rparr>"

text \<open>An autodetection configuration with two methods and a list of CIDRs that parse.\<close>

definition interfaceAndCIDR :: NodeAddressAutodetection where
  "interfaceAndCIDR = emptyAutodetection \<lparr> Interface := ''eth0'', CIDRS := [''10.0.0.0/8''] \<rparr>"

text \<open>
  Installations with the GKE plugin and host-local IPAM: BGP enabled and no pool;
  BGP enabled and one unencapsulated pool; one IPIP pool.
\<close>

definition gkeBgpNoPools :: Installation where
  "gkeBgpNoPools =
     withNetwork PluginGKE IPAMPluginHostLocal (emptyCalicoNetwork \<lparr> BGP := Some BGPEnabled \<rparr>)"

definition gkeBgpOnePool :: Installation where
  "gkeBgpOnePool =
     withNetwork PluginGKE IPAMPluginHostLocal
       (emptyCalicoNetwork \<lparr> BGP := Some BGPEnabled,
          IPPools := [\<lparr> CIDR = ''10.0.0.0/16'', Encapsulation = EncapsulationNone \<rparr>] \<rparr>)"

text \<open>
  Collaborators as procedures. \<open>readOnly ext\<close> answers as the functions \<open>ext\<close> do and
  writes nothing. \<open>overwritingSysctl\<close> is \<open>readOnly lenientExternals\<close> but for
  \<^verbatim>\<open>utils.VerifySysctl\<close>, which sets the value of every entry of the slice it is given
  to \<^verbatim>\<open>0\<close>. \<open>bgpWorld\<close> and \<open>sysctlWorld\<close> are worlds without Windows support:
  the installation of the first has the GKE plugin with BGP enabled and one pool, the
  installation of the second has Calico network settings with one sysctl setting.
\<close>

definition readOnly :: "externals \<Rightarrow> collaborators" where
  "readOnly ext =
     \<lparr> net_ParseCIDR_ok = ParseCIDR_ok ext,
       call_VerifySysctl = (\<lambda>x w. (VerifySysctl ext x, w)),
       call_GetIPv4Pool = (\<lambda>x w. (GetIPv4Pool ext x, w)),
       call_GetInitContainers = (\<lambda>x w. (GetInitContainers ext x, w)),
       call_ValidateCalicoNodeDaemonSet = (\<lambda>x w. (ValidateCalicoNodeDaemonSet ext x, w)),
       call_ValidateCalicoNodeWindowsDaemonSet =
         (\<lambda>x w. (ValidateCalicoNodeWindowsDaemonSet ext x, w)),
       call_ValidateCalicoKubeControllersDeployment =
         (\<lambda>x w. (ValidateCalicoKubeControllersDeployment ext x, w)),
       call_ValidateTyphaDeployment = (\<lambda>x w. (ValidateTyphaDeployment ext x, w)),
       call_ValidateCSINodeDriverDaemonSet = (\<lambda>x w. (ValidateCSINodeDriverDaemonSet ext x, w)) \<rparr>"

definition setSysctl :: "Sysctl list \<Rightarrow> world \<Rightarrow> world" where
  "setSysctl settings w =
     w \<lparr> installation :=
           \<lparr> Spec = (Spec (installation w))
               \<lparr> CalicoNetwork :=
                   map_option (\<lambda>cn. cn \<lparr> Sysctl := Some settings \<rparr>)
                     (CalicoNetwork (Spec (installation w))) \<rparr> \<rparr> \<rparr>"

definition overwritingSysctl :: collaborators where
  "overwritingSysctl =
     (readOnly lenientExternals)
       \<lparr> call_VerifySysctl :=
           (\<lambda>x w. (None, setSysctl (map (\<lambda>s. s \<lparr> Sysctl_Value := ''0'' \<rparr>) x) w)) \<rparr>"

definition bgpWorld :: world where
  "bgpWorld = \<lparr> installation = gkeBgpOnePool, clusterFacts = linuxOnly \<rparr>"

definition sysctlWorld :: world where
  "sysctlWorld =
     \<lparr> installation =
         withNetwork PluginCalico IPAMPluginCalico
           (emptyCalicoNetwork
              \<lparr> Sysctl := Some [\<lparr> Sysctl_Key = ''net.ipv4.tcp_keepalive_time'',
                                   Sysctl_Value = ''600'' \<rparr>] \<rparr>),
       clusterFacts = linuxOnly \<rparr>"

text \<open>
  Runs of the termination watcher start from \<open>start\<close>, the moment the signal arrives.
  The clusters: one whose \<open>m\<close> first queries fail and whose later queries give
  \<open>r\<close>; one where the installation is being deleted and is never removed; one where it
  is being deleted and is gone from the fourth query on. Every query takes no time.
\<close>

definition start :: run where
  "start = \<lparr> clock = 0, calls = 0, trace = [] \<rparr>"

definition failingThen :: "nat \<Rightarrow> get_result \<Rightarrow> cluster" where
  "failingThen m r =
     (\<lambda>k. if k < m then \<lparr> result = GetError ''connection refused'', took = 0 \<rparr>
          else \<lparr> result = r, took = 0 \<rparr>)"

definition neverRemoved :: cluster where
  "neverRemoved = (\<lambda>k. \<lparr> result = Found (Some 0), took = 0 \<rparr>)"

definition removedAtFourth :: cluster where
  "removedAtFourth =
     (\<lambda>k. if k < 3 then \<lparr> result = Found (Some 0), took = 0 \<rparr>
          else \<lparr> result = NotFound, took = 0 \<rparr>)"

text \<open>
  Names for the preflight check, and clusters that hold exactly one secret or none.
\<close>

definition sampleNames :: secret_names where
  "sampleNames =
     \<lparr> ElasticsearchNamespace = ''tigera-elasticsearch'',
       TigeraElasticsearchInternalCertSecret = ''internal-es-cert'',
       ExternalCertsSecret = ''external-es-certs'' \<rparr>"

definition onlySecret :: "string \<Rightarrow> clientset" where
  "onlySecret present = (\<lambda>namespace name. if name = present then SecretFound else SecretNotFound)"

definition noSecret :: clientset where
  "noSecret = (\<lambda>namespace name. SecretNotFound)"

section \<open>Notions used in the statements\<close>

subsection \<open>Validator\<close>

text \<open>The checks of \<^verbatim>\<open>validateCustomResource\<close> that follow the Calico network block all pass.\<close>

definition laterChecks ::
  "externals \<Rightarrow> ClusterFacts \<Rightarrow> InstallationSpec \<Rightarrow> CNISpec \<Rightarrow> bool" where
  "laterChecks ext facts spec cni \<longleftrightarrow>
     volumePathsCheck spec = None
     \<and> updateStrategyCheck spec = None
     \<and> nodeSelectorCheck spec = None
     \<and> replicasCheck spec = None
     \<and> componentResourcesLoop (ComponentResources spec) = None
     \<and> nonPrivilegedCheck spec = None
     \<and> overridesCheck ext spec = None
     \<and> nonCalicoLoggingCheck spec cni = None
     \<and> windowsCheck ext facts spec cni = None
     \<and> fipsCheck spec = None
     \<and> azureCheck spec = None"

text \<open>
  The allow-sets in the words of the specification (section 4.1, rule group 1): the IPAM
  types compatible with a CNI type; the empty set for a CNI type that is not recognised.
\<close>

definition spec_compatibleIPAM :: "string \<Rightarrow> string set" where
  "spec_compatibleIPAM cniType =
     (if cniType = PluginCalico then {IPAMPluginCalico, IPAMPluginHostLocal}
      else if cniType = PluginGKE then {IPAMPluginHostLocal}
      else if cniType = PluginAmazonVPC then {IPAMPluginAmazonVPC}
      else if cniType = PluginAzureVNET then {IPAMPluginAzureVNET}
      else {})"

text \<open>
  The installation with \<^verbatim>\<open>spec.calicoNetwork.nodeAddressAutodetectionV4\<close> set to
  \<open>v\<close>, everything else as it is.
\<close>

definition setAutodetectionV4 ::
  "NodeAddressAutodetection option \<Rightarrow> Installation \<Rightarrow> Installation" where
  "setAutodetectionV4 v instance =
     instance \<lparr> Spec := (Spec instance)
       \<lparr> CalicoNetwork :=
           map_option (\<lambda>cn. cn \<lparr> NodeAddressAutodetectionV4 := v \<rparr>)
             (CalicoNetwork (Spec instance)) \<rparr> \<rparr>"

text \<open>
  An installation that is valid but for the rule that the BPF dataplane needs
  \<^verbatim>\<open>nodeAddressAutodetectionV4\<close> for an IPv4 pool: every check of the validator
  passes, where of the checks on the address family of a pool only those on the IPv6
  pools are taken (on an IPv4 pool that check is the rule in question and nothing else).
\<close>

definition validExceptAutodetectionV4 ::
  "externals \<Rightarrow> ClusterFacts \<Rightarrow> Installation \<Rightarrow> bool" where
  "validExceptAutodetectionV4 ext facts instance =
     (case CNI (Spec instance) of
        None \<Rightarrow> False
      | Some cni \<Rightarrow>
         (case CalicoNetwork (Spec instance) of
            None \<Rightarrow> False
          | Some cn \<Rightarrow>
              cniPluginCheck (Spec instance) cni = None
              \<and> (\<forall>pool \<in> set (IPPools cn).
                    (isIPv4 pool
                     \<or> poolFamilyCheck (LinuxDataplane cn = Some LinuxDataplaneBPF) cn pool = None)
                    \<and> poolEncapCheck cni cn pool = None)
              \<and> vppCheck (Spec instance) cni cn = None
              \<and> autodetectionCheck ext (NodeAddressAutodetectionV4 cn) = None
              \<and> autodetectionCheck ext (NodeAddressAutodetectionV6 cn) = None
              \<and> hostPortsCheck cni cn = None
              \<and> calicoOnlyFieldsCheck cni cn = None
              \<and> sysctlCheck ext cn = None
              \<and> policySetupTimeoutCheck cn = None
              \<and> laterChecks ext facts (Spec instance) cni))"

text \<open>
  The collaborators write nothing: every call of one of them leaves the world as it
  found it.
\<close>

definition quiet :: "collaborators \<Rightarrow> bool" where
  "quiet ext \<longleftrightarrow>
     (\<forall>x w. snd (call_VerifySysctl ext x w) = w)
     \<and> (\<forall>x w. snd (call_GetIPv4Pool ext x w) = w)
     \<and> (\<forall>x w. snd (call_GetInitContainers ext x w) = w)
     \<and> (\<forall>x w. snd (call_ValidateCalicoNodeDaemonSet ext x w) = w)
     \<and> (\<forall>x w. snd (call_ValidateCalicoNodeWindowsDaemonSet ext x w) = w)
     \<and> (\<forall>x w. snd (call_ValidateCalicoKubeControllersDeployment ext x w) = w)
     \<and> (\<forall>x w. snd (call_ValidateTyphaDeployment ext x w) = w)
     \<and> (\<forall>x w. snd (call_ValidateCSINodeDriverDaemonSet ext x w) = w)"

text \<open>
  The property \<open>P\<close> of the world is kept by the collaborators: a call of one of them
  in a world with the property leaves a world with the property.
\<close>

definition keeps :: "(world \<Rightarrow> bool) \<Rightarrow> collaborators \<Rightarrow> bool" where
  "keeps P ext \<longleftrightarrow>
     (\<forall>x w. P w \<longrightarrow> P (snd (call_VerifySysctl ext x w)))
     \<and> (\<forall>x w. P w \<longrightarrow> P (snd (call_GetIPv4Pool ext x w)))
     \<and> (\<forall>x w. P w \<longrightarrow> P (snd (call_GetInitContainers ext x w)))
     \<and> (\<forall>x w. P w \<longrightarrow> P (snd (call_ValidateCalicoNodeDaemonSet ext x w)))
     \<and> (\<forall>x w. P w \<longrightarrow> P (snd (call_ValidateCalicoNodeWindowsDaemonSet ext x w)))
     \<and> (\<forall>x w. P w \<longrightarrow> P (snd (call_ValidateCalicoKubeControllersDeployment ext x w)))
     \<and> (\<forall>x w. P w \<longrightarrow> P (snd (call_ValidateTyphaDeployment ext x w)))
     \<and> (\<forall>x w. P w \<longrightarrow> P (snd (call_ValidateCSINodeDriverDaemonSet ext x w)))"

subsection \<open>Termination watcher\<close>

text \<open>A query that fails with an error other than not-found.\<close>

definition failed :: "reply \<Rightarrow> bool" where
  "failed r = (case result r of GetError err \<Rightarrow> True | _ \<Rightarrow> False)"

text \<open>The times of the queries and the lengths of the sleeps of a trace, in order.\<close>

fun queryTimes :: "event list \<Rightarrow> nat list" where
  "queryTimes [] = []"
| "queryTimes (Queried t # es) = t # queryTimes es"
| "queryTimes (e # es) = queryTimes es"

fun sleeps :: "event list \<Rightarrow> nat list" where
  "sleeps [] = []"
| "sleeps (Slept d # es) = d # sleeps es"
| "sleeps (e # es) = sleeps es"

text \<open>
  The time at which the wait loop issues its query number \<open>j\<close> (from 0), when it
  starts at clock \<open>c\<close> with \<open>n\<close> calls made before and no earlier query ends it:
  each query takes the time the cluster takes to answer it and is followed by a sleep of
  one second.
\<close>

fun pollTime :: "cluster \<Rightarrow> nat \<Rightarrow> nat \<Rightarrow> nat \<Rightarrow> nat" where
  "pollTime api c n 0 = c"
| "pollTime api c n (Suc j) = pollTime api (c + took (api n) + 1 * Second) (Suc n) j"

text \<open>
  The polling of the specification's words: each query is issued \<open>d\<close> after the one
  before it.
\<close>

fun spec_pollsEvery :: "nat \<Rightarrow> nat list \<Rightarrow> bool" where
  "spec_pollsEvery d (a # b # ts) = (b = a + d \<and> spec_pollsEvery d (b # ts))"
| "spec_pollsEvery d ts = True"

text \<open>
  The state in which the wait loop starts its next round after a query that has not
  found the installation gone: the error, if any, is logged, and the loop sleeps.
\<close>

definition afterQuery :: "cluster \<Rightarrow> run \<Rightarrow> run" where
  "afterQuery api st =
     (case result (api (calls st)) of
        GetError err \<Rightarrow>
          time_Sleep (1 * Second)
            (logf Error (''Error querying Installation: '' @ err) (client_Get api st))
      | _ \<Rightarrow> time_Sleep (1 * Second) (client_Get api st))"

text \<open>
  The state in which the first loop starts its next round after a failed query that
  is tolerated: the error is logged, and the loop sleeps.
\<close>

definition afterFailure :: "cluster \<Rightarrow> run \<Rightarrow> run" where
  "afterFailure api st =
     time_Sleep (1 * Second)
       (logf Error
          (''Error querying Installation, will retry: ''
           @ (case result (api (calls st)) of GetError err \<Rightarrow> err | _ \<Rightarrow> []))
          (client_Get api st))"

section \<open>Properties of the validator\<close>

subsection \<open>When the validator passes\<close>

text \<open>
  The validator returns the first failure, so it passes exactly when every check
  passes. The three lemmas say so for the loop over the pools, for the block of the
  Calico network settings and for the whole function.
\<close>

lemma ipPoolsLoop_None_iff:
  "ipPoolsLoop bpfDataplane cni cn pools = None \<longleftrightarrow>
     (\<forall>pool \<in> set pools. poolFamilyCheck bpfDataplane cn pool = None
                          \<and> poolEncapCheck cni cn pool = None)"
  by (induction pools) (auto split: option.splits)

lemma calicoNetworkCheck_None_iff:
  "calicoNetworkCheck ext spec cni = None \<longleftrightarrow>
     (case CalicoNetwork spec of
        None \<Rightarrow> True
      | Some cn \<Rightarrow>
          ipPoolsLoop (LinuxDataplane cn = Some LinuxDataplaneBPF) cni cn (IPPools cn) = None
          \<and> vppCheck spec cni cn = None
          \<and> autodetectionCheck ext (NodeAddressAutodetectionV4 cn) = None
          \<and> autodetectionCheck ext (NodeAddressAutodetectionV6 cn) = None
          \<and> hostPortsCheck cni cn = None
          \<and> calicoOnlyFieldsCheck cni cn = None
          \<and> sysctlCheck ext cn = None
          \<and> policySetupTimeoutCheck cn = None)"
  by (simp add: calicoNetworkCheck_def split: option.splits)

lemma validateCustomResource_None_iff:
  "validateCustomResource ext facts instance = None \<longleftrightarrow>
     (case CNI (Spec instance) of
        None \<Rightarrow> False
      | Some cni \<Rightarrow>
          cniPluginCheck (Spec instance) cni = None
          \<and> calicoNetworkCheck ext (Spec instance) cni = None
          \<and> laterChecks ext facts (Spec instance) cni)"
  by (simp add: validateCustomResource_def laterChecks_def split: option.splits)

lemma validateCustomResource_plugin_failure:
  "CNI (Spec instance) = Some cni \<Longrightarrow> cniPluginCheck (Spec instance) cni = Some e \<Longrightarrow>
   validateCustomResource ext facts instance = Some e"
  by (simp add: validateCustomResource_def)

lemma validateCustomResource_network_failure:
  "CNI (Spec instance) = Some cni \<Longrightarrow> cniPluginCheck (Spec instance) cni = None \<Longrightarrow>
   calicoNetworkCheck ext (Spec instance) cni = Some e \<Longrightarrow>
   validateCustomResource ext facts instance = Some e"
  by (simp add: validateCustomResource_def)

text \<open>The loop over the pools stops at the first pool with a failing check.\<close>

lemma ipPoolsLoop_first_failure:
  "\<forall>pool \<in> set before. poolFamilyCheck b cn pool = None \<and> poolEncapCheck cni cn pool = None \<Longrightarrow>
   poolFamilyCheck b cn p = Some e \<Longrightarrow>
   ipPoolsLoop b cni cn (before @ p # after) = Some e"
  by (induction before) auto

text \<open>A list with an element that satisfies \<open>P\<close> splits at the first such element.\<close>

lemma split_at_first:
  "\<exists>x \<in> set xs. P x \<Longrightarrow> \<exists>before x after. xs = before @ x # after \<and> P x \<and> (\<forall>y \<in> set before. \<not> P y)"
  by (metis split_list_first_prop)

lemmas later_check_defs =
  laterChecks_def volumePathsCheck_def updateStrategyCheck_def nodeSelectorCheck_def
  replicasCheck_def nonPrivilegedCheck_def overridesCheck_def nodeDaemonSetCheck_def
  overrideCheck_def nonCalicoLoggingCheck_def windowsCheck_def fipsCheck_def azureCheck_def
  IsFIPSModeEnabled_def path_IsAbs_def

lemmas network_check_defs =
  calicoNetworkCheck_def vppCheck_def autodetectionCheck_def hostPortsCheck_def
  calicoOnlyFieldsCheck_def sysctlCheck_def policySetupTimeoutCheck_def
  validateNodeAddressDetection_def validateHostPorts_def numEnabled_def
  poolFamilyCheck_def poolEncapCheck_def isIPv4_def bgpOff_def

lemmas example_defs =
  lenientExternals_def linuxOnly_def minimalInstallation_def minimalSpec_def
  emptyCalicoNetwork_def emptyAutodetection_def withPlugins_def withNetwork_def

subsection \<open>A missing CNI sub-configuration\<close>

text \<open>
  Claim C10. For every installation whose \<^verbatim>\<open>spec.cni\<close> is nil, whatever the rest of the
  document, the cluster facts and the collaborators are, validation fails with the
  error "spec.cni must be defined": the nil test is the first statement of
  \<^verbatim>\<open>validateCustomResource\<close> and returns before any other check is evaluated.
\<close>

theorem cni_must_be_defined:
  "CNI (Spec instance) = None \<Longrightarrow>
   validateCustomResource ext facts instance = Some ''spec.cni must be defined''"
  by (simp add: validateCustomResource_def)

theorem cni_must_be_defined_witness:
  "CNI (Spec \<lparr> Spec = minimalSpec \<lparr> CNI := None \<rparr> \<rparr>) = None
   \<and> validateCustomResource lenientExternals linuxOnly \<lparr> Spec = minimalSpec \<lparr> CNI := None \<rparr> \<rparr>
       = Some ''spec.cni must be defined''"
  using cni_must_be_defined [of "\<lparr> Spec = minimalSpec \<lparr> CNI := None \<rparr> \<rparr>" lenientExternals linuxOnly]
  by simp

subsection \<open>Compatibility of the CNI and IPAM plugins\<close>

lemma cniPluginCheck_None_compatible:
  "cniPluginCheck spec cni = None \<Longrightarrow> IPAM_Type (IPAM cni) \<in> spec_compatibleIPAM (CNI_Type cni)"
  by (auto simp: cniPluginCheck_def spec_compatibleIPAM_def split: if_splits option.splits)

lemma compatible_pair_admitted:
  "ipamType \<in> spec_compatibleIPAM cniType \<Longrightarrow>
   validateCustomResource lenientExternals linuxOnly (withPlugins cniType ipamType) = None"
  by (auto simp: spec_compatibleIPAM_def validateCustomResource_None_iff withPlugins_def
        minimalSpec_def linuxOnly_def cniPluginCheck_def cniLoggingCheck_def providerCheck_def
        calicoNetworkCheck_def later_check_defs
      split: if_splits)

text \<open>
  Claim C4. For every installation with a CNI sub-configuration: when the IPAM type is
  outside the allow-set of the CNI type (Calico: Calico or HostLocal; GKE: HostLocal;
  AmazonVPC: AmazonVPC; AzureVNET: AzureVNET; any other CNI type: nothing), validation
  fails, and under the Calico CNI it fails with the compatibility message, that check
  being the first one made (Scenario B). Every pair inside an allow-set is admitted:
  the otherwise minimal installation with that pair passes.
\<close>

theorem cni_ipam_allow_sets:
  "CNI (Spec instance) = Some cni \<Longrightarrow>
   (IPAM_Type (IPAM cni) \<notin> spec_compatibleIPAM (CNI_Type cni) \<longrightarrow>
      validateCustomResource ext facts instance \<noteq> None
      \<and> (CNI_Type cni = PluginCalico \<longrightarrow>
           validateCustomResource ext facts instance =
             Some (''spec.cni.ipam.type '' @ IPAM_Type (IPAM cni)
                   @ '' is not compatible with spec.cni.type Calico, valid IPAM values Calico,HostLocal'')))
   \<and> (IPAM_Type (IPAM cni) \<in> spec_compatibleIPAM (CNI_Type cni) \<longrightarrow>
        validateCustomResource lenientExternals linuxOnly
          (withPlugins (CNI_Type cni) (IPAM_Type (IPAM cni))) = None)"
proof (intro conjI impI)
  assume cni: "CNI (Spec instance) = Some cni"
    and out: "IPAM_Type (IPAM cni) \<notin> spec_compatibleIPAM (CNI_Type cni)"
  from out have "cniPluginCheck (Spec instance) cni \<noteq> None"
    using cniPluginCheck_None_compatible by blast
  with cni show "validateCustomResource ext facts instance \<noteq> None"
    by (simp add: validateCustomResource_None_iff)
next
  assume cni: "CNI (Spec instance) = Some cni"
    and out: "IPAM_Type (IPAM cni) \<notin> spec_compatibleIPAM (CNI_Type cni)"
    and calico: "CNI_Type cni = PluginCalico"
  from out calico have "cniPluginCheck (Spec instance) cni =
      Some (''spec.cni.ipam.type '' @ IPAM_Type (IPAM cni)
            @ '' is not compatible with spec.cni.type Calico, valid IPAM values Calico,HostLocal'')"
    by (simp add: cniPluginCheck_def spec_compatibleIPAM_def)
  with cni show "validateCustomResource ext facts instance =
      Some (''spec.cni.ipam.type '' @ IPAM_Type (IPAM cni)
            @ '' is not compatible with spec.cni.type Calico, valid IPAM values Calico,HostLocal'')"
    by (rule validateCustomResource_plugin_failure)
next
  assume "IPAM_Type (IPAM cni) \<in> spec_compatibleIPAM (CNI_Type cni)"
  then show "validateCustomResource lenientExternals linuxOnly
      (withPlugins (CNI_Type cni) (IPAM_Type (IPAM cni))) = None"
    by (rule compatible_pair_admitted)
qed

theorem cni_ipam_allow_sets_witness:
  "CNI (Spec (withPlugins PluginCalico IPAMPluginAmazonVPC))
     = Some \<lparr> CNI_Type = PluginCalico, IPAM = \<lparr> IPAM_Type = IPAMPluginAmazonVPC \<rparr> \<rparr>
   \<and> IPAMPluginAmazonVPC \<notin> spec_compatibleIPAM PluginCalico
   \<and> validateCustomResource lenientExternals linuxOnly (withPlugins PluginCalico IPAMPluginAmazonVPC)
       = Some ''spec.cni.ipam.type AmazonVPC is not compatible with spec.cni.type Calico, valid IPAM values Calico,HostLocal''
   \<and> CNI (Spec (withPlugins PluginGKE IPAMPluginHostLocal))
       = Some \<lparr> CNI_Type = PluginGKE, IPAM = \<lparr> IPAM_Type = IPAMPluginHostLocal \<rparr> \<rparr>
   \<and> IPAMPluginHostLocal \<in> spec_compatibleIPAM PluginGKE
   \<and> validateCustomResource lenientExternals linuxOnly (withPlugins PluginGKE IPAMPluginHostLocal)
       = None"
  using cni_ipam_allow_sets [of "withPlugins PluginCalico IPAMPluginAmazonVPC"
      "\<lparr> CNI_Type = PluginCalico, IPAM = \<lparr> IPAM_Type = IPAMPluginAmazonVPC \<rparr> \<rparr>"
      lenientExternals linuxOnly]
    cni_ipam_allow_sets [of "withPlugins PluginGKE IPAMPluginHostLocal"
      "\<lparr> CNI_Type = PluginGKE, IPAM = \<lparr> IPAM_Type = IPAMPluginHostLocal \<rparr> \<rparr>"
      lenientExternals linuxOnly]
  by (simp add: withPlugins_def spec_compatibleIPAM_def)

subsection \<open>The BPF dataplane needs node address autodetection\<close>

text \<open>A validator that passes has run both checks of the loop on every pool.\<close>

lemma passing_pools_checked:
  assumes "validateCustomResource ext facts instance = None"
    and "CalicoNetwork (Spec instance) = Some cn"
    and "pool \<in> set (IPPools cn)"
  shows "poolFamilyCheck (LinuxDataplane cn = Some LinuxDataplaneBPF) cn pool = None"
    and "\<exists>cni. CNI (Spec instance) = Some cni \<and> poolEncapCheck cni cn pool = None"
proof -
  from assms(1) obtain cni where cni: "CNI (Spec instance) = Some cni"
    and net: "calicoNetworkCheck ext (Spec instance) cni = None"
    by (auto simp: validateCustomResource_None_iff split: option.splits)
  from net assms(2)
  have "ipPoolsLoop (LinuxDataplane cn = Some LinuxDataplaneBPF) cni cn (IPPools cn) = None"
    by (simp add: calicoNetworkCheck_None_iff)
  with assms(3)
  have both: "poolFamilyCheck (LinuxDataplane cn = Some LinuxDataplaneBPF) cn pool = None
              \<and> poolEncapCheck cni cn pool = None"
    by (simp add: ipPoolsLoop_None_iff)
  from both show "poolFamilyCheck (LinuxDataplane cn = Some LinuxDataplaneBPF) cn pool = None"
    by simp
  from both cni show "\<exists>cni. CNI (Spec instance) = Some cni \<and> poolEncapCheck cni cn pool = None"
    by simp
qed

text \<open>Setting the IPv4 autodetection changes the outcome of no check but the rule itself.\<close>

lemma poolFamilyCheck_set_v4:
  "poolFamilyCheck b (cn \<lparr> NodeAddressAutodetectionV4 := Some ad \<rparr>) pool =
     (if isIPv4 pool then None else poolFamilyCheck b cn pool)"
  by (simp add: poolFamilyCheck_def)

lemma poolEncapCheck_set_v4:
  "poolEncapCheck cni (cn \<lparr> NodeAddressAutodetectionV4 := v \<rparr>) pool = poolEncapCheck cni cn pool"
  by (simp add: poolEncapCheck_def bgpOff_def)

lemma vppCheck_set_v4:
  "vppCheck (spec \<lparr> CalicoNetwork := x \<rparr>) cni (cn \<lparr> NodeAddressAutodetectionV4 := v \<rparr>)
     = vppCheck spec cni cn"
  by (simp add: vppCheck_def bgpOff_def)

lemma cniPluginCheck_set_network:
  "cniPluginCheck (spec \<lparr> CalicoNetwork := x \<rparr>) cni = cniPluginCheck spec cni"
  by (simp add: cniPluginCheck_def cniLoggingCheck_def providerCheck_def
        cong: option.case_cong if_cong)

lemma later_checks_ignore_network:
  "volumePathsCheck (spec \<lparr> CalicoNetwork := x \<rparr>) = volumePathsCheck spec"
  "updateStrategyCheck (spec \<lparr> CalicoNetwork := x \<rparr>) = updateStrategyCheck spec"
  "nodeSelectorCheck (spec \<lparr> CalicoNetwork := x \<rparr>) = nodeSelectorCheck spec"
  "replicasCheck (spec \<lparr> CalicoNetwork := x \<rparr>) = replicasCheck spec"
  "overridesCheck ext (spec \<lparr> CalicoNetwork := x \<rparr>) = overridesCheck ext spec"
  "nonCalicoLoggingCheck (spec \<lparr> CalicoNetwork := x \<rparr>) cni = nonCalicoLoggingCheck spec cni"
  "fipsCheck (spec \<lparr> CalicoNetwork := x \<rparr>) = fipsCheck spec"
  "azureCheck (spec \<lparr> CalicoNetwork := x \<rparr>) = azureCheck spec"
  by (simp_all add: volumePathsCheck_def updateStrategyCheck_def nodeSelectorCheck_def
        replicasCheck_def overridesCheck_def nodeDaemonSetCheck_def nonCalicoLoggingCheck_def
        fipsCheck_def azureCheck_def cong: option.case_cong if_cong)

lemma later_checks_set_v4:
  "CalicoNetwork spec = Some cn \<Longrightarrow>
   nonPrivilegedCheck (spec \<lparr> CalicoNetwork := Some (cn \<lparr> NodeAddressAutodetectionV4 := v \<rparr>) \<rparr>)
     = nonPrivilegedCheck spec"
  "CalicoNetwork spec = Some cn \<Longrightarrow>
   windowsCheck ext facts
     (spec \<lparr> CalicoNetwork := Some (cn \<lparr> NodeAddressAutodetectionV4 := v \<rparr>) \<rparr>) cni
     = windowsCheck ext facts spec cni"
  by (simp_all add: nonPrivilegedCheck_def windowsCheck_def cong: option.case_cong if_cong)

lemma laterChecks_set_v4:
  "CalicoNetwork spec = Some cn \<Longrightarrow>
   laterChecks ext facts
     (spec \<lparr> CalicoNetwork := Some (cn \<lparr> NodeAddressAutodetectionV4 := v \<rparr>) \<rparr>) cni
     = laterChecks ext facts spec cni"
  by (simp add: laterChecks_def later_checks_ignore_network later_checks_set_v4)

lemma network_fields_set_v4:
  "hostPortsCheck cni (cn \<lparr> NodeAddressAutodetectionV4 := v \<rparr>) = hostPortsCheck cni cn"
  "calicoOnlyFieldsCheck cni (cn \<lparr> NodeAddressAutodetectionV4 := v \<rparr>) = calicoOnlyFieldsCheck cni cn"
  "sysctlCheck ext (cn \<lparr> NodeAddressAutodetectionV4 := v \<rparr>) = sysctlCheck ext cn"
  "policySetupTimeoutCheck (cn \<lparr> NodeAddressAutodetectionV4 := v \<rparr>) = policySetupTimeoutCheck cn"
  by (simp_all add: hostPortsCheck_def calicoOnlyFieldsCheck_def sysctlCheck_def
        policySetupTimeoutCheck_def cong: option.case_cong if_cong)

lemma otherwise_valid_reports_v4:
  assumes net: "CalicoNetwork (Spec instance) = Some cn"
    and bpf: "LinuxDataplane cn = Some LinuxDataplaneBPF"
    and pool: "\<exists>pool \<in> set (IPPools cn). isIPv4 pool"
    and unset: "NodeAddressAutodetectionV4 cn = None"
    and ok: "validExceptAutodetectionV4 ext facts instance"
  shows "validateCustomResource ext facts instance =
           Some ''spec.calicoNetwork.nodeAddressAutodetectionV4 is required for the BPF dataplane''"
proof -
  from ok net obtain cni where cni: "CNI (Spec instance) = Some cni"
    and plugin: "cniPluginCheck (Spec instance) cni = None"
    and pools: "\<forall>pool \<in> set (IPPools cn).
        (isIPv4 pool \<or> poolFamilyCheck (LinuxDataplane cn = Some LinuxDataplaneBPF) cn pool = None)
        \<and> poolEncapCheck cni cn pool = None"
    by (auto simp: validExceptAutodetectionV4_def split: option.splits)
  from pool obtain before p after where split: "IPPools cn = before @ p # after"
    and p: "isIPv4 p" and before: "\<forall>y \<in> set before. \<not> isIPv4 y"
    using split_at_first [of "IPPools cn" isIPv4] by blast
  from pools split before
  have "\<forall>pool \<in> set before. poolFamilyCheck True cn pool = None \<and> poolEncapCheck cni cn pool = None"
    using bpf by auto
  moreover from p unset
  have "poolFamilyCheck True cn p =
          Some ''spec.calicoNetwork.nodeAddressAutodetectionV4 is required for the BPF dataplane''"
    by (simp add: poolFamilyCheck_def)
  ultimately
  have "ipPoolsLoop True cni cn (before @ p # after) =
          Some ''spec.calicoNetwork.nodeAddressAutodetectionV4 is required for the BPF dataplane''"
    by (rule ipPoolsLoop_first_failure)
  with split net bpf
  have "calicoNetworkCheck ext (Spec instance) cni =
          Some ''spec.calicoNetwork.nodeAddressAutodetectionV4 is required for the BPF dataplane''"
    by (simp add: calicoNetworkCheck_def)
  with cni plugin show ?thesis
    by (rule validateCustomResource_network_failure)
qed

lemma otherwise_valid_passes_when_set:
  assumes net: "CalicoNetwork (Spec instance) = Some cn"
    and ok: "validExceptAutodetectionV4 ext facts instance"
    and ad: "validateNodeAddressDetection ext ad = None"
  shows "validateCustomResource ext facts (setAutodetectionV4 (Some ad) instance) = None"
proof -
  from ok net obtain cni where cni: "CNI (Spec instance) = Some cni"
    and rest: "cniPluginCheck (Spec instance) cni = None"
      "\<forall>pool \<in> set (IPPools cn).
        (isIPv4 pool \<or> poolFamilyCheck (LinuxDataplane cn = Some LinuxDataplaneBPF) cn pool = None)
        \<and> poolEncapCheck cni cn pool = None"
      "vppCheck (Spec instance) cni cn = None"
      "autodetectionCheck ext (NodeAddressAutodetectionV6 cn) = None"
      "hostPortsCheck cni cn = None"
      "calicoOnlyFieldsCheck cni cn = None"
      "sysctlCheck ext cn = None"
      "policySetupTimeoutCheck cn = None"
      "laterChecks ext facts (Spec instance) cni"
    by (auto simp: validExceptAutodetectionV4_def split: option.splits)
  from rest(2)
  have loop: "ipPoolsLoop (LinuxDataplane cn = Some LinuxDataplaneBPF) cni
                (cn \<lparr> NodeAddressAutodetectionV4 := Some ad \<rparr>) (IPPools cn) = None"
    by (auto simp: ipPoolsLoop_None_iff poolFamilyCheck_set_v4 poolEncapCheck_set_v4)
  from net cni rest loop ad show ?thesis
    by (simp add: validateCustomResource_None_iff setAutodetectionV4_def
          calicoNetworkCheck_None_iff cniPluginCheck_set_network vppCheck_set_v4
          network_fields_set_v4 laterChecks_set_v4 autodetectionCheck_def)
qed

text \<open>
  Claim C5. For every installation under the BPF dataplane: with an IPv4 pool and
  \<^verbatim>\<open>nodeAddressAutodetectionV4\<close> unset, validation fails; when such an installation is
  otherwise valid, the failure is the rule on \<^verbatim>\<open>nodeAddressAutodetectionV4\<close> and
  setting the field to an autodetection configuration that is itself valid makes
  validation pass; with an IPv6 pool and \<^verbatim>\<open>nodeAddressAutodetectionV6\<close> unset,
  validation fails.
\<close>

theorem bpf_requires_autodetection:
  "CalicoNetwork (Spec instance) = Some cn \<Longrightarrow>
   LinuxDataplane cn = Some LinuxDataplaneBPF \<Longrightarrow>
   ((\<exists>pool \<in> set (IPPools cn). isIPv4 pool) \<and> NodeAddressAutodetectionV4 cn = None \<longrightarrow>
      validateCustomResource ext facts instance \<noteq> None
      \<and> (validExceptAutodetectionV4 ext facts instance
           \<and> validateNodeAddressDetection ext ad = None \<longrightarrow>
           validateCustomResource ext facts instance =
             Some ''spec.calicoNetwork.nodeAddressAutodetectionV4 is required for the BPF dataplane''
           \<and> validateCustomResource ext facts (setAutodetectionV4 (Some ad) instance) = None))
   \<and> ((\<exists>pool \<in> set (IPPools cn). \<not> isIPv4 pool) \<and> NodeAddressAutodetectionV6 cn = None \<longrightarrow>
        validateCustomResource ext facts instance \<noteq> None)"
proof (intro conjI impI; (elim conjE)?)
  assume net: "CalicoNetwork (Spec instance) = Some cn"
    and bpf: "LinuxDataplane cn = Some LinuxDataplaneBPF"
    and pool: "\<exists>pool \<in> set (IPPools cn). isIPv4 pool"
    and unset: "NodeAddressAutodetectionV4 cn = None"
  from pool obtain p where p: "p \<in> set (IPPools cn)" "isIPv4 p" by blast
  from p(2) unset bpf
  have failing: "poolFamilyCheck (LinuxDataplane cn = Some LinuxDataplaneBPF) cn p \<noteq> None"
    by (simp add: poolFamilyCheck_def)
  show "validateCustomResource ext facts instance \<noteq> None"
  proof
    assume "validateCustomResource ext facts instance = None"
    from passing_pools_checked(1) [OF this net p(1)] failing show False by simp
  qed
next
  assume "CalicoNetwork (Spec instance) = Some cn"
    and "LinuxDataplane cn = Some LinuxDataplaneBPF"
    and "\<exists>pool \<in> set (IPPools cn). isIPv4 pool"
    and "NodeAddressAutodetectionV4 cn = None"
    and "validExceptAutodetectionV4 ext facts instance"
  then show "validateCustomResource ext facts instance =
      Some ''spec.calicoNetwork.nodeAddressAutodetectionV4 is required for the BPF dataplane''"
    by (rule otherwise_valid_reports_v4)
next
  assume "CalicoNetwork (Spec instance) = Some cn"
    and "validExceptAutodetectionV4 ext facts instance"
    and "validateNodeAddressDetection ext ad = None"
  then show "validateCustomResource ext facts (setAutodetectionV4 (Some ad) instance) = None"
    by (rule otherwise_valid_passes_when_set)
next
  assume net: "CalicoNetwork (Spec instance) = Some cn"
    and bpf: "LinuxDataplane cn = Some LinuxDataplaneBPF"
    and pool: "\<exists>pool \<in> set (IPPools cn). \<not> isIPv4 pool"
    and unset: "NodeAddressAutodetectionV6 cn = None"
  from pool obtain p where p: "p \<in> set (IPPools cn)" "\<not> isIPv4 p" by blast
  from p(2) unset bpf
  have failing: "poolFamilyCheck (LinuxDataplane cn = Some LinuxDataplaneBPF) cn p \<noteq> None"
    by (simp add: poolFamilyCheck_def)
  show "validateCustomResource ext facts instance \<noteq> None"
  proof
    assume "validateCustomResource ext facts instance = None"
    from passing_pools_checked(1) [OF this net p(1)] failing show False by simp
  qed
qed

theorem bpf_requires_autodetection_witness:
  "CalicoNetwork (Spec bpfInstallationV4) = Some (bpfNetwork ''192.168.0.0/16'')
   \<and> LinuxDataplane (bpfNetwork ''192.168.0.0/16'') = Some LinuxDataplaneBPF
   \<and> (\<exists>pool \<in> set (IPPools (bpfNetwork ''192.168.0.0/16'')). isIPv4 pool)
   \<and> NodeAddressAutodetectionV4 (bpfNetwork ''192.168.0.0/16'') = None
   \<and> validExceptAutodetectionV4 lenientExternals linuxOnly bpfInstallationV4
   \<and> validateNodeAddressDetection lenientExternals firstFoundAutodetection = None
   \<and> validateCustomResource lenientExternals linuxOnly bpfInstallationV4 =
       Some ''spec.calicoNetwork.nodeAddressAutodetectionV4 is required for the BPF dataplane''
   \<and> validateCustomResource lenientExternals linuxOnly
       (setAutodetectionV4 (Some firstFoundAutodetection) bpfInstallationV4) = None
   \<and> CalicoNetwork (Spec bpfInstallationV6) = Some (bpfNetwork ''fd00:10:244::/64'')
   \<and> (\<exists>pool \<in> set (IPPools (bpfNetwork ''fd00:10:244::/64'')). \<not> isIPv4 pool)
   \<and> NodeAddressAutodetectionV6 (bpfNetwork ''fd00:10:244::/64'') = None
   \<and> validateCustomResource lenientExternals linuxOnly bpfInstallationV6 \<noteq> None"
proof -
  have net4: "CalicoNetwork (Spec bpfInstallationV4) = Some (bpfNetwork ''192.168.0.0/16'')"
    by (simp add: bpfInstallationV4_def withNetwork_def)
  have net6: "CalicoNetwork (Spec bpfInstallationV6) = Some (bpfNetwork ''fd00:10:244::/64'')"
    by (simp add: bpfInstallationV6_def withNetwork_def)
  have bpf: "LinuxDataplane (bpfNetwork c) = Some LinuxDataplaneBPF" for c
    by (simp add: bpfNetwork_def emptyCalicoNetwork_def)
  have pool4: "\<exists>pool \<in> set (IPPools (bpfNetwork ''192.168.0.0/16'')). isIPv4 pool"
    by (simp add: bpfNetwork_def emptyCalicoNetwork_def isIPv4_def)
  have pool6: "\<exists>pool \<in> set (IPPools (bpfNetwork ''fd00:10:244::/64'')). \<not> isIPv4 pool"
    by (simp add: bpfNetwork_def emptyCalicoNetwork_def isIPv4_def)
  have unset4: "NodeAddressAutodetectionV4 (bpfNetwork c) = None" for c
    by (simp add: bpfNetwork_def emptyCalicoNetwork_def)
  have unset6: "NodeAddressAutodetectionV6 (bpfNetwork c) = None" for c
    by (simp add: bpfNetwork_def emptyCalicoNetwork_def)
  have ok: "validExceptAutodetectionV4 lenientExternals linuxOnly bpfInstallationV4"
    by code_simp
  have ad: "validateNodeAddressDetection lenientExternals firstFoundAutodetection = None"
    by code_simp
  have r4: "validateCustomResource lenientExternals linuxOnly bpfInstallationV4 =
       Some ''spec.calicoNetwork.nodeAddressAutodetectionV4 is required for the BPF dataplane''
     \<and> validateCustomResource lenientExternals linuxOnly
         (setAutodetectionV4 (Some firstFoundAutodetection) bpfInstallationV4) = None"
    using bpf_requires_autodetection [OF net4 bpf, of lenientExternals linuxOnly
        firstFoundAutodetection] pool4 unset4 ok ad
    by blast
  have r6: "validateCustomResource lenientExternals linuxOnly bpfInstallationV6 \<noteq> None"
    using bpf_requires_autodetection [OF net6 bpf, of lenientExternals linuxOnly
        firstFoundAutodetection] pool6 unset6
    by blast
  from net4 net6 bpf pool4 pool6 unset4 unset6 ok ad r4 r6 show ?thesis
    by simp
qed

subsection \<open>At most one autodetection method\<close>

lemma firstInvalidCIDR_None_iff:
  "firstInvalidCIDR ext cs = None \<longleftrightarrow> (\<forall>c \<in> set cs. ParseCIDR_ok ext c)"
  by (induction cs) auto

lemma firstInvalidCIDR_Some:
  "firstInvalidCIDR ext cs = Some e \<Longrightarrow>
   \<exists>c \<in> set cs. \<not> ParseCIDR_ok ext c
      \<and> e = ''invalid CIDR provided for node address autodetection: '' @ c"
  by (induction cs) (auto split: if_splits)

lemma validateNodeAddressDetection_parsing:
  "\<forall>c \<in> set (CIDRS ad). ParseCIDR_ok ext c \<Longrightarrow>
   validateNodeAddressDetection ext ad =
     (if 1 < numEnabled ad
      then Some ''no more than one node address autodetection method can be specified per-family''
      else None)"
proof -
  assume "\<forall>c \<in> set (CIDRS ad). ParseCIDR_ok ext c"
  then have "firstInvalidCIDR ext (CIDRS ad) = None"
    by (simp add: firstInvalidCIDR_None_iff)
  then show ?thesis
    by (simp add: validateNodeAddressDetection_def)
qed

lemma validateNodeAddressDetection_not_parsing:
  assumes "\<exists>c \<in> set (CIDRS ad). \<not> ParseCIDR_ok ext c"
  shows "\<exists>c \<in> set (CIDRS ad). \<not> ParseCIDR_ok ext c
           \<and> validateNodeAddressDetection ext ad =
               Some (''invalid CIDR provided for node address autodetection: '' @ c)"
proof -
  from assms have nonempty: "length (CIDRS ad) \<noteq> 0" by auto
  from assms have "firstInvalidCIDR ext (CIDRS ad) \<noteq> None"
    by (simp add: firstInvalidCIDR_None_iff)
  then obtain e where e: "firstInvalidCIDR ext (CIDRS ad) = Some e" by blast
  from firstInvalidCIDR_Some [OF e] obtain c where c: "c \<in> set (CIDRS ad)"
    "\<not> ParseCIDR_ok ext c" "e = ''invalid CIDR provided for node address autodetection: '' @ c"
    by blast
  from nonempty e c(3)
  have "validateNodeAddressDetection ext ad =
          Some (''invalid CIDR provided for node address autodetection: '' @ c)"
    by (simp add: validateNodeAddressDetection_def)
  with c(1,2) show ?thesis by blast
qed

lemma passing_autodetection_checked:
  assumes "validateCustomResource ext facts instance = None"
    and "CalicoNetwork (Spec instance) = Some cn"
    and "NodeAddressAutodetectionV4 cn = Some ad \<or> NodeAddressAutodetectionV6 cn = Some ad"
  shows "validateNodeAddressDetection ext ad = None"
proof -
  from assms(1) obtain cni where "calicoNetworkCheck ext (Spec instance) cni = None"
    by (auto simp: validateCustomResource_None_iff split: option.splits)
  with assms(2)
  have "autodetectionCheck ext (NodeAddressAutodetectionV4 cn) = None"
    "autodetectionCheck ext (NodeAddressAutodetectionV6 cn) = None"
    by (simp_all add: calicoNetworkCheck_None_iff)
  with assms(3) show ?thesis
    by (auto simp: autodetectionCheck_def)
qed

text \<open>
  Claim C6, as the source has it. For every autodetection configuration with more than
  one method set, \<^verbatim>\<open>validateNodeAddressDetection\<close> fails: with the exclusivity rule when
  every entry of \<^verbatim>\<open>cidrs\<close> parses, and otherwise with the error of an entry that
  does not parse, the entries being checked before the methods are counted. A
  configuration with an entry of \<^verbatim>\<open>cidrs\<close> that does not parse fails with that error
  however many methods are set. An installation whose IPv4 or IPv6 autodetection
  is such a configuration fails validation.
\<close>

theorem autodetection_exclusivity:
  "(1 < numEnabled ad \<longrightarrow> validateNodeAddressDetection ext ad \<noteq> None)
   \<and> (1 < numEnabled ad \<and> (\<forall>c \<in> set (CIDRS ad). ParseCIDR_ok ext c) \<longrightarrow>
        validateNodeAddressDetection ext ad =
          Some ''no more than one node address autodetection method can be specified per-family'')
   \<and> ((\<exists>c \<in> set (CIDRS ad). \<not> ParseCIDR_ok ext c) \<longrightarrow>
        (\<exists>c \<in> set (CIDRS ad). \<not> ParseCIDR_ok ext c
           \<and> validateNodeAddressDetection ext ad =
               Some (''invalid CIDR provided for node address autodetection: '' @ c)))
   \<and> (CalicoNetwork (Spec instance) = Some cn
        \<and> (NodeAddressAutodetectionV4 cn = Some ad \<or> NodeAddressAutodetectionV6 cn = Some ad)
        \<and> (1 < numEnabled ad \<or> (\<exists>c \<in> set (CIDRS ad). \<not> ParseCIDR_ok ext c)) \<longrightarrow>
        validateCustomResource ext facts instance \<noteq> None)"
proof -
  have fails: "validateNodeAddressDetection ext ad \<noteq> None"
    if "1 < numEnabled ad \<or> (\<exists>c \<in> set (CIDRS ad). \<not> ParseCIDR_ok ext c)"
  proof (cases "\<forall>c \<in> set (CIDRS ad). ParseCIDR_ok ext c")
    case True
    with that show ?thesis
      by (auto simp: validateNodeAddressDetection_parsing)
  next
    case False
    then have "\<exists>c \<in> set (CIDRS ad). \<not> ParseCIDR_ok ext c" by blast
    from validateNodeAddressDetection_not_parsing [OF this] show ?thesis by auto
  qed
  have first: "1 < numEnabled ad \<longrightarrow> validateNodeAddressDetection ext ad \<noteq> None"
    using fails by blast
  have second: "1 < numEnabled ad \<and> (\<forall>c \<in> set (CIDRS ad). ParseCIDR_ok ext c) \<longrightarrow>
      validateNodeAddressDetection ext ad =
        Some ''no more than one node address autodetection method can be specified per-family''"
    by (simp add: validateNodeAddressDetection_parsing)
  have third: "(\<exists>c \<in> set (CIDRS ad). \<not> ParseCIDR_ok ext c) \<longrightarrow>
      (\<exists>c \<in> set (CIDRS ad). \<not> ParseCIDR_ok ext c
         \<and> validateNodeAddressDetection ext ad =
             Some (''invalid CIDR provided for node address autodetection: '' @ c))"
    using validateNodeAddressDetection_not_parsing by blast
  have fourth: "CalicoNetwork (Spec instance) = Some cn
      \<and> (NodeAddressAutodetectionV4 cn = Some ad \<or> NodeAddressAutodetectionV6 cn = Some ad)
      \<and> (1 < numEnabled ad \<or> (\<exists>c \<in> set (CIDRS ad). \<not> ParseCIDR_ok ext c)) \<longrightarrow>
      validateCustomResource ext facts instance \<noteq> None"
  proof (intro impI notI, elim conjE)
    assume net: "CalicoNetwork (Spec instance) = Some cn"
      and field: "NodeAddressAutodetectionV4 cn = Some ad \<or> NodeAddressAutodetectionV6 cn = Some ad"
      and more: "1 < numEnabled ad \<or> (\<exists>c \<in> set (CIDRS ad). \<not> ParseCIDR_ok ext c)"
      and passes: "validateCustomResource ext facts instance = None"
    from passing_autodetection_checked [OF passes net field] fails [OF more]
    show False by simp
  qed
  from first second third fourth show ?thesis by blast
qed

theorem autodetection_exclusivity_witness:
  "1 < numEnabled interfaceAndCIDR
   \<and> ParseCIDR_ok lenientExternals ''10.0.0.0/8''
   \<and> validateNodeAddressDetection lenientExternals interfaceAndCIDR =
       Some ''no more than one node address autodetection method can be specified per-family''
   \<and> \<not> ParseCIDR_ok lenientExternals ''bogus''
   \<and> validateNodeAddressDetection lenientExternals interfaceAndBadCIDR \<noteq> None
   \<and> CalicoNetwork (Spec (withNetwork PluginCalico IPAMPluginCalico
         (emptyCalicoNetwork \<lparr> NodeAddressAutodetectionV4 := Some interfaceAndCIDR \<rparr>)))
       = Some (emptyCalicoNetwork \<lparr> NodeAddressAutodetectionV4 := Some interfaceAndCIDR \<rparr>)
   \<and> validateCustomResource lenientExternals linuxOnly
       (withNetwork PluginCalico IPAMPluginCalico
         (emptyCalicoNetwork \<lparr> NodeAddressAutodetectionV4 := Some interfaceAndCIDR \<rparr>)) \<noteq> None"
proof -
  have two: "1 < numEnabled interfaceAndCIDR"
    by (simp add: numEnabled_def interfaceAndCIDR_def emptyAutodetection_def)
  have parses: "\<forall>c \<in> set (CIDRS interfaceAndCIDR). ParseCIDR_ok lenientExternals c"
    "ParseCIDR_ok lenientExternals ''10.0.0.0/8''"
    by (simp_all add: interfaceAndCIDR_def emptyAutodetection_def lenientExternals_def)
  have bad: "\<exists>c \<in> set (CIDRS interfaceAndBadCIDR). \<not> ParseCIDR_ok lenientExternals c"
    "\<not> ParseCIDR_ok lenientExternals ''bogus''"
    by (simp_all add: interfaceAndBadCIDR_def emptyAutodetection_def lenientExternals_def)
  have net: "CalicoNetwork (Spec (withNetwork PluginCalico IPAMPluginCalico
        (emptyCalicoNetwork \<lparr> NodeAddressAutodetectionV4 := Some interfaceAndCIDR \<rparr>)))
      = Some (emptyCalicoNetwork \<lparr> NodeAddressAutodetectionV4 := Some interfaceAndCIDR \<rparr>)"
    by (simp add: withNetwork_def)
  have v4: "NodeAddressAutodetectionV4
      (emptyCalicoNetwork \<lparr> NodeAddressAutodetectionV4 := Some interfaceAndCIDR \<rparr>)
      = Some interfaceAndCIDR"
    by simp
  have a: "validateNodeAddressDetection lenientExternals interfaceAndCIDR =
      Some ''no more than one node address autodetection method can be specified per-family''"
    using autodetection_exclusivity [of interfaceAndCIDR lenientExternals] two parses(1)
    by blast
  have b: "validateNodeAddressDetection lenientExternals interfaceAndBadCIDR \<noteq> None"
    using autodetection_exclusivity [of interfaceAndBadCIDR lenientExternals] bad(1)
    by blast
  have c: "validateCustomResource lenientExternals linuxOnly
      (withNetwork PluginCalico IPAMPluginCalico
        (emptyCalicoNetwork \<lparr> NodeAddressAutodetectionV4 := Some interfaceAndCIDR \<rparr>)) \<noteq> None"
    using autodetection_exclusivity [of interfaceAndCIDR lenientExternals
        "withNetwork PluginCalico IPAMPluginCalico
          (emptyCalicoNetwork \<lparr> NodeAddressAutodetectionV4 := Some interfaceAndCIDR \<rparr>)"
        "emptyCalicoNetwork \<lparr> NodeAddressAutodetectionV4 := Some interfaceAndCIDR \<rparr>"
        linuxOnly] two net v4
    by blast
  from two parses(2) a bad(2) b net c show ?thesis by simp
qed

text \<open>
  The claim as the specification words it fails on the configuration with an interface
  and the CIDR list \<^verbatim>\<open>["bogus"]\<close>: two methods are set, and the error is the one of
  the CIDR, not the exclusivity rule.
\<close>

theorem autodetection_exclusivity_counterexample:
  "1 < numEnabled interfaceAndBadCIDR
   \<and> validateNodeAddressDetection lenientExternals interfaceAndBadCIDR =
       Some ''invalid CIDR provided for node address autodetection: bogus''
   \<and> validateNodeAddressDetection lenientExternals interfaceAndBadCIDR \<noteq>
       Some ''no more than one node address autodetection method can be specified per-family''"
  by (simp add: numEnabled_def validateNodeAddressDetection_def interfaceAndBadCIDR_def
        emptyAutodetection_def lenientExternals_def)

subsection \<open>Pools and BGP under a CNI plugin other than Calico\<close>

lemma poolEncapCheck_non_calico:
  "CNI_Type cni \<noteq> PluginCalico \<Longrightarrow>
   poolEncapCheck cni cn pool = None \<longleftrightarrow>
     (Encapsulation pool = [] \<or> Encapsulation pool = EncapsulationNone)
     \<and> BGP cn \<noteq> Some BGPEnabled"
  by (simp add: poolEncapCheck_def)

text \<open>
  What the loop over the pools enforces under a CNI plugin other than Calico: a pool
  whose encapsulation is neither unset nor None makes validation fail, and so does BGP =
  Enabled when there is a pool to run the body of the loop on.
\<close>

lemma non_calico_cni_pool_loop:
  "CNI (Spec instance) = Some cni \<Longrightarrow>
   CNI_Type cni \<noteq> PluginCalico \<Longrightarrow>
   CalicoNetwork (Spec instance) = Some cn \<Longrightarrow>
   ((\<exists>pool \<in> set (IPPools cn).
       Encapsulation pool \<noteq> [] \<and> Encapsulation pool \<noteq> EncapsulationNone) \<longrightarrow>
      validateCustomResource ext facts instance \<noteq> None)
   \<and> (IPPools cn \<noteq> [] \<and> BGP cn = Some BGPEnabled \<longrightarrow>
        validateCustomResource ext facts instance \<noteq> None)"
proof (intro conjI impI)
  assume cni: "CNI (Spec instance) = Some cni" and other: "CNI_Type cni \<noteq> PluginCalico"
    and net: "CalicoNetwork (Spec instance) = Some cn"
    and pool: "\<exists>pool \<in> set (IPPools cn).
        Encapsulation pool \<noteq> [] \<and> Encapsulation pool \<noteq> EncapsulationNone"
  from pool obtain p where p: "p \<in> set (IPPools cn)"
    "Encapsulation p \<noteq> []" "Encapsulation p \<noteq> EncapsulationNone" by blast
  show "validateCustomResource ext facts instance \<noteq> None"
  proof
    assume "validateCustomResource ext facts instance = None"
    from passing_pools_checked(2) [OF this net p(1)] cni
    have "poolEncapCheck cni cn p = None" by simp
    with other p(2,3) show False by (simp add: poolEncapCheck_non_calico)
  qed
next
  assume cni: "CNI (Spec instance) = Some cni" and other: "CNI_Type cni \<noteq> PluginCalico"
    and net: "CalicoNetwork (Spec instance) = Some cn"
    and bgp: "IPPools cn \<noteq> [] \<and> BGP cn = Some BGPEnabled"
  from bgp obtain p where p: "p \<in> set (IPPools cn)" by (cases "IPPools cn") auto
  show "validateCustomResource ext facts instance \<noteq> None"
  proof
    assume "validateCustomResource ext facts instance = None"
    from passing_pools_checked(2) [OF this net p] cni
    have "poolEncapCheck cni cn p = None" by simp
    with other bgp show False by (simp add: poolEncapCheck_non_calico)
  qed
qed

text \<open>
  Claim C7. The claim has BGP = Enabled fail for every installation whose CNI type is
  not Calico, and so has the source, in the comment on the branch (\<^verbatim>\<open>If not using Calico
  CNI, then the encapsulation must be None and BGP must be disabled\<close>) and in the message
  of the error. The test stands in the body of the loop over the pools, though, while
  the other tests of the form \<^verbatim>\<open>is supported only for Calico CNI\<close> stand outside of it.
  So on the installation with the GKE plugin, host-local IPAM, BGP enabled and no pool
  the test is not run and validation passes; the same installation with one pool, of
  encapsulation None, fails with the error on BGP.
\<close>

theorem non_calico_cni_bgp_without_pools:
  "CNI (Spec gkeBgpNoPools) = Some \<lparr> CNI_Type = PluginGKE, IPAM = \<lparr> IPAM_Type = IPAMPluginHostLocal \<rparr> \<rparr>
   \<and> PluginGKE \<noteq> PluginCalico
   \<and> CalicoNetwork (Spec gkeBgpNoPools) = Some (emptyCalicoNetwork \<lparr> BGP := Some BGPEnabled \<rparr>)
   \<and> BGP (emptyCalicoNetwork \<lparr> BGP := Some BGPEnabled \<rparr>) = Some BGPEnabled
   \<and> IPPools (emptyCalicoNetwork \<lparr> BGP := Some BGPEnabled \<rparr>) = []
   \<and> validateCustomResource lenientExternals linuxOnly gkeBgpNoPools = None
   \<and> validateCustomResource lenientExternals linuxOnly gkeBgpOnePool
       = Some ''BGP is not supported when using non-Calico CNI''"
proof -
  have none: "validateCustomResource lenientExternals linuxOnly gkeBgpNoPools = None"
    by code_simp
  have one: "validateCustomResource lenientExternals linuxOnly gkeBgpOnePool
      = Some ''BGP is not supported when using non-Calico CNI''"
    by code_simp
  from none one show ?thesis
    by (simp add: gkeBgpNoPools_def withNetwork_def emptyCalicoNetwork_def)
qed

section \<open>Properties of the lifecycle coordinator\<close>

subsection \<open>Traces\<close>

lemma queryTimes_append: "queryTimes (xs @ ys) = queryTimes xs @ queryTimes ys"
  by (induction xs rule: queryTimes.induct) auto

lemma sleeps_append: "sleeps (xs @ ys) = sleeps xs @ sleeps ys"
  by (induction xs rule: sleeps.induct) auto

lemma step_fields:
  "clock (client_Get api st) = clock st + took (api (calls st))"
  "calls (client_Get api st) = calls st + 1"
  "trace (client_Get api st) = trace st @ [Queried (clock st)]"
  "clock (time_Sleep d st) = clock st + d"
  "calls (time_Sleep d st) = calls st"
  "trace (time_Sleep d st) = trace st @ [Slept d]"
  "clock (logf lvl msg st) = clock st"
  "calls (logf lvl msg st) = calls st"
  "trace (logf lvl msg st) = trace st @ [Logged lvl msg]"
  "clock (cancel st) = clock st"
  "calls (cancel st) = calls st"
  "trace (cancel st) = trace st @ [Cancelled]"
  by (simp_all add: client_Get_def time_Sleep_def logf_def cancel_def)

lemma pollTime_ge: "c \<le> pollTime api c n j"
proof (induction j arbitrary: c n)
  case 0
  show ?case by simp
next
  case (Suc j)
  have "c \<le> c + took (api n) + 1 * Second" by simp
  also have "\<dots> \<le> pollTime api (c + took (api n) + 1 * Second) (Suc n) j" by (rule Suc.IH)
  finally show ?case by simp
qed

subsection \<open>The bounded wait\<close>

text \<open>The three ways through one round of the wait loop.\<close>

lemma waitLoop_timeout:
  "deadline \<le> clock st \<Longrightarrow>
   waitLoop api deadline st =
     (TimedOut, logf Warning ''Timed out waiting for graceful shutdown to complete'' st)"
  by (simp add: waitLoop.simps [of api deadline st])

lemma waitLoop_gone:
  "\<not> deadline \<le> clock st \<Longrightarrow> result (api (calls st)) = NotFound \<Longrightarrow>
   waitLoop api deadline st =
     (GracefulComplete, logf Info ''Graceful termination complete'' (client_Get api st))"
  by (simp add: waitLoop.simps [of api deadline st])

lemma waitLoop_continue:
  "\<not> deadline \<le> clock st \<Longrightarrow> result (api (calls st)) \<noteq> NotFound \<Longrightarrow>
   waitLoop api deadline st = waitLoop api deadline (afterQuery api st)"
  by (cases "result (api (calls st))")
     (simp_all add: waitLoop.simps [of api deadline st] afterQuery_def)

lemma afterQuery_fields:
  "clock (afterQuery api st) = clock st + took (api (calls st)) + 1 * Second"
  "calls (afterQuery api st) = Suc (calls st)"
  "queryTimes (trace (afterQuery api st)) = queryTimes (trace st) @ [clock st]"
  "sleeps (trace (afterQuery api st)) = sleeps (trace st) @ [1 * Second]"
  by (cases "result (api (calls st))";
      simp add: afterQuery_def step_fields queryTimes_append sleeps_append)+

lemma waitLoop_rounds [case_names round]:
  assumes "\<And>st. (\<not> deadline \<le> clock st \<Longrightarrow> result (api (calls st)) \<noteq> NotFound \<Longrightarrow>
                  P (afterQuery api st)) \<Longrightarrow> P st"
  shows "P st"
proof (induction "deadline - clock st" arbitrary: st rule: less_induct)
  case less
  show ?case
  proof (rule assms)
    assume late: "\<not> deadline \<le> clock st"
    then have "deadline - clock (afterQuery api st) < deadline - clock st"
      by (simp add: afterQuery_fields(1))
    then show "P (afterQuery api st)" by (rule less)
  qed
qed

lemma waitLoop_outcome:
  "fst (waitLoop api deadline st) = GracefulComplete \<or> fst (waitLoop api deadline st) = TimedOut"
proof (induction st rule: waitLoop_rounds [where api = api and deadline = deadline])
  case (round st)
  show ?case
  proof (cases "deadline \<le> clock st")
    case True
    then show ?thesis by (simp add: waitLoop_timeout)
  next
    case late: False
    show ?thesis
    proof (cases "result (api (calls st)) = NotFound")
      case True
      with late show ?thesis by (simp add: waitLoop_gone)
    next
      case False
      with late round show ?thesis by (simp add: waitLoop_continue)
    qed
  qed
qed

lemma waitLoop_graceful_iff:
  "fst (waitLoop api deadline st) = GracefulComplete \<longleftrightarrow>
     (\<exists>j. result (api (calls st + j)) = NotFound
          \<and> pollTime api (clock st) (calls st) j < deadline)"
proof (induction st rule: waitLoop_rounds [where api = api and deadline = deadline])
  case (round st)
  show ?case
  proof (cases "deadline \<le> clock st")
    case True
    have "\<not> pollTime api (clock st) (calls st) j < deadline" for j
      using True pollTime_ge [of "clock st" api "calls st" j] by simp
    with True show ?thesis by (simp add: waitLoop_timeout)
  next
    case late: False
    show ?thesis
    proof (cases "result (api (calls st)) = NotFound")
      case True
      with late have "result (api (calls st + 0)) = NotFound
          \<and> pollTime api (clock st) (calls st) 0 < deadline"
        by simp
      then have "\<exists>j. result (api (calls st + j)) = NotFound
          \<and> pollTime api (clock st) (calls st) j < deadline"
        by blast
      with late True show ?thesis by (simp add: waitLoop_gone)
    next
      case False
      have "(\<exists>j. result (api (calls st + j)) = NotFound
                \<and> pollTime api (clock st) (calls st) j < deadline)
            \<longleftrightarrow> (\<exists>j. result (api (calls st + Suc j)) = NotFound
                \<and> pollTime api (clock st) (calls st) (Suc j) < deadline)"
        (is "?lhs \<longleftrightarrow> ?rhs")
      proof
        assume ?lhs
        then obtain j where j: "result (api (calls st + j)) = NotFound"
          "pollTime api (clock st) (calls st) j < deadline" by blast
        with False obtain i where "j = Suc i" by (cases j) auto
        with j show ?rhs by blast
      next
        assume ?rhs
        then show ?lhs by blast
      qed
      with late False round show ?thesis
        by (simp add: waitLoop_continue afterQuery_fields)
    qed
  qed
qed

lemma waitLoop_timed_out:
  "fst (waitLoop api deadline st) = TimedOut \<Longrightarrow>
   deadline \<le> clock (snd (waitLoop api deadline st))
   \<and> (\<exists>tr. trace (snd (waitLoop api deadline st))
          = tr @ [Logged Warning ''Timed out waiting for graceful shutdown to complete''])"
proof (induction st rule: waitLoop_rounds [where api = api and deadline = deadline])
  case (round st)
  show ?case
  proof (cases "deadline \<le> clock st")
    case True
    then show ?thesis by (simp add: waitLoop_timeout step_fields)
  next
    case late: False
    show ?thesis
    proof (cases "result (api (calls st)) = NotFound")
      case True
      with late round.prems show ?thesis by (simp add: waitLoop_gone)
    next
      case False
      with late round show ?thesis by (simp add: waitLoop_continue)
    qed
  qed
qed

lemma waitLoop_graceful_log:
  "fst (waitLoop api deadline st) = GracefulComplete \<Longrightarrow>
   \<exists>tr. trace (snd (waitLoop api deadline st))
          = tr @ [Logged Info ''Graceful termination complete'']"
proof (induction st rule: waitLoop_rounds [where api = api and deadline = deadline])
  case (round st)
  show ?case
  proof (cases "deadline \<le> clock st")
    case True
    with round.prems show ?thesis by (simp add: waitLoop_timeout)
  next
    case late: False
    show ?thesis
    proof (cases "result (api (calls st)) = NotFound")
      case True
      with late show ?thesis by (simp add: waitLoop_gone step_fields)
    next
      case False
      with late round show ?thesis by (simp add: waitLoop_continue)
    qed
  qed
qed

lemma waitLoop_queries:
  "\<exists>m. queryTimes (trace (snd (waitLoop api deadline st)))
         = queryTimes (trace st) @ map (pollTime api (clock st) (calls st)) [0..<m]
       \<and> calls (snd (waitLoop api deadline st)) = calls st + m"
proof (induction st rule: waitLoop_rounds [where api = api and deadline = deadline])
  case (round st)
  show ?case
  proof (cases "deadline \<le> clock st")
    case True
    then have "queryTimes (trace (snd (waitLoop api deadline st)))
          = queryTimes (trace st) @ map (pollTime api (clock st) (calls st)) [0..<0]
        \<and> calls (snd (waitLoop api deadline st)) = calls st + 0"
      by (simp add: waitLoop_timeout step_fields queryTimes_append)
    then show ?thesis by blast
  next
    case late: False
    show ?thesis
    proof (cases "result (api (calls st)) = NotFound")
      case True
      with late have "queryTimes (trace (snd (waitLoop api deadline st)))
            = queryTimes (trace st) @ map (pollTime api (clock st) (calls st)) [0..<Suc 0]
          \<and> calls (snd (waitLoop api deadline st)) = calls st + Suc 0"
        by (simp add: waitLoop_gone step_fields queryTimes_append)
      then show ?thesis by blast
    next
      case False
      with late round obtain m where m:
        "queryTimes (trace (snd (waitLoop api deadline (afterQuery api st))))
           = queryTimes (trace (afterQuery api st))
             @ map (pollTime api (clock (afterQuery api st)) (calls (afterQuery api st))) [0..<m]"
        "calls (snd (waitLoop api deadline (afterQuery api st))) = calls (afterQuery api st) + m"
        by blast
      have "map (pollTime api (clock st) (calls st)) [0..<Suc m]
          = clock st # map (pollTime api (clock (afterQuery api st)) (calls (afterQuery api st))) [0..<m]"
        by (simp add: map_upt_Suc afterQuery_fields del: upt_Suc)
      with m late False
      have "queryTimes (trace (snd (waitLoop api deadline st)))
            = queryTimes (trace st) @ map (pollTime api (clock st) (calls st)) [0..<Suc m]
          \<and> calls (snd (waitLoop api deadline st)) = calls st + Suc m"
        by (simp add: waitLoop_continue afterQuery_fields del: upt_Suc)
      then show ?thesis by blast
    qed
  qed
qed

lemma waitLoop_sleeps:
  "\<exists>k. sleeps (trace (snd (waitLoop api deadline st)))
         = sleeps (trace st) @ replicate k (1 * Second)"
proof (induction st rule: waitLoop_rounds [where api = api and deadline = deadline])
  case (round st)
  show ?case
  proof (cases "deadline \<le> clock st")
    case True
    then have "sleeps (trace (snd (waitLoop api deadline st)))
        = sleeps (trace st) @ replicate 0 (1 * Second)"
      by (simp add: waitLoop_timeout step_fields sleeps_append)
    then show ?thesis by blast
  next
    case late: False
    show ?thesis
    proof (cases "result (api (calls st)) = NotFound")
      case True
      with late have "sleeps (trace (snd (waitLoop api deadline st)))
          = sleeps (trace st) @ replicate 0 (1 * Second)"
        by (simp add: waitLoop_gone step_fields sleeps_append)
      then show ?thesis by blast
    next
      case False
      with late round obtain k where
        "sleeps (trace (snd (waitLoop api deadline (afterQuery api st))))
           = sleeps (trace (afterQuery api st)) @ replicate k (1 * Second)"
        by blast
      with late False
      have "sleeps (trace (snd (waitLoop api deadline st)))
          = sleeps (trace st) @ replicate (Suc k) (1 * Second)"
        by (simp add: waitLoop_continue afterQuery_fields)
      then show ?thesis by blast
    qed
  qed
qed

subsection \<open>When the wait ends\<close>

lemma pollTime_Suc:
  "pollTime api c n (Suc j) = pollTime api c n j + took (api (n + j)) + 1 * Second"
proof (induction j arbitrary: c n)
  case 0
  show ?case by simp
next
  case (Suc j)
  have "pollTime api c n (Suc (Suc j))
      = pollTime api (c + took (api n) + 1 * Second) (Suc n) (Suc j)"
    by simp
  also have "\<dots> = pollTime api (c + took (api n) + 1 * Second) (Suc n) j
      + took (api (Suc n + j)) + 1 * Second"
    by (rule Suc.IH)
  finally show ?case by simp
qed

lemma waitLoop_calls_mono: "calls st \<le> calls (snd (waitLoop api deadline st))"
  using waitLoop_queries [of api deadline st] by auto

text \<open>
  The number of queries of the wait is the growth of the call counter. Every one of
  them is issued before the deadline.
\<close>

lemma waitLoop_before_deadline:
  "j < calls (snd (waitLoop api deadline st)) - calls st \<Longrightarrow>
   pollTime api (clock st) (calls st) j < deadline"
proof (induction st arbitrary: j rule: waitLoop_rounds [where api = api and deadline = deadline])
  case (round st)
  show ?case
  proof (cases "deadline \<le> clock st")
    case True
    with round.prems show ?thesis by (simp add: waitLoop_timeout step_fields)
  next
    case late: False
    show ?thesis
    proof (cases "result (api (calls st)) = NotFound")
      case True
      with late round.prems show ?thesis by (simp add: waitLoop_gone step_fields)
    next
      case False
      show ?thesis
      proof (cases j)
        case 0
        with late show ?thesis by simp
      next
        case (Suc i)
        with late False round.prems
        have "i < calls (snd (waitLoop api deadline (afterQuery api st)))
            - calls (afterQuery api st)"
          by (simp add: waitLoop_continue afterQuery_fields)
        with late False
        have "pollTime api (clock (afterQuery api st)) (calls (afterQuery api st)) i < deadline"
          by (rule round.IH)
        with Suc show ?thesis by (simp add: afterQuery_fields)
      qed
    qed
  qed
qed

text \<open>
  A wait that times out ends at the test of the loop that follows its last sleep: the
  clock is the time at which the next query would have been issued.
\<close>

lemma waitLoop_timed_out_exit:
  "fst (waitLoop api deadline st) = TimedOut \<Longrightarrow>
   clock (snd (waitLoop api deadline st))
     = pollTime api (clock st) (calls st) (calls (snd (waitLoop api deadline st)) - calls st)
   \<and> sleeps (trace (snd (waitLoop api deadline st)))
       = sleeps (trace st)
         @ replicate (calls (snd (waitLoop api deadline st)) - calls st) (1 * Second)"
proof (induction st rule: waitLoop_rounds [where api = api and deadline = deadline])
  case (round st)
  show ?case
  proof (cases "deadline \<le> clock st")
    case True
    then show ?thesis by (simp add: waitLoop_timeout step_fields sleeps_append)
  next
    case late: False
    show ?thesis
    proof (cases "result (api (calls st)) = NotFound")
      case True
      with late round.prems show ?thesis by (simp add: waitLoop_gone)
    next
      case False
      let ?next = "afterQuery api st"
      let ?end = "snd (waitLoop api deadline ?next)"
      from late False have same: "waitLoop api deadline st = waitLoop api deadline ?next"
        by (rule waitLoop_continue)
      have "calls ?next \<le> calls ?end" by (rule waitLoop_calls_mono)
      then have count: "calls ?end - calls st = Suc (calls ?end - calls ?next)"
        by (simp add: afterQuery_fields)
      from round.prems same have "fst (waitLoop api deadline ?next) = TimedOut" by simp
      with late False have
        "clock ?end = pollTime api (clock ?next) (calls ?next) (calls ?end - calls ?next)
         \<and> sleeps (trace ?end)
             = sleeps (trace ?next) @ replicate (calls ?end - calls ?next) (1 * Second)"
        by (rule round.IH)
      then show ?thesis
        unfolding same count by (simp add: afterQuery_fields replicate_app_Cons_same)
    qed
  qed
qed

text \<open>
  A wait that ends gracefully ends with the answer to its last query, with no sleep
  after it.
\<close>

lemma waitLoop_graceful_exit:
  "fst (waitLoop api deadline st) = GracefulComplete \<Longrightarrow>
   (\<exists>i. calls (snd (waitLoop api deadline st)) - calls st = Suc i
        \<and> result (api (calls st + i)) = NotFound
        \<and> clock (snd (waitLoop api deadline st))
            = pollTime api (clock st) (calls st) i + took (api (calls st + i))
        \<and> sleeps (trace (snd (waitLoop api deadline st)))
            = sleeps (trace st) @ replicate i (1 * Second))"
proof (induction st rule: waitLoop_rounds [where api = api and deadline = deadline])
  case (round st)
  show ?case
  proof (cases "deadline \<le> clock st")
    case True
    with round.prems show ?thesis by (simp add: waitLoop_timeout)
  next
    case late: False
    show ?thesis
    proof (cases "result (api (calls st)) = NotFound")
      case True
      with late show ?thesis by (simp add: waitLoop_gone step_fields sleeps_append)
    next
      case False
      let ?next = "afterQuery api st"
      let ?end = "snd (waitLoop api deadline ?next)"
      from late False have same: "waitLoop api deadline st = waitLoop api deadline ?next"
        by (rule waitLoop_continue)
      have "calls ?next \<le> calls ?end" by (rule waitLoop_calls_mono)
      then have count: "calls ?end - calls st = Suc (calls ?end - calls ?next)"
        by (simp add: afterQuery_fields)
      from round.prems same have "fst (waitLoop api deadline ?next) = GracefulComplete" by simp
      with late False have
        "\<exists>i. calls ?end - calls ?next = Suc i
            \<and> result (api (calls ?next + i)) = NotFound
            \<and> clock ?end = pollTime api (clock ?next) (calls ?next) i + took (api (calls ?next + i))
            \<and> sleeps (trace ?end) = sleeps (trace ?next) @ replicate i (1 * Second)"
        by (rule round.IH)
      then obtain i where i: "calls ?end - calls ?next = Suc i"
        "result (api (calls ?next + i)) = NotFound"
        "clock ?end = pollTime api (clock ?next) (calls ?next) i + took (api (calls ?next + i))"
        "sleeps (trace ?end) = sleeps (trace ?next) @ replicate i (1 * Second)"
        by blast
      have "calls ?end - calls st = Suc (Suc i)
          \<and> result (api (calls st + Suc i)) = NotFound
          \<and> clock ?end = pollTime api (clock st) (calls st) (Suc i) + took (api (calls st + Suc i))
          \<and> sleeps (trace ?end) = sleeps (trace st) @ replicate (Suc i) (1 * Second)"
        using i count by (simp add: afterQuery_fields replicate_app_Cons_same)
      then show ?thesis unfolding same by blast
    qed
  qed
qed

subsection \<open>The first loop\<close>

lemma queryLoop_gone:
  "result (api (calls st)) = NotFound \<Longrightarrow>
   queryLoop api retries st = (Inl NoInstallation, client_Get api st)"
  by (simp add: queryLoop.simps [of api retries st])

lemma queryLoop_found:
  "result (api (calls st)) = Found d \<Longrightarrow> queryLoop api retries st = (Inr d, client_Get api st)"
  by (simp add: queryLoop.simps [of api retries st])

lemma queryLoop_answered:
  "\<not> failed (api (calls st)) \<Longrightarrow>
   queryLoop api retries st =
     ((case result (api (calls st)) of
         NotFound \<Rightarrow> Inl NoInstallation
       | Found d \<Rightarrow> Inr d
       | GetError err \<Rightarrow> Inl TooManyRetries),
      client_Get api st)"
  by (cases "result (api (calls st))")
     (simp_all add: queryLoop_gone queryLoop_found failed_def)

lemmas run_defs =
  client_Get_def time_Sleep_def logf_def cancel_def afterQuery_def failed_def

lemma queryLoop_give_up:
  "failed (api (calls st)) \<Longrightarrow> 5 \<le> retries \<Longrightarrow>
   fst (queryLoop api retries st) = Inl TooManyRetries
   \<and> calls (snd (queryLoop api retries st)) = calls st + 1
   \<and> sleeps (trace (snd (queryLoop api retries st))) = sleeps (trace st)"
  by (cases "result (api (calls st))")
     (simp_all add: queryLoop.simps [of api retries st] failed_def step_fields sleeps_append)

lemma queryLoop_retry:
  "failed (api (calls st)) \<Longrightarrow> retries < 5 \<Longrightarrow>
   queryLoop api retries st = queryLoop api (Suc retries) (afterFailure api st)"
  by (cases "result (api (calls st))")
     (simp_all add: queryLoop.simps [of api retries st] failed_def afterFailure_def)

lemma afterFailure_fields:
  "calls (afterFailure api st) = Suc (calls st)"
  "sleeps (trace (afterFailure api st)) = sleeps (trace st) @ [1 * Second]"
  by (simp_all add: afterFailure_def step_fields sleeps_append)

lemma queryLoop_answer:
  "\<not> failed (api (calls st)) \<Longrightarrow>
   (result (api (calls st)) = NotFound \<longrightarrow> fst (queryLoop api retries st) = Inl NoInstallation)
   \<and> (\<forall>d. result (api (calls st)) = Found d \<longrightarrow> fst (queryLoop api retries st) = Inr d)
   \<and> fst (queryLoop api retries st) \<noteq> Inl TooManyRetries
   \<and> calls (snd (queryLoop api retries st)) = calls st + 1
   \<and> sleeps (trace (snd (queryLoop api retries st))) = sleeps (trace st)"
  by (cases "result (api (calls st))")
     (simp_all add: queryLoop_gone queryLoop_found failed_def step_fields sleeps_append)

text \<open>After \<open>n\<close> tolerated failures the loop is where it would be had it started there.\<close>

lemma queryLoop_tolerated:
  "retries + n \<le> 5 \<Longrightarrow> \<forall>k<n. failed (api (calls st + k)) \<Longrightarrow>
   \<exists>st'. queryLoop api retries st = queryLoop api (retries + n) st'
        \<and> calls st' = calls st + n
        \<and> sleeps (trace st') = sleeps (trace st) @ replicate n (1 * Second)"
proof (induction n arbitrary: retries st)
  case 0
  have "queryLoop api retries st = queryLoop api (retries + 0) st
      \<and> calls st = calls st + 0
      \<and> sleeps (trace st) = sleeps (trace st) @ replicate 0 (1 * Second)"
    by simp
  then show ?case by blast
next
  case (Suc n)
  from Suc.prems have first: "failed (api (calls st))" and few: "retries < 5"
    by auto
  from Suc.prems have rest: "\<forall>k<n. failed (api (calls (afterFailure api st) + k))"
    by (auto simp: afterFailure_fields)
  from Suc.prems have "Suc retries + n \<le> 5" by simp
  from Suc.IH [OF this rest] obtain st' where st':
    "queryLoop api (Suc retries) (afterFailure api st) = queryLoop api (Suc retries + n) st'"
    "calls st' = calls (afterFailure api st) + n"
    "sleeps (trace st') = sleeps (trace (afterFailure api st)) @ replicate n (1 * Second)"
    by blast
  from st' first few
  have "queryLoop api retries st = queryLoop api (retries + Suc n) st'
      \<and> calls st' = calls st + Suc n
      \<and> sleeps (trace st') = sleeps (trace st) @ replicate (Suc n) (1 * Second)"
    by (simp add: queryLoop_retry afterFailure_fields replicate_append_same)
  then show ?case by blast
qed

subsection \<open>The goroutine\<close>

lemma terminationWatcher_early:
  "fst (queryLoop api 0 st) = Inl out \<Longrightarrow>
   fst (terminationWatcher api st) = out
   \<and> calls (snd (terminationWatcher api st)) = calls (snd (queryLoop api 0 st))
   \<and> sleeps (trace (snd (terminationWatcher api st))) = sleeps (trace (snd (queryLoop api 0 st)))
   \<and> last (trace (snd (terminationWatcher api st))) = Cancelled"
  by (cases "queryLoop api 0 st")
     (simp add: terminationWatcher_def step_fields sleeps_append)

lemma terminationWatcher_not_terminating:
  "fst (queryLoop api 0 st) = Inr None \<Longrightarrow> fst (terminationWatcher api st) = NotTerminating"
  by (cases "queryLoop api 0 st") (simp add: terminationWatcher_def)

lemma terminationWatcher_waits:
  "queryLoop api 0 st = (Inr (Some ts), st1) \<Longrightarrow>
   terminationWatcher api st =
     (fst (waitLoop api (clock st1 + 60 * Second)
             (logf Info ''Waiting up to 1m0s for graceful termination to complete'' st1)),
      cancel (snd (waitLoop api (clock st1 + 60 * Second)
             (logf Info ''Waiting up to 1m0s for graceful termination to complete'' st1))))"
  by (simp add: terminationWatcher_def step_fields split_beta Let_def)

lemma terminationWatcher_never_gives_up_late:
  "fst (queryLoop api 0 st) \<noteq> Inl TooManyRetries \<Longrightarrow>
   fst (terminationWatcher api st) \<noteq> TooManyRetries"
proof (cases "queryLoop api 0 st")
  case (Pair a st1)
  assume other: "fst (queryLoop api 0 st) \<noteq> Inl TooManyRetries"
  show ?thesis
  proof (cases a)
    case (Inl out)
    with Pair other terminationWatcher_early [of api st out] show ?thesis by simp
  next
    case (Inr d)
    show ?thesis
    proof (cases d)
      case None
      with Pair Inr terminationWatcher_not_terminating [of api st] show ?thesis by simp
    next
      case (Some ts)
      with Pair Inr have "queryLoop api 0 st = (Inr (Some ts), st1)" by simp
      from terminationWatcher_waits [OF this]
        waitLoop_outcome [of api "clock st1 + 60 * Second"
          "logf Info ''Waiting up to 1m0s for graceful termination to complete'' st1"]
      show ?thesis by auto
    qed
  qed
qed

text \<open>
  Claim C2. For every sequence of answers of the cluster and every \<open>n\<close> up to 5: when
  the first \<open>n\<close> queries fail and the next one does not, the first loop does not give
  up, has made \<open>n + 1\<close> queries and has slept one second after each failure, and the
  watcher does not end for too many retries. When the first six queries fail, the loop
  gives up at the sixth, after five sleeps of one second, and the watcher returns (the
  deferred cancel runs, so the coordinator proceeds to exit) without any further query.
\<close>

theorem query_failures_tolerated:
  "(n \<le> 5 \<and> (\<forall>k<n. failed (api (calls st + k))) \<and> \<not> failed (api (calls st + n)) \<longrightarrow>
      fst (queryLoop api 0 st) \<noteq> Inl TooManyRetries
      \<and> fst (terminationWatcher api st) \<noteq> TooManyRetries
      \<and> calls (snd (queryLoop api 0 st)) = calls st + n + 1
      \<and> sleeps (trace (snd (queryLoop api 0 st))) = sleeps (trace st) @ replicate n (1 * Second))
   \<and> ((\<forall>k<6. failed (api (calls st + k))) \<longrightarrow>
        fst (queryLoop api 0 st) = Inl TooManyRetries
        \<and> fst (terminationWatcher api st) = TooManyRetries
        \<and> calls (snd (terminationWatcher api st)) = calls st + 6
        \<and> sleeps (trace (snd (terminationWatcher api st)))
            = sleeps (trace st) @ replicate 5 (1 * Second)
        \<and> last (trace (snd (terminationWatcher api st))) = Cancelled)"
proof (intro conjI impI)
  assume a: "n \<le> 5 \<and> (\<forall>k<n. failed (api (calls st + k))) \<and> \<not> failed (api (calls st + n))"
  then have "0 + n \<le> 5" "\<forall>k<n. failed (api (calls st + k))" by simp_all
  from queryLoop_tolerated [OF this] obtain st' where st':
    "queryLoop api 0 st = queryLoop api n st'" "calls st' = calls st + n"
    "sleeps (trace st') = sleeps (trace st) @ replicate n (1 * Second)"
    by auto
  from a st'(2) have "\<not> failed (api (calls st'))" by simp
  from queryLoop_answer [where api = api and st = st' and retries = n, OF this] st'
  have facts: "fst (queryLoop api 0 st) \<noteq> Inl TooManyRetries"
    "calls (snd (queryLoop api 0 st)) = calls st + n + 1"
    "sleeps (trace (snd (queryLoop api 0 st))) = sleeps (trace st) @ replicate n (1 * Second)"
    by simp_all
  from facts(1) show "fst (queryLoop api 0 st) \<noteq> Inl TooManyRetries" .
  from facts(1) show "fst (terminationWatcher api st) \<noteq> TooManyRetries"
    by (rule terminationWatcher_never_gives_up_late)
  from facts(2) show "calls (snd (queryLoop api 0 st)) = calls st + n + 1" .
  from facts(3)
  show "sleeps (trace (snd (queryLoop api 0 st))) = sleeps (trace st) @ replicate n (1 * Second)" .
next
  assume six: "\<forall>k<6. failed (api (calls st + k))"
  then have "0 + 5 \<le> (5::nat)" "\<forall>k<5. failed (api (calls st + k))" by simp_all
  from queryLoop_tolerated [OF this] obtain st' where st':
    "queryLoop api 0 st = queryLoop api 5 st'" "calls st' = calls st + 5"
    "sleeps (trace st') = sleeps (trace st) @ replicate 5 (1 * Second)"
    by auto
  from six st'(2) have "failed (api (calls st'))" by simp
  from queryLoop_give_up [where api = api and st = st' and retries = 5, OF this] st'
  have loop: "fst (queryLoop api 0 st) = Inl TooManyRetries"
    "calls (snd (queryLoop api 0 st)) = calls st + 6"
    "sleeps (trace (snd (queryLoop api 0 st))) = sleeps (trace st) @ replicate 5 (1 * Second)"
    by simp_all
  from loop(1) show "fst (queryLoop api 0 st) = Inl TooManyRetries" .
  from terminationWatcher_early [OF loop(1)] loop(2,3)
  show "fst (terminationWatcher api st) = TooManyRetries"
    and "calls (snd (terminationWatcher api st)) = calls st + 6"
    and "sleeps (trace (snd (terminationWatcher api st)))
          = sleeps (trace st) @ replicate 5 (1 * Second)"
    and "last (trace (snd (terminationWatcher api st))) = Cancelled"
    by simp_all
qed

theorem query_failures_tolerated_witness:
  "(5::nat) \<le> 5
   \<and> failed (failingThen 5 (Found None) (calls start + 4))
   \<and> \<not> failed (failingThen 5 (Found None) (calls start + 5))
   \<and> fst (terminationWatcher (failingThen 5 (Found None)) start) \<noteq> TooManyRetries
   \<and> calls (snd (queryLoop (failingThen 5 (Found None)) 0 start)) = 6
   \<and> failed (failingThen 6 (Found None) (calls start + 5))
   \<and> fst (terminationWatcher (failingThen 6 (Found None)) start) = TooManyRetries
   \<and> calls (snd (terminationWatcher (failingThen 6 (Found None)) start)) = 6
   \<and> sleeps (trace (snd (terminationWatcher (failingThen 6 (Found None)) start)))
       = replicate 5 (1 * Second)"
proof -
  have five: "\<forall>k<5. failed (failingThen 5 (Found None) (calls start + k))"
    "\<not> failed (failingThen 5 (Found None) (calls start + 5))"
    "failed (failingThen 5 (Found None) (calls start + 4))"
    by (simp_all add: failingThen_def failed_def start_def)
  have six: "\<forall>k<6. failed (failingThen 6 (Found None) (calls start + k))"
    "failed (failingThen 6 (Found None) (calls start + 5))"
    by (simp_all add: failingThen_def failed_def start_def)
  have s: "calls start = 0" "sleeps (trace start) = []"
    by (simp_all add: start_def)
  from query_failures_tolerated [of 5 "failingThen 5 (Found None)" start] five s
  have a: "fst (terminationWatcher (failingThen 5 (Found None)) start) \<noteq> TooManyRetries"
    "calls (snd (queryLoop (failingThen 5 (Found None)) 0 start)) = 6"
    by simp_all
  from query_failures_tolerated [of 5 "failingThen 6 (Found None)" start] six s
  have b: "fst (terminationWatcher (failingThen 6 (Found None)) start) = TooManyRetries"
    "calls (snd (terminationWatcher (failingThen 6 (Found None)) start)) = 6"
    "sleeps (trace (snd (terminationWatcher (failingThen 6 (Found None)) start)))
       = replicate 5 (1 * Second)"
    by simp_all
  from five six a b show ?thesis by simp
qed

subsection \<open>The wait for the installation to go\<close>

lemma waiting_log_fields:
  "clock (logf Info msg st1) = clock st1"
  "calls (logf Info msg st1) = calls st1"
  "queryTimes (trace (logf Info msg st1)) = queryTimes (trace st1)"
  "sleeps (trace (logf Info msg st1)) = sleeps (trace st1)"
  by (simp_all add: step_fields queryTimes_append sleeps_append)

text \<open>
  Claim C1, as the source has it. For every run in which the first loop reads an
  installation with its deletion timestamp set, the watcher ends in one of two ways,
  with the deadline 60 seconds after the first loop. It reports graceful termination
  complete exactly when some query of the wait, issued before the deadline, finds the
  installation gone; the log line is the last thing before the deferred cancel.
  Otherwise it logs the timeout warning and returns, with the clock at or past the
  deadline.

  The wait is bounded. It makes \<open>m\<close> queries, at the times \<open>pollTime\<close> gives: each
  one second after the answer to the one before it, and every one of them before the
  deadline. A wait that times out has slept one second after each query and ends at the
  test of the loop that follows the last sleep, less than the answering time of the last
  query plus one second after the deadline. A wait that ends gracefully ends with the
  answer to its last query, which is the one that finds the installation gone.
\<close>

theorem bounded_graceful_wait:
  "queryLoop api 0 st = (Inr (Some ts), st1) \<Longrightarrow>
   (fst (terminationWatcher api st) = GracefulComplete
      \<or> fst (terminationWatcher api st) = TimedOut)
   \<and> (fst (terminationWatcher api st) = GracefulComplete \<longleftrightarrow>
        (\<exists>j. result (api (calls st1 + j)) = NotFound
             \<and> pollTime api (clock st1) (calls st1) j < clock st1 + 60 * Second))
   \<and> (fst (terminationWatcher api st) = GracefulComplete \<longrightarrow>
        (\<exists>tr. trace (snd (terminationWatcher api st))
               = tr @ [Logged Info ''Graceful termination complete'', Cancelled]))
   \<and> (fst (terminationWatcher api st) = TimedOut \<longrightarrow>
        clock st1 + 60 * Second \<le> clock (snd (terminationWatcher api st))
        \<and> (\<exists>tr. trace (snd (terminationWatcher api st))
                 = tr @ [Logged Warning ''Timed out waiting for graceful shutdown to complete'',
                         Cancelled]))
   \<and> (\<exists>m. queryTimes (trace (snd (terminationWatcher api st)))
            = queryTimes (trace st1) @ map (pollTime api (clock st1) (calls st1)) [0..<m]
          \<and> calls (snd (terminationWatcher api st)) = calls st1 + m
          \<and> 0 < m
          \<and> (\<forall>j<m. pollTime api (clock st1) (calls st1) j < clock st1 + 60 * Second)
          \<and> (fst (terminationWatcher api st) = TimedOut \<longrightarrow>
               clock (snd (terminationWatcher api st)) = pollTime api (clock st1) (calls st1) m
               \<and> clock (snd (terminationWatcher api st))
                   < clock st1 + 60 * Second + took (api (calls st1 + (m - 1))) + 1 * Second
               \<and> sleeps (trace (snd (terminationWatcher api st)))
                   = sleeps (trace st1) @ replicate m (1 * Second))
          \<and> (fst (terminationWatcher api st) = GracefulComplete \<longrightarrow>
               result (api (calls st1 + (m - 1))) = NotFound
               \<and> clock (snd (terminationWatcher api st))
                   = pollTime api (clock st1) (calls st1) (m - 1)
                     + took (api (calls st1 + (m - 1)))
               \<and> sleeps (trace (snd (terminationWatcher api st)))
                   = sleeps (trace st1) @ replicate (m - 1) (1 * Second)))"
proof -
  assume first: "queryLoop api 0 st = (Inr (Some ts), st1)"
  define st2 where "st2 = logf Info ''Waiting up to 1m0s for graceful termination to complete'' st1"
  define deadline where "deadline = clock st1 + 60 * Second"
  define w where "w = waitLoop api deadline st2"
  define m where "m = calls (snd w) - calls st1"
  have watcher: "terminationWatcher api st = (fst w, cancel (snd w))"
    using terminationWatcher_waits [OF first] by (simp add: w_def st2_def deadline_def)
  have st2: "clock st2 = clock st1" "calls st2 = calls st1"
    "queryTimes (trace st2) = queryTimes (trace st1)" "sleeps (trace st2) = sleeps (trace st1)"
    by (simp_all add: st2_def waiting_log_fields)
  have one: "fst w = GracefulComplete \<or> fst w = TimedOut"
    unfolding w_def by (rule waitLoop_outcome)
  have two: "fst w = GracefulComplete \<longleftrightarrow>
      (\<exists>j. result (api (calls st1 + j)) = NotFound
           \<and> pollTime api (clock st1) (calls st1) j < deadline)"
    using waitLoop_graceful_iff [of api deadline st2]
    by (simp add: w_def st2)
  have three: "fst w = GracefulComplete \<longrightarrow>
      (\<exists>tr. trace (cancel (snd w)) = tr @ [Logged Info ''Graceful termination complete'', Cancelled])"
    using waitLoop_graceful_log [of api deadline st2]
    by (auto simp: w_def step_fields)
  have four: "fst w = TimedOut \<longrightarrow>
      deadline \<le> clock (cancel (snd w))
      \<and> (\<exists>tr. trace (cancel (snd w))
               = tr @ [Logged Warning ''Timed out waiting for graceful shutdown to complete'',
                       Cancelled])"
    using waitLoop_timed_out [of api deadline st2]
    by (auto simp: w_def step_fields)
  have mono: "calls st1 \<le> calls (snd w)"
    using waitLoop_calls_mono [of st2 api deadline] by (simp add: w_def st2)
  have queries: "queryTimes (trace (cancel (snd w)))
      = queryTimes (trace st1) @ map (pollTime api (clock st1) (calls st1)) [0..<m]"
    using waitLoop_queries [of api deadline st2]
    by (auto simp: w_def m_def st2 step_fields queryTimes_append)
  have count: "calls (cancel (snd w)) = calls st1 + m"
    using mono by (simp add: m_def step_fields)
  have before: "\<forall>j<m. pollTime api (clock st1) (calls st1) j < deadline"
    using waitLoop_before_deadline [of _ api deadline st2] by (simp add: w_def m_def st2)
  have timed: "clock (cancel (snd w)) = pollTime api (clock st1) (calls st1) m
      \<and> sleeps (trace (cancel (snd w))) = sleeps (trace st1) @ replicate m (1 * Second)"
    if "fst w = TimedOut"
    using waitLoop_timed_out_exit [of api deadline st2] that
    by (simp add: w_def m_def st2 step_fields sleeps_append)
  have graceful: "0 < m \<and> result (api (calls st1 + (m - 1))) = NotFound
      \<and> clock (cancel (snd w))
          = pollTime api (clock st1) (calls st1) (m - 1) + took (api (calls st1 + (m - 1)))
      \<and> sleeps (trace (cancel (snd w))) = sleeps (trace st1) @ replicate (m - 1) (1 * Second)"
    if "fst w = GracefulComplete"
  proof -
    from waitLoop_graceful_exit [of api deadline st2] that
    obtain i where "m = Suc i" "result (api (calls st1 + i)) = NotFound"
      "clock (snd w) = pollTime api (clock st1) (calls st1) i + took (api (calls st1 + i))"
      "sleeps (trace (snd w)) = sleeps (trace st1) @ replicate i (1 * Second)"
      unfolding w_def m_def st2 by blast
    then show ?thesis by (simp add: step_fields sleeps_append)
  qed
  have positive: "0 < m"
  proof (cases "fst w = TimedOut")
    case True
    show ?thesis
    proof (rule ccontr)
      assume "\<not> 0 < m"
      with timed [OF True] have "clock (cancel (snd w)) = clock st1" by simp
      with four True show False by (simp add: deadline_def)
    qed
  next
    case False
    with one graceful show ?thesis by blast
  qed
  then obtain i where i: "m = Suc i" by (cases m) auto
  have late: "clock (cancel (snd w)) < deadline + took (api (calls st1 + (m - 1))) + 1 * Second"
    if "fst w = TimedOut"
  proof -
    from before i have "pollTime api (clock st1) (calls st1) i < deadline" by simp
    with timed [OF that] i show ?thesis by (simp add: pollTime_Suc del: pollTime.simps)
  qed
  have five: "queryTimes (trace (cancel (snd w)))
        = queryTimes (trace st1) @ map (pollTime api (clock st1) (calls st1)) [0..<m]
      \<and> calls (cancel (snd w)) = calls st1 + m
      \<and> 0 < m
      \<and> (\<forall>j<m. pollTime api (clock st1) (calls st1) j < deadline)
      \<and> (fst w = TimedOut \<longrightarrow>
           clock (cancel (snd w)) = pollTime api (clock st1) (calls st1) m
           \<and> clock (cancel (snd w)) < deadline + took (api (calls st1 + (m - 1))) + 1 * Second
           \<and> sleeps (trace (cancel (snd w))) = sleeps (trace st1) @ replicate m (1 * Second))
      \<and> (fst w = GracefulComplete \<longrightarrow>
           result (api (calls st1 + (m - 1))) = NotFound
           \<and> clock (cancel (snd w))
               = pollTime api (clock st1) (calls st1) (m - 1) + took (api (calls st1 + (m - 1)))
           \<and> sleeps (trace (cancel (snd w)))
               = sleeps (trace st1) @ replicate (m - 1) (1 * Second))"
    using queries count positive before timed late graceful by blast
  from one two three four five show ?thesis
    unfolding watcher fst_conv snd_conv deadline_def by blast
qed

theorem bounded_graceful_wait_witness:
  "queryLoop removedAtFourth 0 start
     = (Inr (Some 0), \<lparr> clock = 0, calls = 1, trace = [Queried 0] \<rparr>)
   \<and> result (removedAtFourth (1 + 2)) = NotFound
   \<and> pollTime removedAtFourth 0 1 2 < 0 + 60 * Second
   \<and> fst (terminationWatcher removedAtFourth start) = GracefulComplete
   \<and> queryLoop neverRemoved 0 start
       = (Inr (Some 0), \<lparr> clock = 0, calls = 1, trace = [Queried 0] \<rparr>)
   \<and> fst (terminationWatcher neverRemoved start) = TimedOut
   \<and> 0 + 60 * Second \<le> clock (snd (terminationWatcher neverRemoved start))"
proof -
  let ?st1 = "\<lparr> clock = 0, calls = 1, trace = [Queried 0] \<rparr>"
  have q1: "queryLoop removedAtFourth 0 start = (Inr (Some 0), ?st1)"
    by (simp add: queryLoop_answered removedAtFourth_def start_def run_defs)
  have q2: "queryLoop neverRemoved 0 start = (Inr (Some 0), ?st1)"
    by (simp add: queryLoop_answered neverRemoved_def start_def run_defs)
  have gone: "result (removedAtFourth (1 + 2)) = NotFound"
    by (simp add: removedAtFourth_def)
  have early: "pollTime removedAtFourth 0 1 2 < 0 + 60 * Second"
    by (simp add: numeral_2_eq_2 removedAtFourth_def)
  have never: "\<not> (\<exists>j. result (neverRemoved (calls ?st1 + j)) = NotFound
      \<and> pollTime neverRemoved (clock ?st1) (calls ?st1) j < clock ?st1 + 60 * Second)"
    by (simp add: neverRemoved_def)
  have "result (removedAtFourth (calls ?st1 + 2)) = NotFound
      \<and> pollTime removedAtFourth (clock ?st1) (calls ?st1) 2 < clock ?st1 + 60 * Second"
    using gone early by simp
  then have found: "\<exists>j. result (removedAtFourth (calls ?st1 + j)) = NotFound
      \<and> pollTime removedAtFourth (clock ?st1) (calls ?st1) j < clock ?st1 + 60 * Second"
    by (rule exI)
  have a: "fst (terminationWatcher removedAtFourth start) = GracefulComplete"
    using bounded_graceful_wait [OF q1] found by blast
  have b: "fst (terminationWatcher neverRemoved start) = TimedOut
      \<and> clock ?st1 + 60 * Second \<le> clock (snd (terminationWatcher neverRemoved start))"
    using bounded_graceful_wait [OF q2] never by blast
  from q1 q2 gone early a b show ?thesis by simp
qed

text \<open>
  The claim as the specification words it, with a query every 5 seconds, fails on the
  cluster where the installation is never removed and every query is answered at once:
  the queries of the wait are issued at 0, 1 and 2 seconds and so on, one second apart,
  until the watcher times out with the clock at 60 seconds.
\<close>

theorem poll_interval_counterexample:
  "fst (terminationWatcher neverRemoved start) = TimedOut
   \<and> clock (snd (terminationWatcher neverRemoved start)) = 60 * Second
   \<and> take 4 (queryTimes (trace (snd (terminationWatcher neverRemoved start))))
       = [0, 0, 1 * Second, 2 * Second]
   \<and> spec_pollsEvery (1 * Second)
       (tl (queryTimes (trace (snd (terminationWatcher neverRemoved start)))))
   \<and> \<not> spec_pollsEvery (5 * Second)
       (tl (queryTimes (trace (snd (terminationWatcher neverRemoved start)))))"
  by (simp add: terminationWatcher_def queryLoop_answered waitLoop_timeout waitLoop_gone
        waitLoop_continue neverRemoved_def start_def run_defs Let_def)

subsection \<open>The preflight check of the log storage\<close>

text \<open>
  Claim C3. For every cluster and every setting of the options: configured as external
  with the internal-only secret present, and configured as internal with the
  external-only secret present, \<^verbatim>\<open>verifyConfiguration\<close> returns the refusal and
  \<^verbatim>\<open>main\<close> exits with code 1; with the secret in question absent (not found),
  it returns no error and \<^verbatim>\<open>main\<close> goes on.
\<close>

theorem storage_topology_check:
  "(ElasticExternal opts
      \<and> cs (ElasticsearchNamespace names) (TigeraElasticsearchInternalCertSecret names)
          = SecretFound \<longrightarrow>
      verifyConfiguration names cs opts =
        Some (''refusing to run: configured as external ES but secret/''
              @ TigeraElasticsearchInternalCertSecret names
              @ '' found which suggests internal ES'')
      \<and> main_verifyConfiguration names cs opts = Some 1)
   \<and> (\<not> ElasticExternal opts
        \<and> cs (ElasticsearchNamespace names) (ExternalCertsSecret names) = SecretFound \<longrightarrow>
        verifyConfiguration names cs opts =
          Some (''refusing to run: configured as internal-es but secret/''
                @ ExternalCertsSecret names @ '' found which suggests external ES'')
        \<and> main_verifyConfiguration names cs opts = Some 1)
   \<and> (ElasticExternal opts
        \<and> cs (ElasticsearchNamespace names) (TigeraElasticsearchInternalCertSecret names)
            = SecretNotFound \<longrightarrow>
        verifyConfiguration names cs opts = None
        \<and> main_verifyConfiguration names cs opts = None)
   \<and> (\<not> ElasticExternal opts
        \<and> cs (ElasticsearchNamespace names) (ExternalCertsSecret names) = SecretNotFound \<longrightarrow>
        verifyConfiguration names cs opts = None
        \<and> main_verifyConfiguration names cs opts = None)"
  by (simp add: verifyConfiguration_def main_verifyConfiguration_def)

theorem storage_topology_check_witness:
  "ElasticExternal \<lparr> ElasticExternal = True \<rparr>
   \<and> onlySecret ''internal-es-cert'' (ElasticsearchNamespace sampleNames)
       (TigeraElasticsearchInternalCertSecret sampleNames) = SecretFound
   \<and> main_verifyConfiguration sampleNames (onlySecret ''internal-es-cert'')
       \<lparr> ElasticExternal = True \<rparr> = Some 1
   \<and> \<not> ElasticExternal \<lparr> ElasticExternal = False \<rparr>
   \<and> onlySecret ''external-es-certs'' (ElasticsearchNamespace sampleNames)
       (ExternalCertsSecret sampleNames) = SecretFound
   \<and> main_verifyConfiguration sampleNames (onlySecret ''external-es-certs'')
       \<lparr> ElasticExternal = False \<rparr> = Some 1
   \<and> noSecret (ElasticsearchNamespace sampleNames)
       (TigeraElasticsearchInternalCertSecret sampleNames) = SecretNotFound
   \<and> verifyConfiguration sampleNames noSecret \<lparr> ElasticExternal = True \<rparr> = None
   \<and> noSecret (ElasticsearchNamespace sampleNames) (ExternalCertsSecret sampleNames)
       = SecretNotFound
   \<and> verifyConfiguration sampleNames noSecret \<lparr> ElasticExternal = False \<rparr> = None"
proof -
  have found: "onlySecret ''internal-es-cert'' (ElasticsearchNamespace sampleNames)
        (TigeraElasticsearchInternalCertSecret sampleNames) = SecretFound"
    "onlySecret ''external-es-certs'' (ElasticsearchNamespace sampleNames)
        (ExternalCertsSecret sampleNames) = SecretFound"
    by (simp_all add: onlySecret_def sampleNames_def)
  have absent: "noSecret (ElasticsearchNamespace sampleNames)
        (TigeraElasticsearchInternalCertSecret sampleNames) = SecretNotFound"
    "noSecret (ElasticsearchNamespace sampleNames) (ExternalCertsSecret sampleNames)
        = SecretNotFound"
    by (simp_all add: noSecret_def)
  have a: "main_verifyConfiguration sampleNames (onlySecret ''internal-es-cert'')
      \<lparr> ElasticExternal = True \<rparr> = Some 1"
    using storage_topology_check [of "\<lparr> ElasticExternal = True \<rparr>"
        "onlySecret ''internal-es-cert''" sampleNames] found(1)
    by simp
  have b: "main_verifyConfiguration sampleNames (onlySecret ''external-es-certs'')
      \<lparr> ElasticExternal = False \<rparr> = Some 1"
    using storage_topology_check [of "\<lparr> ElasticExternal = False \<rparr>"
        "onlySecret ''external-es-certs''" sampleNames] found(2)
    by simp
  have c: "verifyConfiguration sampleNames noSecret \<lparr> ElasticExternal = True \<rparr> = None"
    using storage_topology_check [of "\<lparr> ElasticExternal = True \<rparr>" noSecret sampleNames]
      absent(1)
    by simp
  have d: "verifyConfiguration sampleNames noSecret \<lparr> ElasticExternal = False \<rparr> = None"
    using storage_topology_check [of "\<lparr> ElasticExternal = False \<rparr>" noSecret sampleNames]
      absent(2)
    by simp
  from found absent a b c d show ?thesis by simp
qed

section \<open>Validation reads and does not write\<close>

subsection \<open>Steps that leave the world as it is\<close>

lemma proceed_same:
  "proceed (Returned r, w) next = (case r of None \<Rightarrow> next w | Some e \<Rightarrow> (Returned (Some e), w))"
  by (simp add: proceed_def split: option.split)

lemma quiet_call:
  assumes "quiet ext"
  shows "call_VerifySysctl ext x w = (VerifySysctl (answersIn ext w) x, w)"
    and "call_GetIPv4Pool ext p w = (GetIPv4Pool (answersIn ext w) p, w)"
    and "call_GetInitContainers ext ds w = (GetInitContainers (answersIn ext w) ds, w)"
    and "call_ValidateCalicoNodeDaemonSet ext ds w
           = (ValidateCalicoNodeDaemonSet (answersIn ext w) ds, w)"
    and "call_ValidateCalicoNodeWindowsDaemonSet ext wds w
           = (ValidateCalicoNodeWindowsDaemonSet (answersIn ext w) wds, w)"
    and "call_ValidateCalicoKubeControllersDeployment ext kc w
           = (ValidateCalicoKubeControllersDeployment (answersIn ext w) kc, w)"
    and "call_ValidateTyphaDeployment ext ty w = (ValidateTyphaDeployment (answersIn ext w) ty, w)"
    and "call_ValidateCSINodeDriverDaemonSet ext csi w
           = (ValidateCSINodeDriverDaemonSet (answersIn ext w) csi, w)"
  using assms by (simp_all add: quiet_def answersIn_def prod_eq_iff)

lemma calicoNetworkCheck_proc_quiet:
  assumes "quiet ext"
  shows "calicoNetworkCheck_proc ext cni w
    = (Returned (calicoNetworkCheck (answersIn ext w) (Spec (installation w)) cni), w)"
  by (simp add: calicoNetworkCheck_proc_def calicoNetworkCheck_def calicoNetworkReads_def
        sysctlCheck_proc_def sysctlCheck_def policySetupTimeoutCheck_proc_def proceed_same
        quiet_call(1) [OF assms]
      split: option.split)

lemma nodeDaemonSetCheck_proc_quiet:
  assumes "quiet ext"
  shows "nodeDaemonSetCheck_proc ext w
    = (Returned (nodeDaemonSetCheck (answersIn ext w) (Spec (installation w))), w)"
  by (simp add: nodeDaemonSetCheck_proc_def nodeDaemonSetCheck_def
        quiet_call(3,4) [OF assms]
      split: option.split)

lemma overrideCheck_proc_quiet:
  assumes "\<And>d. validate d w = (answer d, w)"
  shows "overrideCheck_proc validate field name w
    = (Returned (overrideCheck answer (field (Spec (installation w))) name), w)"
  by (simp add: overrideCheck_proc_def overrideCheck_def assms split: option.split)

lemma overridesCheck_proc_quiet:
  assumes "quiet ext"
  shows "overridesCheck_proc ext w
    = (Returned (overridesCheck (answersIn ext w) (Spec (installation w))), w)"
  by (simp add: overridesCheck_proc_def overridesCheck_def proceed_same
        nodeDaemonSetCheck_proc_quiet [OF assms]
        overrideCheck_proc_quiet [where answer = "ValidateCalicoNodeWindowsDaemonSet (answersIn ext w)"]
        overrideCheck_proc_quiet [where answer = "ValidateCalicoKubeControllersDeployment (answersIn ext w)"]
        overrideCheck_proc_quiet [where answer = "ValidateTyphaDeployment (answersIn ext w)"]
        overrideCheck_proc_quiet [where answer = "ValidateCSINodeDriverDaemonSet (answersIn ext w)"]
        quiet_call [OF assms]
      split: option.split)

lemma windowsCheck_proc_quiet:
  assumes "quiet ext"
  shows "windowsCheck_proc ext cni w
    = (Returned (windowsCheck (answersIn ext w) (clusterFacts w) (Spec (installation w)) cni), w)"
  by (simp add: windowsCheck_proc_def windowsCheck_def quiet_call(2) [OF assms]
      split: option.split)

lemma afterOverrides_quiet:
  assumes "quiet ext" and "CNI (Spec (installation w)) = Some cni"
  shows "afterOverrides ext w
    = (Returned
        (case nonCalicoLoggingCheck (Spec (installation w)) cni of
           Some e \<Rightarrow> Some e
         | None \<Rightarrow>
        (case windowsCheck (answersIn ext w) (clusterFacts w) (Spec (installation w)) cni of
           Some e \<Rightarrow> Some e
         | None \<Rightarrow>
        (case fipsCheck (Spec (installation w)) of
           Some e \<Rightarrow> Some e
         | None \<Rightarrow> azureCheck (Spec (installation w))))), w)"
  by (simp add: afterOverrides_def reading_def proceed_same assms(2)
        windowsCheck_proc_quiet [OF assms(1)]
      split: option.split)

text \<open>
  With collaborators that write nothing the procedure returns what the function
  returns on the installation and the facts of the world, for the answers that the
  collaborators give in that world, and it leaves the world as it found it.
\<close>

lemma validateCustomResource_proc_quiet:
  assumes "quiet ext"
  shows "validateCustomResource_proc ext w
    = (Returned (validateCustomResource (answersIn ext w) (clusterFacts w) (installation w)), w)"
proof (cases "CNI (Spec (installation w))")
  case None
  then show ?thesis
    by (simp add: validateCustomResource_proc_def validateCustomResource_def)
next
  case (Some cni)
  then show ?thesis
    by (simp add: validateCustomResource_proc_def validateCustomResource_def
          reading_def proceed_same
          calicoNetworkCheck_proc_quiet [OF assms]
          overridesCheck_proc_quiet [OF assms]
          afterOverrides_quiet [OF assms Some]
        split: option.split)
qed

subsection \<open>Every write is a collaborator's\<close>

lemma proceed_keeps:
  assumes "P (snd r)" and "\<And>v. P v \<Longrightarrow> P (snd (next v))"
  shows "P (snd (proceed r next))"
proof (cases r)
  case (Pair a v)
  with assms(1) have v: "P v" by simp
  show ?thesis
  proof (cases a)
    case (Returned e)
    with Pair v assms(2) [OF v] show ?thesis
      by (cases e) (simp_all add: proceed_def)
  next
    case Panicked
    with Pair v show ?thesis by (simp add: proceed_def)
  qed
qed

lemma reading_keeps: "P v \<Longrightarrow> P (snd (reading test v))"
  by (simp add: reading_def)

lemma keeps_call:
  assumes "keeps P ext" and "P w"
  shows "call_VerifySysctl ext x1 w = (r1, w1) \<Longrightarrow> P w1"
    and "call_GetIPv4Pool ext x2 w = (r2, w2) \<Longrightarrow> P w2"
    and "call_GetInitContainers ext x3 w = (r3, w3) \<Longrightarrow> P w3"
    and "call_ValidateCalicoNodeDaemonSet ext x4 w = (r4, w4) \<Longrightarrow> P w4"
    and "call_ValidateCalicoNodeWindowsDaemonSet ext x5 w = (r5, w5) \<Longrightarrow> P w5"
    and "call_ValidateCalicoKubeControllersDeployment ext x6 w = (r6, w6) \<Longrightarrow> P w6"
    and "call_ValidateTyphaDeployment ext x7 w = (r7, w7) \<Longrightarrow> P w7"
    and "call_ValidateCSINodeDriverDaemonSet ext x8 w = (r8, w8) \<Longrightarrow> P w8"
proof -
  from assms have all: "P (snd (call_VerifySysctl ext x1 w))"
    "P (snd (call_GetIPv4Pool ext x2 w))"
    "P (snd (call_GetInitContainers ext x3 w))"
    "P (snd (call_ValidateCalicoNodeDaemonSet ext x4 w))"
    "P (snd (call_ValidateCalicoNodeWindowsDaemonSet ext x5 w))"
    "P (snd (call_ValidateCalicoKubeControllersDeployment ext x6 w))"
    "P (snd (call_ValidateTyphaDeployment ext x7 w))"
    "P (snd (call_ValidateCSINodeDriverDaemonSet ext x8 w))"
    by (simp_all add: keeps_def)
  show "call_VerifySysctl ext x1 w = (r1, w1) \<Longrightarrow> P w1" using all(1) by simp
  show "call_GetIPv4Pool ext x2 w = (r2, w2) \<Longrightarrow> P w2" using all(2) by simp
  show "call_GetInitContainers ext x3 w = (r3, w3) \<Longrightarrow> P w3" using all(3) by simp
  show "call_ValidateCalicoNodeDaemonSet ext x4 w = (r4, w4) \<Longrightarrow> P w4" using all(4) by simp
  show "call_ValidateCalicoNodeWindowsDaemonSet ext x5 w = (r5, w5) \<Longrightarrow> P w5"
    using all(5) by simp
  show "call_ValidateCalicoKubeControllersDeployment ext x6 w = (r6, w6) \<Longrightarrow> P w6"
    using all(6) by simp
  show "call_ValidateTyphaDeployment ext x7 w = (r7, w7) \<Longrightarrow> P w7" using all(7) by simp
  show "call_ValidateCSINodeDriverDaemonSet ext x8 w = (r8, w8) \<Longrightarrow> P w8"
    using all(8) by simp
qed

lemma sysctlCheck_proc_keeps:
  assumes "keeps P ext" and "P u"
  shows "P (snd (sysctlCheck_proc ext cn u))"
proof (cases "Sysctl cn")
  case None
  with assms(2) show ?thesis by (simp add: sysctlCheck_proc_def)
next
  case (Some pluginData)
  obtain err u1 where call: "call_VerifySysctl ext pluginData u = (err, u1)"
    by (cases "call_VerifySysctl ext pluginData u")
  from keeps_call(1) [OF assms call] have "P u1" .
  with Some call show ?thesis by (simp add: sysctlCheck_proc_def)
qed

lemma policySetupTimeoutCheck_proc_keeps: "P u \<Longrightarrow> P (snd (policySetupTimeoutCheck_proc u))"
  by (simp add: policySetupTimeoutCheck_proc_def split: option.split)

lemma calicoNetworkCheck_proc_keeps:
  assumes "keeps P ext" and "P v"
  shows "P (snd (calicoNetworkCheck_proc ext cni v))"
proof (cases "CalicoNetwork (Spec (installation v))")
  case None
  with assms(2) show ?thesis by (simp add: calicoNetworkCheck_proc_def)
next
  case (Some cn)
  have inner: "P (snd (proceed (sysctlCheck_proc ext cn u) policySetupTimeoutCheck_proc))"
    if "P u" for u
    using that
    by (intro proceed_keeps [where P = P] sysctlCheck_proc_keeps [OF assms(1)]
          policySetupTimeoutCheck_proc_keeps [where P = P])
  have "P (snd (proceed (Returned (calicoNetworkReads ext (Spec (installation v)) cni cn v), v)
      (\<lambda>w. proceed (sysctlCheck_proc ext cn w) policySetupTimeoutCheck_proc)))"
  proof (rule proceed_keeps [where P = P])
    show "P (snd (Returned (calicoNetworkReads ext (Spec (installation v)) cni cn v), v))"
      using assms(2) by simp
  qed (rule inner)
  with Some show ?thesis by (simp add: calicoNetworkCheck_proc_def)
qed

lemma nodeDaemonSetCheck_proc_keeps:
  assumes "keeps P ext" and "P v"
  shows "P (snd (nodeDaemonSetCheck_proc ext v))"
proof (cases "CalicoNodeDaemonSet (Spec (installation v))")
  case None
  with assms(2) show ?thesis by (simp add: nodeDaemonSetCheck_proc_def)
next
  case (Some ds)
  obtain err v1 where one: "call_ValidateCalicoNodeDaemonSet ext ds v = (err, v1)"
    by (cases "call_ValidateCalicoNodeDaemonSet ext ds v")
  obtain cs v2 where two: "call_GetInitContainers ext ds v1 = (cs, v2)"
    by (cases "call_GetInitContainers ext ds v1")
  from keeps_call(4) [OF assms one] have "P v1" .
  from keeps_call(3) [OF assms(1) this two] have "P v2" .
  with Some one two show ?thesis
    by (simp add: nodeDaemonSetCheck_proc_def split: option.split)
qed

lemma overrideCheck_proc_keeps:
  assumes "\<And>d u. P u \<Longrightarrow> P (snd (validate d u))" and "P v"
  shows "P (snd (overrideCheck_proc validate field name v))"
proof (cases "field (Spec (installation v))")
  case None
  with assms(2) show ?thesis by (simp add: overrideCheck_proc_def)
next
  case (Some d)
  obtain err v1 where call: "validate d v = (err, v1)" by (cases "validate d v")
  with assms(1) [OF assms(2), of d] have "P v1" by simp
  with Some call show ?thesis
    by (simp add: overrideCheck_proc_def split: option.split)
qed

lemma overridesCheck_proc_keeps:
  assumes "keeps P ext" and "P v"
  shows "P (snd (overridesCheck_proc ext v))"
proof -
  have a: "P (snd (call_ValidateCalicoNodeWindowsDaemonSet ext d u))" if "P u" for d u
    using assms(1) that by (simp add: keeps_def)
  have b: "P (snd (call_ValidateCalicoKubeControllersDeployment ext d u))" if "P u" for d u
    using assms(1) that by (simp add: keeps_def)
  have c: "P (snd (call_ValidateTyphaDeployment ext d u))" if "P u" for d u
    using assms(1) that by (simp add: keeps_def)
  have d: "P (snd (call_ValidateCSINodeDriverDaemonSet ext d u))" if "P u" for d u
    using assms(1) that by (simp add: keeps_def)
  have four: "P (snd (overrideCheck_proc (call_ValidateCSINodeDriverDaemonSet ext)
      CSINodeDriverDaemonSet ''CSINodeDriverDaemonSet'' u))" if "P u" for u
    using d that by (rule overrideCheck_proc_keeps [where P = P])
  have three: "P (snd (proceed (overrideCheck_proc (call_ValidateTyphaDeployment ext)
        TyphaDeployment ''TyphaDeployment'' u)
      (overrideCheck_proc (call_ValidateCSINodeDriverDaemonSet ext)
        CSINodeDriverDaemonSet ''CSINodeDriverDaemonSet'')))" if "P u" for u
  proof (rule proceed_keeps [where P = P])
    show "P (snd (overrideCheck_proc (call_ValidateTyphaDeployment ext)
        TyphaDeployment ''TyphaDeployment'' u))"
      using c that by (rule overrideCheck_proc_keeps [where P = P])
  qed (rule four)
  have two: "P (snd (proceed (overrideCheck_proc (call_ValidateCalicoKubeControllersDeployment ext)
        CalicoKubeControllersDeployment ''CalicoKubeControllersDeployment'' u)
      (\<lambda>w. proceed (overrideCheck_proc (call_ValidateTyphaDeployment ext)
              TyphaDeployment ''TyphaDeployment'' w)
       (overrideCheck_proc (call_ValidateCSINodeDriverDaemonSet ext)
          CSINodeDriverDaemonSet ''CSINodeDriverDaemonSet''))))" if "P u" for u
  proof (rule proceed_keeps [where P = P])
    show "P (snd (overrideCheck_proc (call_ValidateCalicoKubeControllersDeployment ext)
        CalicoKubeControllersDeployment ''CalicoKubeControllersDeployment'' u))"
      using b that by (rule overrideCheck_proc_keeps [where P = P])
  qed (rule three)
  have one: "P (snd (proceed (overrideCheck_proc (call_ValidateCalicoNodeWindowsDaemonSet ext)
        CalicoNodeWindowsDaemonSet ''CalicoNodeWindowsDaemonSet'' u)
      (\<lambda>w. proceed (overrideCheck_proc (call_ValidateCalicoKubeControllersDeployment ext)
              CalicoKubeControllersDeployment ''CalicoKubeControllersDeployment'' w)
      (\<lambda>w. proceed (overrideCheck_proc (call_ValidateTyphaDeployment ext)
              TyphaDeployment ''TyphaDeployment'' w)
       (overrideCheck_proc (call_ValidateCSINodeDriverDaemonSet ext)
          CSINodeDriverDaemonSet ''CSINodeDriverDaemonSet'')))))" if "P u" for u
  proof (rule proceed_keeps [where P = P])
    show "P (snd (overrideCheck_proc (call_ValidateCalicoNodeWindowsDaemonSet ext)
        CalicoNodeWindowsDaemonSet ''CalicoNodeWindowsDaemonSet'' u))"
      using a that by (rule overrideCheck_proc_keeps [where P = P])
  qed (rule two)
  show ?thesis
    unfolding overridesCheck_proc_def
  proof (rule proceed_keeps [where P = P])
    show "P (snd (nodeDaemonSetCheck_proc ext v))"
      using assms by (rule nodeDaemonSetCheck_proc_keeps [where P = P])
  qed (rule one)
qed

lemma windowsCheck_proc_keeps:
  assumes "keeps P ext" and "P v"
  shows "P (snd (windowsCheck_proc ext cni v))"
proof (cases "CalicoNetwork (Spec (installation v))")
  case None
  with assms(2) show ?thesis by (simp add: windowsCheck_proc_def)
next
  case (Some cn)
  obtain r v1 where call: "call_GetIPv4Pool ext (IPPools cn) v = (r, v1)"
    by (cases "call_GetIPv4Pool ext (IPPools cn) v")
  from keeps_call(2) [OF assms call] have "P v1" .
  with assms(2) Some call show ?thesis
    by (simp add: windowsCheck_proc_def split: option.split)
qed

lemma afterOverrides_keeps:
  assumes "keeps P ext" and "P v"
  shows "P (snd (afterOverrides ext v))"
proof (cases "CNI (Spec (installation v))")
  case None
  with assms(2) show ?thesis by (simp add: afterOverrides_def)
next
  case (Some cni)
  have last: "P (snd (proceed (reading fipsCheck u) (reading azureCheck)))" if "P u" for u
    using that by (intro proceed_keeps [where P = P] reading_keeps [where P = P])
  have windows: "P (snd (proceed (windowsCheck_proc ext cni u)
      (\<lambda>w. proceed (reading fipsCheck w) (reading azureCheck))))" if "P u" for u
  proof (rule proceed_keeps [where P = P])
    show "P (snd (windowsCheck_proc ext cni u))"
      using assms(1) that by (rule windowsCheck_proc_keeps [where P = P])
  qed (rule last)
  have "P (snd (proceed (reading (\<lambda>spec. nonCalicoLoggingCheck spec cni) v)
      (\<lambda>w. proceed (windowsCheck_proc ext cni w)
      (\<lambda>w. proceed (reading fipsCheck w) (reading azureCheck)))))"
  proof (rule proceed_keeps [where P = P])
    show "P (snd (reading (\<lambda>spec. nonCalicoLoggingCheck spec cni) v))"
      using assms(2) by (rule reading_keeps [where P = P])
  qed (rule windows)
  with Some show ?thesis by (simp add: afterOverrides_def)
qed

lemma proceed_reading_keeps:
  assumes "\<And>u. P u \<Longrightarrow> P (snd (next u))" and "P v"
  shows "P (snd (proceed (reading test v) next))"
proof (rule proceed_keeps [where P = P])
  show "P (snd (reading test v))" using assms(2) by (rule reading_keeps [where P = P])
qed (rule assms(1))

text \<open>
  Whatever the collaborators write, the validator and its helpers add no write of their
  own: a property of the world that every call of a collaborator keeps holds after
  validation when it holds before.
\<close>

lemma validateCustomResource_proc_keeps:
  assumes "keeps P ext" and "P w"
  shows "P (snd (validateCustomResource_proc ext w))"
proof (cases "CNI (Spec (installation w))")
  case None
  with assms(2) show ?thesis by (simp add: validateCustomResource_proc_def)
next
  case (Some cni)
  have overrides: "P (snd (proceed (overridesCheck_proc ext u) (afterOverrides ext)))"
    if "P u" for u
  proof (rule proceed_keeps [where P = P])
    show "P (snd (overridesCheck_proc ext u))"
      using assms(1) that by (rule overridesCheck_proc_keeps [where P = P])
  qed (rule afterOverrides_keeps [where P = P, OF assms(1)])
  have reads: "P (snd (proceed (reading volumePathsCheck u)
      (\<lambda>w. proceed (reading updateStrategyCheck w)
      (\<lambda>w. proceed (reading nodeSelectorCheck w)
      (\<lambda>w. proceed (reading replicasCheck w)
      (\<lambda>w. proceed (reading (\<lambda>spec. componentResourcesLoop (ComponentResources spec)) w)
      (\<lambda>w. proceed (reading nonPrivilegedCheck w)
      (\<lambda>w. proceed (overridesCheck_proc ext w) (afterOverrides ext)))))))))"
    if "P u" for u
    using that by (intro proceed_reading_keeps [where P = P] overrides)
  have network: "P (snd (proceed (calicoNetworkCheck_proc ext cni u)
      (\<lambda>w. proceed (reading volumePathsCheck w)
      (\<lambda>w. proceed (reading updateStrategyCheck w)
      (\<lambda>w. proceed (reading nodeSelectorCheck w)
      (\<lambda>w. proceed (reading replicasCheck w)
      (\<lambda>w. proceed (reading (\<lambda>spec. componentResourcesLoop (ComponentResources spec)) w)
      (\<lambda>w. proceed (reading nonPrivilegedCheck w)
      (\<lambda>w. proceed (overridesCheck_proc ext w) (afterOverrides ext))))))))))"
    if "P u" for u
  proof (rule proceed_keeps [where P = P])
    show "P (snd (calicoNetworkCheck_proc ext cni u))"
      using assms(1) that by (rule calicoNetworkCheck_proc_keeps [where P = P])
  qed (rule reads)
  have "P (snd (proceed (reading (\<lambda>spec. cniPluginCheck spec cni) w)
      (\<lambda>w. proceed (calicoNetworkCheck_proc ext cni w)
      (\<lambda>w. proceed (reading volumePathsCheck w)
      (\<lambda>w. proceed (reading updateStrategyCheck w)
      (\<lambda>w. proceed (reading nodeSelectorCheck w)
      (\<lambda>w. proceed (reading replicasCheck w)
      (\<lambda>w. proceed (reading (\<lambda>spec. componentResourcesLoop (ComponentResources spec)) w)
      (\<lambda>w. proceed (reading nonPrivilegedCheck w)
      (\<lambda>w. proceed (overridesCheck_proc ext w) (afterOverrides ext)))))))))))"
    using network assms(2) by (rule proceed_reading_keeps [where P = P])
  with Some show ?thesis by (simp add: validateCustomResource_proc_def)
qed

lemma quiet_keeps: "quiet ext \<Longrightarrow> keeps P ext"
  by (simp add: quiet_def keeps_def)

lemma readOnly_quiet: "quiet (readOnly ext)"
  by (simp add: quiet_def readOnly_def)

lemma answersIn_readOnly: "answersIn (readOnly ext) w = ext"
  by (simp add: answersIn_def readOnly_def)

subsection \<open>The claims\<close>

text \<open>
  Claim C8. With collaborators that write nothing (the inputs are immutable), the
  verdict of a call is the value of a function of the installation, of the facts and of
  the answers of the collaborators: the error of the first test that fails, or nil. A
  second call, made in the world the first call has left, returns the verdict of the
  first: the same pass or fail and, on failure, the same message.
\<close>

theorem validation_repeatable:
  "quiet ext \<Longrightarrow>
   fst (validateCustomResource_proc ext w)
     = Returned (validateCustomResource (answersIn ext w) (clusterFacts w) (installation w))
   \<and> fst (validateCustomResource_proc ext (snd (validateCustomResource_proc ext w)))
       = fst (validateCustomResource_proc ext w)"
  by (simp add: validateCustomResource_proc_quiet)

theorem validation_repeatable_witness:
  "quiet (readOnly lenientExternals)
   \<and> fst (validateCustomResource_proc (readOnly lenientExternals) bgpWorld)
       = Returned (Some ''BGP is not supported when using non-Calico CNI'')
   \<and> fst (validateCustomResource_proc (readOnly lenientExternals)
            (snd (validateCustomResource_proc (readOnly lenientExternals) bgpWorld)))
       = Returned (Some ''BGP is not supported when using non-Calico CNI'')"
proof -
  have quiet: "quiet (readOnly lenientExternals)" by (rule readOnly_quiet)
  have fails: "validateCustomResource lenientExternals linuxOnly gkeBgpOnePool
      = Some ''BGP is not supported when using non-Calico CNI''"
    by code_simp
  from validation_repeatable [OF quiet, of bgpWorld] fails quiet show ?thesis
    by (simp add: answersIn_readOnly bgpWorld_def)
qed

text \<open>
  Claim C9. With collaborators that write nothing, the world after validation is the
  world before it, and so is the installation, whether validation passes or fails: the
  statement holds for every verdict. Whatever the collaborators write,
  \<^verbatim>\<open>validateCustomResource\<close> and its helper validators add no write of their own: a
  property of the world that every call of a collaborator keeps holds after validation
  when it holds before.
\<close>

theorem validation_leaves_document:
  "(quiet ext \<longrightarrow>
      snd (validateCustomResource_proc ext w) = w
      \<and> installation (snd (validateCustomResource_proc ext w)) = installation w)
   \<and> (keeps P ext \<and> P w \<longrightarrow> P (snd (validateCustomResource_proc ext w)))"
proof (intro conjI impI)
  assume "quiet ext"
  then show "snd (validateCustomResource_proc ext w) = w"
    by (simp add: validateCustomResource_proc_quiet)
  then show "installation (snd (validateCustomResource_proc ext w)) = installation w"
    by simp
next
  assume "keeps P ext \<and> P w"
  then show "P (snd (validateCustomResource_proc ext w))"
    by (simp add: validateCustomResource_proc_keeps [where P = P])
qed

theorem validation_leaves_document_witness:
  "quiet (readOnly lenientExternals)
   \<and> fst (validateCustomResource_proc (readOnly lenientExternals) sysctlWorld) = Returned None
   \<and> snd (validateCustomResource_proc (readOnly lenientExternals) sysctlWorld) = sysctlWorld
   \<and> fst (validateCustomResource_proc (readOnly lenientExternals) bgpWorld)
       = Returned (Some ''BGP is not supported when using non-Calico CNI'')
   \<and> snd (validateCustomResource_proc (readOnly lenientExternals) bgpWorld) = bgpWorld
   \<and> keeps (\<lambda>v. clusterFacts v = linuxOnly) overwritingSysctl
   \<and> clusterFacts sysctlWorld = linuxOnly
   \<and> clusterFacts (snd (validateCustomResource_proc overwritingSysctl sysctlWorld)) = linuxOnly"
proof -
  have quiet: "quiet (readOnly lenientExternals)" by (rule readOnly_quiet)
  have passes: "validateCustomResource lenientExternals (clusterFacts sysctlWorld)
      (installation sysctlWorld) = None"
    by code_simp
  have fails: "validateCustomResource lenientExternals (clusterFacts bgpWorld)
      (installation bgpWorld) = Some ''BGP is not supported when using non-Calico CNI''"
    by code_simp
  have verdicts:
    "fst (validateCustomResource_proc (readOnly lenientExternals) sysctlWorld) = Returned None"
    "fst (validateCustomResource_proc (readOnly lenientExternals) bgpWorld)
       = Returned (Some ''BGP is not supported when using non-Calico CNI'')"
    using passes fails
    by (simp_all add: validateCustomResource_proc_quiet [OF quiet] answersIn_readOnly)
  have keeps: "keeps (\<lambda>v. clusterFacts v = linuxOnly) overwritingSysctl"
    by (simp add: keeps_def overwritingSysctl_def readOnly_def setSysctl_def)
  have facts: "clusterFacts sysctlWorld = linuxOnly" by (simp add: sysctlWorld_def)
  have a: "snd (validateCustomResource_proc (readOnly lenientExternals) sysctlWorld) = sysctlWorld"
    using validation_leaves_document [of "readOnly lenientExternals" sysctlWorld] quiet
    by blast
  have b: "snd (validateCustomResource_proc (readOnly lenientExternals) bgpWorld) = bgpWorld"
    using validation_leaves_document [of "readOnly lenientExternals" bgpWorld] quiet
    by blast
  have c: "clusterFacts (snd (validateCustomResource_proc overwritingSysctl sysctlWorld)) = linuxOnly"
    using validation_leaves_document [of overwritingSysctl sysctlWorld
        "\<lambda>v. clusterFacts v = linuxOnly"] keeps facts
    by blast
  from quiet verdicts a b keeps facts c show ?thesis by simp
qed

text \<open>
  The condition on the collaborators is needed. With a \<^verbatim>\<open>utils.VerifySysctl\<close> that
  overwrites the values of the slice it is given, validation passes and the installation
  it leaves is not the one it was called on.
\<close>

lemma writing_collaborator_changes_document:
  "fst (validateCustomResource_proc overwritingSysctl sysctlWorld) = Returned None
   \<and> map_option Sysctl (CalicoNetwork (Spec (installation sysctlWorld)))
       = Some (Some [\<lparr> Sysctl_Key = ''net.ipv4.tcp_keepalive_time'', Sysctl_Value = ''600'' \<rparr>])
   \<and> map_option Sysctl
         (CalicoNetwork (Spec (installation
            (snd (validateCustomResource_proc overwritingSysctl sysctlWorld)))))
       = Some (Some [\<lparr> Sysctl_Key = ''net.ipv4.tcp_keepalive_time'', Sysctl_Value = ''0'' \<rparr>])"
  by code_simp

end
